(* ===== verification/Prelude.thy ===== *)
theory Prelude
  imports Main
begin

text \<open>
  Shared vocabulary of the development: the identifiers every entity carries, the
  client's error values (the exceptions that \<^verbatim>\<open>zenml.client.Client\<close> raises and
  that the commands of \<^verbatim>\<open>src/zenml/cli/pipeline.py\<close> catch or let through), the
  positional digit encoding used by the UUID and version literals, and the generic
  lemmas on lists and options the component theories share.  The collection
  \<open>model_simps\<close> gathers the equations of the model's helper functions that the
  component proofs hand to \<open>simp\<close>.
\<close>

named_theorems model_simps "equations of the model's helper functions used by simp"

section \<open>Identifiers and errors\<close>

text \<open>
  Every persisted entity (pipeline, build, run, schedule, stack) is identified by a
  generated identifier.  Internally it is a number; its printed form is a UUID
  literal (theory \<open>Ids\<close>).
\<close>

type_synonym entity_id = nat

text \<open>
  The errors of the client layer.  \<open>NotFound\<close> and \<open>AmbiguousReference\<close> are the
  \<^verbatim>\<open>KeyError\<close> (and its subclass \<^verbatim>\<open>ZenKeyError\<close>) that the delete and list commands
  catch; \<open>InvalidArgument\<close> is a \<^verbatim>\<open>ValueError\<close>, which no command catches;
  \<open>StorageError\<close> is a failure of the backing store, and \<open>CascadeFailed\<close> wraps the
  store failure that aborted a transactional cascade.
\<close>

datatype client_error =
    NotFound string
  | AmbiguousReference "entity_id list"
  | InvalidArgument string
  | InvalidReference string
  | CascadeFailed client_error
  | StorageError string

fun is_key_error :: "client_error \<Rightarrow> bool" where
  "is_key_error (NotFound _) = True"
| "is_key_error (AmbiguousReference _) = True"
| "is_key_error _ = False"

text \<open>The message \<^verbatim>\<open>str(e)\<close> of an error, as the commands print it.\<close>

fun error_message :: "client_error \<Rightarrow> string" where
  "error_message (NotFound s) = s"
| "error_message (AmbiguousReference _) = ''Multiple entities match the given prefix.''"
| "error_message (InvalidArgument s) = s"
| "error_message (InvalidReference s) = s"
| "error_message (CascadeFailed e) = error_message e"
| "error_message (StorageError s) = s"

section \<open>Positional digits\<close>

text \<open>
  A digit string read in base \<open>b\<close>, most significant digit first, and the two ways
  the model prints a number: with a fixed width (the UUID's 32 hex digits, which
  keep the number modulo \<open>b ^ k\<close>) and with as many decimal digits as it needs (the
  pipeline versions).
\<close>

definition digits_val :: "nat \<Rightarrow> nat list \<Rightarrow> nat" where
  "digits_val b ds = foldl (\<lambda>acc d. acc * b + d) 0 ds"

fun digits_fixed :: "nat \<Rightarrow> nat \<Rightarrow> nat \<Rightarrow> nat list" where
  "digits_fixed b 0 n = []"
| "digits_fixed b (Suc k) n = digits_fixed b k (n div b) @ [n mod b]"

fun decimal_digits :: "nat \<Rightarrow> nat list" where
  "decimal_digits n = (if n < 10 then [n] else decimal_digits (n div 10) @ [n mod 10])"

declare decimal_digits.simps [simp del]

lemma digits_val_Nil [simp]: "digits_val b [] = 0"
  by (simp add: digits_val_def)

lemma digits_val_single [simp]: "digits_val b [d] = d"
  by (simp add: digits_val_def)

lemma digits_val_snoc [simp]: "digits_val b (ds @ [d]) = digits_val b ds * b + d"
  by (simp add: digits_val_def)

lemma digits_fixed_numeral:
  "digits_fixed b (numeral k) n = digits_fixed b (pred_numeral k) (n div b) @ [n mod b]"
  by (simp add: numeral_eq_Suc)

lemma length_digits_fixed [simp]: "length (digits_fixed b k n) = k"
  by (induction k arbitrary: n) auto

lemma digits_fixed_lt: "0 < b \<Longrightarrow> d \<in> set (digits_fixed b k n) \<Longrightarrow> d < b"
  by (induction k arbitrary: n) auto

lemma digits_val_fixed: "digits_val b (digits_fixed b k n) = n mod b ^ k"
proof (induction k arbitrary: n)
  case 0
  then show ?case by simp
next
  case (Suc k)
  have "n mod (b * b ^ k) = b * (n div b mod b ^ k) + n mod b"
    by (rule mod_mult2_eq)
  with Suc.IH show ?case by (simp add: mult.commute)
qed

lemma digits_val_fixed_small: "n < b ^ k \<Longrightarrow> digits_val b (digits_fixed b k n) = n"
  by (simp add: digits_val_fixed)

lemma digits_val_bound:
  "(\<And>d. d \<in> set ds \<Longrightarrow> d < b) \<Longrightarrow> digits_val b ds < b ^ length ds"
proof (induction ds rule: rev_induct)
  case Nil
  then show ?case by simp
next
  case (snoc d ds)
  then have "digits_val b ds < b ^ length ds" and "d < b" by auto
  have "digits_val b ds * b + d < (digits_val b ds + 1) * b"
    using \<open>d < b\<close> by simp
  also have "\<dots> \<le> b ^ length ds * b"
    using \<open>digits_val b ds < b ^ length ds\<close> by (intro mult_le_mono1) simp
  finally have "digits_val b ds * b + d < b ^ length ds * b" .
  then show ?case by (simp add: mult.commute)
qed

lemma decimal_digits_lt: "d \<in> set (decimal_digits n) \<Longrightarrow> d < 10"
proof (induction n rule: decimal_digits.induct)
  case (1 n)
  then show ?case
    by (cases "n < 10") (auto simp: decimal_digits.simps [of n])
qed

lemma decimal_digits_ne [simp]: "decimal_digits n \<noteq> []"
  by (subst decimal_digits.simps) simp

lemma digits_val_decimal [simp]: "digits_val 10 (decimal_digits n) = n"
proof (induction n rule: decimal_digits.induct)
  case (1 n)
  then show ?case
    by (cases "n < 10") (simp_all add: decimal_digits.simps [of n])
qed

section \<open>Lists\<close>

text \<open>
  The registry keeps each kind of entity in a list in insertion order; lookups by a
  key are filters.  Where the keys are distinct, a filter on one key value holds at
  most one element.
\<close>

lemma filter_key_distinct:
  assumes "distinct (map f xs)" and "x \<in> set xs"
  shows "filter (\<lambda>y. f y = f x) xs = [x]"
  using assms
proof (induction xs)
  case Nil
  then show ?case by simp
next
  case (Cons a xs)
  then show ?case
    by (auto simp: filter_empty_conv) (metis imageI)
qed

lemma filter_key_none:
  "k \<notin> f ` set xs \<Longrightarrow> filter (\<lambda>y. f y = k) xs = []"
  by (auto simp: filter_empty_conv)

lemma fold_max_ge_init: "(a::nat) \<le> fold max xs a"
proof (induction xs arbitrary: a)
  case Nil
  then show ?case by simp
next
  case (Cons y ys)
  have "a \<le> max y a" by simp
  also have "\<dots> \<le> fold max ys (max y a)" by (rule Cons.IH)
  finally show ?case by simp
qed

lemma fold_max_ge: "x \<in> set xs \<Longrightarrow> (x::nat) \<le> fold max xs a"
proof (induction xs arbitrary: a)
  case Nil
  then show ?case by simp
next
  case (Cons y ys)
  then show ?case
    using fold_max_ge_init [of "max y a" ys] by (auto intro: le_trans [OF max.cobounded1])
qed

lemma fold_max_le: "(\<And>y. y \<in> set xs \<Longrightarrow> y \<le> m) \<Longrightarrow> (a::nat) \<le> m \<Longrightarrow> fold max xs a \<le> m"
  by (induction xs arbitrary: a) auto

lemma fold_max_eq:
  "x \<in> set xs \<Longrightarrow> (\<And>y. y \<in> set xs \<Longrightarrow> y \<le> x) \<Longrightarrow> fold max xs (0::nat) = x"
  using fold_max_ge [of x xs 0] fold_max_le [of xs x 0] by simp

lemma those_Some_iff: "those xs = Some ys \<longleftrightarrow> xs = map Some ys"
  by (induction xs arbitrary: ys) (auto split: option.splits)

lemma filter_unique:
  assumes "distinct xs" and "x \<in> set xs" and "P x" and "\<And>y. y \<in> set xs \<Longrightarrow> P y \<Longrightarrow> y = x"
  shows "filter P xs = [x]"
  using assms
proof (induction xs)
  case Nil
  then show ?case by simp
next
  case (Cons a xs)
  note uniq = Cons.prems(4)
  show ?case
  proof (cases "a = x")
    case True
    have "\<not> P y" if y_in: "y \<in> set xs" for y
    proof
      assume "P y"
      then have "y = x" by (intro uniq) (simp_all add: y_in)
      with True y_in Cons.prems(1) show False by simp
    qed
    then have "filter P xs = []" by (simp add: filter_empty_conv)
    with True Cons.prems(3) show ?thesis by simp
  next
    case False
    have na: "\<not> P a"
    proof
      assume "P a"
      then have "a = x" by (intro uniq) simp_all
      with False show False by simp
    qed
    have "filter P xs = [x]"
    proof (rule Cons.IH)
      show "distinct xs" using Cons.prems(1) by simp
      show "x \<in> set xs" using Cons.prems(2) False by simp
      show "P x" by (rule Cons.prems(3))
      show "y = x" if "y \<in> set xs" and "P y" for y by (intro uniq) (simp_all add: that)
    qed
    with na show ?thesis by simp
  qed
qed

lemma find_key_distinct:
  assumes "distinct (map f xs)" and "x \<in> set xs"
  shows "find (\<lambda>y. f y = f x) xs = Some x"
  using assms
proof (induction xs)
  case Nil
  then show ?case by simp
next
  case (Cons a xs)
  show ?case
  proof (cases "a = x")
    case True
    then show ?thesis by simp
  next
    case False
    with Cons.prems have x_in: "x \<in> set xs" by simp
    have "f a \<notin> f ` set xs" using Cons.prems(1) by simp
    with x_in have "f a \<noteq> f x" by blast
    moreover have "find (\<lambda>y. f y = f x) xs = Some x"
      using Cons.prems(1) x_in by (intro Cons.IH) simp_all
    ultimately show ?thesis by simp
  qed
qed
lemma key_in_filter_image:
  assumes "distinct (map f xs)" and "x \<in> set xs"
  shows "f x \<in> f ` set (filter P xs) \<longleftrightarrow> P x"
proof
  assume "f x \<in> f ` set (filter P xs)"
  then obtain y where y: "y \<in> set xs" "P y" "f y = f x" by auto
  have "inj_on f (set xs)" using assms(1) by (simp add: distinct_map)
  with y assms(2) have "y = x" by (meson inj_onD)
  with y show "P x" by simp
next
  assume "P x"
  with assms(2) show "f x \<in> f ` set (filter P xs)" by simp
qed

lemma distinct_map_filter [intro]:
  "distinct (map f xs) \<Longrightarrow> distinct (map f (filter P xs))"
  by (induction xs) auto

lemma fold_max_Max:
  assumes "xs \<noteq> []"
  shows "fold max xs (0::nat) = Max (set xs)"
proof (cases xs)
  case (Cons a ys)
  then show ?thesis using Max.set_eq_fold [of a ys] by simp
qed (use assms in simp)

lemma find_append_None: "find P xs = None \<Longrightarrow> find P (xs @ ys) = find P ys"
  by (induction xs) (auto split: if_splits)

end
