(* ===== verification/Ids.thy ===== *)
theory Ids
  imports Prelude
begin

text \<open>
  The literals of identifiers and versions as the command line receives them.
  \<^verbatim>\<open>uuid_utils.is_valid_uuid\<close> (called by \<^verbatim>\<open>run_pipeline\<close> on the \<^verbatim>\<open>--build\<close>
  argument, and by the client's resolution of a \<^verbatim>\<open>name_id_or_prefix\<close>) accepts
  what Python's \<^verbatim>\<open>UUID(value)\<close> accepts: braces stripped, hyphens removed, exactly
  32 hexadecimal digits of either case.  An entity's identifier is printed in the
  canonical lowercase 8-4-4-4-12 form.  Pipeline versions are decimal literals.
  The \<^verbatim>\<open>urn:uuid:\<close> prefix that Python also strips is not modelled.
\<close>

section \<open>Characters\<close>

definition hex_value :: "char \<Rightarrow> nat option" where
  "hex_value c =
     (let n = of_char c :: nat in
      if 48 \<le> n \<and> n \<le> 57 then Some (n - 48)
      else if 97 \<le> n \<and> n \<le> 102 then Some (n - 87)
      else if 65 \<le> n \<and> n \<le> 70 then Some (n - 55)
      else None)"

definition hex_char :: "nat \<Rightarrow> char" where
  "hex_char d = (if d < 10 then char_of (48 + d) else char_of (87 + d))"

definition decimal_value :: "char \<Rightarrow> nat option" where
  "decimal_value c = (let n = of_char c :: nat in if 48 \<le> n \<and> n \<le> 57 then Some (n - 48) else None)"

definition digit_char :: "nat \<Rightarrow> char" where
  "digit_char d = char_of (48 + d)"

section \<open>UUID literals\<close>

definition strip_chars :: "char list \<Rightarrow> string \<Rightarrow> string" where
  "strip_chars cs s = rev (dropWhile (\<lambda>c. c \<in> set cs) (rev (dropWhile (\<lambda>c. c \<in> set cs) s)))"

text \<open>\<^verbatim>\<open>hex = hex.strip('{}').replace('-', '')\<close>, then the 32 digits.\<close>

definition uuid_hex :: "string \<Rightarrow> string" where
  "uuid_hex s = filter (\<lambda>c. c \<noteq> CHR ''-'') (strip_chars ''{}'' s)"

definition parse_uuid :: "string \<Rightarrow> entity_id option" where
  "parse_uuid s =
     (let h = uuid_hex s in
      if length h = 32 then map_option (digits_val 16) (those (map hex_value h)) else None)"

definition is_valid_uuid :: "string \<Rightarrow> bool" where
  "is_valid_uuid s \<longleftrightarrow> parse_uuid s \<noteq> None"

text \<open>
  The printed identifier: the number's low 128 bits as 32 lowercase hex digits in
  groups of 8, 4, 4, 4 and 12.  Identifiers beyond \<open>2 ^ 128\<close> wrap around.
\<close>

definition uuid_groups :: "string \<Rightarrow> string" where
  "uuid_groups h =
     take 8 h @ ''-'' @ take 4 (drop 8 h) @ ''-'' @ take 4 (drop 12 h) @ ''-''
       @ take 4 (drop 16 h) @ ''-'' @ drop 20 h"

definition uuid_str :: "entity_id \<Rightarrow> string" where
  "uuid_str n = uuid_groups (map hex_char (digits_fixed 16 32 n))"

section \<open>Version literals\<close>

definition parse_version :: "string \<Rightarrow> nat option" where
  "parse_version s =
     (if s = [] then None else map_option (digits_val 10) (those (map decimal_value s)))"

definition show_version :: "nat \<Rightarrow> string" where
  "show_version n = map digit_char (decimal_digits n)"

section \<open>Lemmas on characters\<close>

lemma hex_value_hex_char [simp]: "d < 16 \<Longrightarrow> hex_value (hex_char d) = Some d"
  by (simp add: hex_value_def hex_char_def Let_def)

lemma hex_value_non_digits [simp]:
  "hex_value CHR ''-'' = None" "hex_value CHR ''{'' = None" "hex_value CHR ''}'' = None"
  by (simp_all add: hex_value_def)

lemma hex_char_not_dash [simp]: "d < 16 \<Longrightarrow> hex_char d \<noteq> CHR ''-''"
  by (metis hex_value_hex_char hex_value_non_digits(1) option.distinct(1))

lemma hex_char_not_brace [simp]: "d < 16 \<Longrightarrow> hex_char d \<notin> set ''{}''"
  by (metis empty_iff hex_value_hex_char hex_value_non_digits(2,3) insert_iff list.set
      option.distinct(1))

lemma decimal_value_digit_char [simp]: "d < 10 \<Longrightarrow> decimal_value (digit_char d) = Some d"
  by (simp add: decimal_value_def digit_char_def Let_def)

lemma those_map_inverse:
  assumes "\<And>d. d \<in> set ds \<Longrightarrow> g (f d) = Some d"
  shows "those (map g (map f ds)) = Some ds"
  using assms by (induction ds) auto

lemma strip_chars_id:
  assumes "s \<noteq> []" and "hd s \<notin> set cs" and "last s \<notin> set cs"
  shows "strip_chars cs s = s"
proof -
  obtain x xs where s: "s = x # xs" using assms(1) by (cases s) auto
  have front: "dropWhile (\<lambda>c. c \<in> set cs) s = s" using assms(2) s by simp
  have r: "rev s = last s # rev (butlast s)"
    using assms(1) by (metis append_butlast_last_id rev.simps(2) rev_rev_ident)
  have "dropWhile (\<lambda>c. c \<in> set cs) (rev s) = rev s"
    by (simp only: r) (simp add: assms(3))
  with front show ?thesis by (simp add: strip_chars_def)
qed

lemma uuid_groups_filter:
  "filter P (uuid_groups h) = filter P (take 8 h) @ filter P ''-'' @ filter P (take 4 (drop 8 h))
     @ filter P ''-'' @ filter P (take 4 (drop 12 h)) @ filter P ''-''
     @ filter P (take 4 (drop 16 h)) @ filter P ''-'' @ filter P (drop 20 h)"
  by (simp add: uuid_groups_def)

lemma uuid_pieces: "take 8 h @ take 4 (drop 8 h) @ take 4 (drop 12 h) @ take 4 (drop 16 h) @ drop 20 h = h"
proof -
  have "take 8 h @ take 4 (drop 8 h) = take 12 h" using take_add [of 8 4 h] by simp
  moreover have "take 12 h @ take 4 (drop 12 h) = take 16 h" using take_add [of 12 4 h] by simp
  moreover have "take 16 h @ take 4 (drop 16 h) = take 20 h" using take_add [of 16 4 h] by simp
  ultimately show ?thesis by (metis append.assoc append_take_drop_id)
qed

lemma uuid_hex_uuid_groups:
  assumes len: "length h = 32" and ok: "\<And>c. c \<in> set h \<Longrightarrow> c \<notin> set ''-{}''"
  shows "uuid_hex (uuid_groups h) = h"
proof -
  have h_ne: "h \<noteq> []" using len by auto
  have nodash: "filter (\<lambda>c. c \<noteq> CHR ''-'') xs = xs" if "set xs \<subseteq> set h" for xs
    using that ok by (auto simp: filter_id_conv)
  have "hd h \<in> set h" and "last h \<in> set h" using h_ne by simp_all
  then have "hd (uuid_groups h) \<notin> set ''{}''" and "last (uuid_groups h) \<notin> set ''{}''"
    using ok len by (auto simp: uuid_groups_def hd_append last_append)
  then have strip: "strip_chars ''{}'' (uuid_groups h) = uuid_groups h"
    by (intro strip_chars_id) (simp_all add: uuid_groups_def)
  have "filter (\<lambda>c. c \<noteq> CHR ''-'') (uuid_groups h) =
      take 8 h @ take 4 (drop 8 h) @ take 4 (drop 12 h) @ take 4 (drop 16 h) @ drop 20 h"
    unfolding uuid_groups_filter
    by (simp add: nodash set_take_subset set_drop_subset
        subset_trans [OF set_take_subset set_drop_subset])
  then show ?thesis by (simp add: uuid_hex_def strip uuid_pieces)
qed

lemma hex_value_lt: "hex_value c = Some d \<Longrightarrow> d < 16"
  by (auto simp: hex_value_def Let_def split: if_splits)

section \<open>Round trips\<close>

text \<open>
  Printing an identifier and parsing the printed literal gives the identifier back,
  modulo \<open>2 ^ 128\<close>; every accepted literal denotes a number below \<open>2 ^ 128\<close>, so an
  identifier parsed from any accepted spelling (braces, upper case, hyphens
  anywhere) prints to a canonical literal that parses to it again.
\<close>

lemma parse_uuid_uuid_str: "parse_uuid (uuid_str n) = Some (n mod 2 ^ 128)"
proof -
  let ?ds = "digits_fixed 16 32 n"
  have small: "\<And>d. d \<in> set ?ds \<Longrightarrow> d < 16"
    by (rule digits_fixed_lt) simp
  have ok: "c \<notin> set ''-{}''" if c_in: "c \<in> set (map hex_char ?ds)" for c
  proof -
    obtain d where "d \<in> set ?ds" and c: "c = hex_char d" using c_in by auto
    then have "d < 16" by (intro small)
    then show ?thesis using c hex_char_not_dash [of d] hex_char_not_brace [of d] by simp
  qed
  have hex: "uuid_hex (uuid_str n) = map hex_char ?ds"
    unfolding uuid_str_def by (rule uuid_hex_uuid_groups [OF _ ok]) simp_all
  have "those (map hex_value (map hex_char ?ds)) = Some ?ds"
    by (rule those_map_inverse) (simp add: small)
  moreover have "(16::nat) ^ 32 = 2 ^ 128" by simp
  ultimately show ?thesis by (simp add: parse_uuid_def hex digits_val_fixed)
qed

lemma parse_uuid_bound: "parse_uuid s = Some n \<Longrightarrow> n < 2 ^ 128"
proof -
  assume p: "parse_uuid s = Some n"
  then obtain ds where len: "length (uuid_hex s) = 32"
    and ds: "map hex_value (uuid_hex s) = map Some ds" and n: "n = digits_val 16 ds"
    by (auto simp: parse_uuid_def Let_def those_Some_iff split: if_splits)
  have "length ds = 32" using len ds by (metis length_map)
  moreover have "\<And>d. d \<in> set ds \<Longrightarrow> d < 16"
    using ds hex_value_lt by (metis (no_types, lifting) ex_map_conv list.set_map imageI)
  ultimately have "n < 16 ^ 32" using n digits_val_bound by metis
  then show ?thesis by simp
qed

lemma parse_uuid_canonical: "parse_uuid s = Some n \<Longrightarrow> parse_uuid (uuid_str n) = Some n"
  using parse_uuid_bound parse_uuid_uuid_str by simp

lemma uuid_str_inj: "m < 2 ^ 128 \<Longrightarrow> n < 2 ^ 128 \<Longrightarrow> uuid_str m = uuid_str n \<Longrightarrow> m = n"
  by (metis mod_less option.inject parse_uuid_uuid_str)

lemma is_valid_uuid_str [simp]: "is_valid_uuid (uuid_str n)"
  by (simp add: is_valid_uuid_def parse_uuid_uuid_str)

lemma parse_version_show [simp]: "parse_version (show_version n) = Some n"
proof -
  have "those (map decimal_value (map digit_char (decimal_digits n))) = Some (decimal_digits n)"
    by (rule those_map_inverse) (simp add: decimal_digits_lt)
  then show ?thesis by (simp add: parse_version_def show_version_def)
qed

lemma uuid_groups_set: "set (uuid_groups h) \<subseteq> insert (CHR ''-'') (set h)"
  by (auto simp: uuid_groups_def dest: in_set_takeD in_set_dropD)

lemma uuid_str_chars: "c \<in> set (uuid_str n) \<Longrightarrow> c = CHR ''-'' \<or> hex_value c \<noteq> None"
  using uuid_groups_set [of "map hex_char (digits_fixed 16 32 n)"] digits_fixed_lt [of 16 _ 32 n]
  by (auto simp: uuid_str_def)

lemma length_uuid_groups: "length h = 32 \<Longrightarrow> length (uuid_groups h) = 36"
  by (simp add: uuid_groups_def)

lemma length_uuid_str [simp]: "length (uuid_str n) = 36"
  by (simp add: uuid_str_def length_uuid_groups)

end
