(* ===== verification/Registry.thy ===== *)
theory Registry
  imports Ids
begin

text \<open>
  The entity registry behind \<^verbatim>\<open>zenml.client.Client\<close>: pipelines, builds, runs,
  schedules and stacks, each kind kept in insertion order, and the counter that
  generates identifiers.  The client and its store are not among the repository's
  files under \<^verbatim>\<open>src/\<close>; this theory follows the specification's data model (its
  section 3) and the registry contract (section 4.2): versioned registration of
  pipelines, creation of builds, runs and schedules with their reference checks,
  monotonic run status, and paginated listing.  The invariant \<open>wf_registry\<close> collects
  the uniqueness and reference conditions, and every operation keeps it.
\<close>

section \<open>Entities\<close>

datatype run_status = Running | Completed | Failed | Unlisted

record pipeline =
  pl_id :: entity_id
  pl_name :: string
  pl_version :: nat
  pl_spec :: string

record build =
  bd_id :: entity_id
  bd_pipeline :: "entity_id option"
  bd_stack :: entity_id
  bd_images :: "(string \<times> string) list"
  bd_is_local :: bool

record run =
  rn_id :: entity_id
  rn_name :: string
  rn_pipeline :: "entity_id option"
  rn_build :: "entity_id option"
  rn_stack :: entity_id
  rn_status :: run_status

datatype trigger = Cron string | Interval nat

record schedule =
  sc_id :: entity_id
  sc_name :: string
  sc_pipeline :: entity_id
  sc_trigger :: trigger
  sc_active :: bool

record stack =
  sk_id :: entity_id
  sk_name :: string
  sk_is_local :: bool

record registry =
  pipelines :: "pipeline list"
  builds :: "build list"
  runs :: "run list"
  schedules :: "schedule list"
  stacks :: "stack list"
  next_id :: entity_id

section \<open>Queries\<close>

definition pipeline_ids :: "registry \<Rightarrow> entity_id set" where
  "pipeline_ids st = pl_id ` set (pipelines st)"

definition stack_ids :: "registry \<Rightarrow> entity_id set" where
  "stack_ids st = sk_id ` set (stacks st)"

definition build_ids :: "registry \<Rightarrow> entity_id set" where
  "build_ids st = bd_id ` set (builds st)"

definition all_ids :: "registry \<Rightarrow> entity_id list" where
  "all_ids st = map pl_id (pipelines st) @ map bd_id (builds st) @ map rn_id (runs st)
     @ map sc_id (schedules st) @ map sk_id (stacks st)"

definition versions_of :: "registry \<Rightarrow> string \<Rightarrow> nat list" where
  "versions_of st name = map pl_version (filter (\<lambda>p. pl_name p = name) (pipelines st))"

definition find_pipeline :: "registry \<Rightarrow> entity_id \<Rightarrow> pipeline option" where
  "find_pipeline st i = find (\<lambda>p. pl_id p = i) (pipelines st)"

definition find_stack :: "registry \<Rightarrow> entity_id \<Rightarrow> stack option" where
  "find_stack st i = find (\<lambda>s. sk_id s = i) (stacks st)"

section \<open>Creation\<close>

text \<open>
  Registration assigns the next version of the pipeline's name: one more than the
  largest version registered under that name, or \<open>1\<close> for a new name.  The guard on
  a colliding \<open>(name, version)\<close> is the store's unique constraint.
\<close>

definition next_version :: "registry \<Rightarrow> string \<Rightarrow> nat" where
  "next_version st name = Suc (fold max (versions_of st name) 0)"

definition create_pipeline ::
  "registry \<Rightarrow> string \<Rightarrow> string \<Rightarrow> client_error + (pipeline \<times> registry)" where
  "create_pipeline st name spec =
     (let v = next_version st name in
      if v \<in> set (versions_of st name)
      then Inl (InvalidArgument ''A pipeline with this name and version already exists.'')
      else
        let p = \<lparr>pl_id = next_id st, pl_name = name, pl_version = v, pl_spec = spec\<rparr>
        in Inr (p, st\<lparr>pipelines := pipelines st @ [p], next_id := Suc (next_id st)\<rparr>))"

definition create_build ::
  "registry \<Rightarrow> entity_id option \<Rightarrow> entity_id \<Rightarrow> (string \<times> string) list \<Rightarrow> bool
     \<Rightarrow> client_error + (build \<times> registry)" where
  "create_build st pid sid images is_local =
     (if (case pid of Some i \<Rightarrow> i \<notin> pipeline_ids st | None \<Rightarrow> False)
      then Inl (InvalidReference ''The build refers to an unknown pipeline.'')
      else if sid \<notin> stack_ids st
      then Inl (InvalidReference ''The build refers to an unknown stack.'')
      else
        let b = \<lparr>bd_id = next_id st, bd_pipeline = pid, bd_stack = sid, bd_images = images,
                 bd_is_local = is_local\<rparr>
        in Inr (b, st\<lparr>builds := builds st @ [b], next_id := Suc (next_id st)\<rparr>))"

definition create_run ::
  "registry \<Rightarrow> string \<Rightarrow> entity_id \<Rightarrow> entity_id option \<Rightarrow> entity_id
     \<Rightarrow> client_error + (run \<times> registry)" where
  "create_run st name pid bid sid =
     (if pid \<notin> pipeline_ids st
      then Inl (InvalidReference ''The run refers to an unknown pipeline.'')
      else if (case bid of Some i \<Rightarrow> i \<notin> build_ids st | None \<Rightarrow> False)
      then Inl (InvalidReference ''The run refers to an unknown build.'')
      else if sid \<notin> stack_ids st
      then Inl (InvalidReference ''The run refers to an unknown stack.'')
      else
        let r = \<lparr>rn_id = next_id st, rn_name = name, rn_pipeline = Some pid, rn_build = bid,
                 rn_stack = sid, rn_status = Running\<rparr>
        in Inr (r, st\<lparr>runs := runs st @ [r], next_id := Suc (next_id st)\<rparr>))"

definition create_schedule ::
  "registry \<Rightarrow> string \<Rightarrow> entity_id \<Rightarrow> trigger \<Rightarrow> client_error + (schedule \<times> registry)" where
  "create_schedule st name pid trig =
     (if pid \<notin> pipeline_ids st
      then Inl (InvalidReference ''The schedule refers to an unknown pipeline.'')
      else if name \<in> sc_name ` set (filter sc_active (schedules st))
      then Inl (InvalidArgument ''An active schedule with this name already exists.'')
      else
        let s = \<lparr>sc_id = next_id st, sc_name = name, sc_pipeline = pid, sc_trigger = trig,
                 sc_active = True\<rparr>
        in Inr (s, st\<lparr>schedules := schedules st @ [s], next_id := Suc (next_id st)\<rparr>))"

section \<open>Run status\<close>

text \<open>
  A run's status only moves forward: a running run finishes (completed or failed),
  and any run may become unlisted when its pipeline is deleted.  A finished run is
  never resurrected.
\<close>

fun status_rank :: "run_status \<Rightarrow> nat" where
  "status_rank Running = 0"
| "status_rank Completed = 1"
| "status_rank Failed = 1"
| "status_rank Unlisted = 2"

definition set_run_status ::
  "registry \<Rightarrow> entity_id \<Rightarrow> run_status \<Rightarrow> client_error + registry" where
  "set_run_status st rid s =
     (case find (\<lambda>r. rn_id r = rid) (runs st) of
        None \<Rightarrow> Inl (NotFound ''No pipeline run with this ID found.'')
      | Some r \<Rightarrow>
          if status_rank (rn_status r) < status_rank s
          then Inr (st\<lparr>runs := map (\<lambda>x. if rn_id x = rid then x\<lparr>rn_status := s\<rparr> else x) (runs st)\<rparr>)
          else Inl (InvalidArgument ''The run status can only move forward.''))"

section \<open>Listing\<close>

text \<open>
  A listing is one page of the matching entities in insertion order, with the
  page's metadata.  Page numbers start at \<open>1\<close>; an empty result has one (empty)
  page; a page number past the last page is a \<^verbatim>\<open>ValueError\<close>.
\<close>

record 'a page =
  pg_index :: nat
  pg_max_size :: nat
  pg_total_pages :: nat
  pg_total :: nat
  pg_items :: "'a list"

record list_args =
  la_name :: "string option"
  la_page :: nat
  la_size :: nat

definition total_pages :: "nat \<Rightarrow> nat \<Rightarrow> nat" where
  "total_pages n sz = (if n = 0 then 1 else (n + sz - 1) div sz)"

definition paginate :: "nat \<Rightarrow> nat \<Rightarrow> 'a list \<Rightarrow> client_error + 'a page" where
  "paginate idx sz xs =
     (if idx < 1 \<or> sz < 1 then Inl (InvalidArgument ''Page and sz start at 1.'')
      else if total_pages (length xs) sz < idx
      then Inl (InvalidArgument ''Invalid page.'')
      else Inr \<lparr>pg_index = idx, pg_max_size = sz,
                pg_total_pages = total_pages (length xs) sz, pg_total = length xs,
                pg_items = take sz (drop ((idx - 1) * sz) xs)\<rparr>)"

definition name_matches :: "string option \<Rightarrow> string \<Rightarrow> bool" where
  "name_matches flt n = (case flt of None \<Rightarrow> True | Some m \<Rightarrow> n = m)"

definition client_list_pipelines :: "registry \<Rightarrow> list_args \<Rightarrow> client_error + pipeline page" where
  "client_list_pipelines st a =
     paginate (la_page a) (la_size a) (filter (\<lambda>p. name_matches (la_name a) (pl_name p)) (pipelines st))"

definition client_list_runs :: "registry \<Rightarrow> list_args \<Rightarrow> client_error + run page" where
  "client_list_runs st a =
     paginate (la_page a) (la_size a) (filter (\<lambda>r. name_matches (la_name a) (rn_name r)) (runs st))"

definition client_list_schedules :: "registry \<Rightarrow> list_args \<Rightarrow> client_error + schedule page" where
  "client_list_schedules st a =
     paginate (la_page a) (la_size a) (filter (\<lambda>s. name_matches (la_name a) (sc_name s)) (schedules st))"

definition client_list_builds :: "registry \<Rightarrow> list_args \<Rightarrow> client_error + build page" where
  "client_list_builds st a = paginate (la_page a) (la_size a) (builds st)"

section \<open>The invariant\<close>

definition refs_ok :: "registry \<Rightarrow> bool" where
  "refs_ok st \<longleftrightarrow>
     (\<forall>b \<in> set (builds st). set_option (bd_pipeline b) \<subseteq> pipeline_ids st \<and> bd_stack b \<in> stack_ids st)
     \<and> (\<forall>r \<in> set (runs st). rn_stack r \<in> stack_ids st
          \<and> (rn_status r \<noteq> Unlisted \<longrightarrow> set_option (rn_pipeline r) \<subseteq> pipeline_ids st))
     \<and> (\<forall>s \<in> set (schedules st). sc_pipeline s \<in> pipeline_ids st)"

definition wf_registry :: "registry \<Rightarrow> bool" where
  "wf_registry st \<longleftrightarrow>
     distinct (all_ids st) \<and> (\<forall>i \<in> set (all_ids st). i < next_id st)
     \<and> distinct (map (\<lambda>p. (pl_name p, pl_version p)) (pipelines st))
     \<and> (\<forall>p \<in> set (pipelines st). 0 < pl_version p)
     \<and> distinct (map sc_name (filter sc_active (schedules st)))
     \<and> refs_ok st"

section \<open>Lemmas\<close>

lemmas registry_ids_defs = pipeline_ids_def stack_ids_def build_ids_def all_ids_def

lemma next_version_fresh: "next_version st name \<notin> set (versions_of st name)"
  using fold_max_ge [of _ "versions_of st name" 0] by (fastforce simp: next_version_def)

lemma next_version_new_name: "versions_of st name = [] \<Longrightarrow> next_version st name = 1"
  by (simp add: next_version_def)

lemma create_pipeline_Inr:
  "create_pipeline st name spec =
     Inr (\<lparr>pl_id = next_id st, pl_name = name, pl_version = next_version st name, pl_spec = spec\<rparr>,
          st\<lparr>pipelines := pipelines st @ [\<lparr>pl_id = next_id st, pl_name = name,
                 pl_version = next_version st name, pl_spec = spec\<rparr>],
             next_id := Suc (next_id st)\<rparr>)"
  using next_version_fresh [of st name] by (simp add: create_pipeline_def Let_def)

lemma wf_fresh: "wf_registry st \<Longrightarrow> next_id st \<notin> set (all_ids st)"
  by (auto simp: wf_registry_def)

lemma wf_fresh_parts:
  assumes "wf_registry st"
  shows "next_id st \<notin> pl_id ` set (pipelines st)" "next_id st \<notin> bd_id ` set (builds st)"
    "next_id st \<notin> rn_id ` set (runs st)" "next_id st \<notin> sc_id ` set (schedules st)"
    "next_id st \<notin> sk_id ` set (stacks st)"
  using wf_fresh [OF assms] by (auto simp: all_ids_def)

lemma wf_registryI:
  assumes "distinct (all_ids st)" and "\<forall>i \<in> set (all_ids st). i < next_id st"
    and "distinct (map (\<lambda>p. (pl_name p, pl_version p)) (pipelines st))"
    and "\<forall>p \<in> set (pipelines st). 0 < pl_version p"
    and "distinct (map sc_name (filter sc_active (schedules st)))" and "refs_ok st"
  shows "wf_registry st"
  using assms by (simp add: wf_registry_def)

lemma create_pipeline_wf:
  assumes wf: "wf_registry st" and ok: "create_pipeline st name spec = Inr (p, st')"
  shows "wf_registry st'"
proof -
  have p: "p = \<lparr>pl_id = next_id st, pl_name = name, pl_version = next_version st name, pl_spec = spec\<rparr>"
    and st0: "st' = st\<lparr>pipelines := pipelines st @ [\<lparr>pl_id = next_id st, pl_name = name,
                 pl_version = next_version st name, pl_spec = spec\<rparr>], next_id := Suc (next_id st)\<rparr>"
    using ok by (auto simp: create_pipeline_Inr)
  then have st': "st' = st\<lparr>pipelines := pipelines st @ [p], next_id := Suc (next_id st)\<rparr>"
    by simp
  have fresh: "next_id st \<notin> set (all_ids st)" using wf by (rule wf_fresh)
  show ?thesis
  proof (rule wf_registryI)
    show "distinct (all_ids st')"
      using wf fresh unfolding wf_registry_def st' p by (auto simp: all_ids_def)
    show "\<forall>i \<in> set (all_ids st'). i < next_id st'"
      using wf unfolding wf_registry_def st' p by (auto simp: all_ids_def less_Suc_eq)
    show "distinct (map (\<lambda>p. (pl_name p, pl_version p)) (pipelines st'))"
      using wf next_version_fresh [of st name] unfolding wf_registry_def st' p
      by (auto simp: versions_of_def)
    show "\<forall>q \<in> set (pipelines st'). 0 < pl_version q"
      using wf unfolding wf_registry_def st' p by (auto simp: next_version_def)
    show "distinct (map sc_name (filter sc_active (schedules st')))"
      using wf unfolding wf_registry_def st' by simp
    show "refs_ok st'"
      using wf unfolding wf_registry_def refs_ok_def st' by (auto simp: registry_ids_defs)
  qed
qed

lemma create_build_wf:
  assumes wf: "wf_registry st" and ok: "create_build st pid sid images loc = Inr (b, st')"
  shows "wf_registry st'"
proof -
  have guards: "set_option pid \<subseteq> pipeline_ids st" "sid \<in> stack_ids st"
    and b: "b = \<lparr>bd_id = next_id st, bd_pipeline = pid, bd_stack = sid, bd_images = images,
                 bd_is_local = loc\<rparr>"
    and st': "st' = st\<lparr>builds := builds st @ [b], next_id := Suc (next_id st)\<rparr>"
    using ok by (auto simp: create_build_def Let_def split: if_splits option.splits)
  have fresh: "next_id st \<notin> set (all_ids st)" using wf by (rule wf_fresh)
  show ?thesis
  proof (rule wf_registryI)
    show "distinct (all_ids st')"
      using wf fresh unfolding wf_registry_def st' b by (auto simp: all_ids_def)
    show "\<forall>i \<in> set (all_ids st'). i < next_id st'"
      using wf unfolding wf_registry_def st' b by (auto simp: all_ids_def less_Suc_eq)
    show "refs_ok st'"
      using wf guards unfolding wf_registry_def refs_ok_def st' b by (auto simp: registry_ids_defs)
  qed (use wf in \<open>simp_all add: wf_registry_def st'\<close>)
qed

lemma create_run_wf:
  assumes wf: "wf_registry st" and ok: "create_run st name pid bid sid = Inr (r, st')"
  shows "wf_registry st'"
proof -
  have guards: "pid \<in> pipeline_ids st" "sid \<in> stack_ids st"
    and r: "r = \<lparr>rn_id = next_id st, rn_name = name, rn_pipeline = Some pid, rn_build = bid,
                 rn_stack = sid, rn_status = Running\<rparr>"
    and st': "st' = st\<lparr>runs := runs st @ [r], next_id := Suc (next_id st)\<rparr>"
    using ok by (auto simp: create_run_def Let_def split: if_splits option.splits)
  have fresh: "next_id st \<notin> set (all_ids st)" using wf by (rule wf_fresh)
  show ?thesis
  proof (rule wf_registryI)
    show "distinct (all_ids st')"
      using wf fresh unfolding wf_registry_def st' r by (auto simp: all_ids_def)
    show "\<forall>i \<in> set (all_ids st'). i < next_id st'"
      using wf unfolding wf_registry_def st' r by (auto simp: all_ids_def less_Suc_eq)
    show "refs_ok st'"
      using wf guards unfolding wf_registry_def refs_ok_def st' r by (auto simp: registry_ids_defs)
  qed (use wf in \<open>simp_all add: wf_registry_def st'\<close>)
qed

lemma create_schedule_wf:
  assumes wf: "wf_registry st" and ok: "create_schedule st name pid trig = Inr (s, st')"
  shows "wf_registry st'"
proof -
  have guards: "pid \<in> pipeline_ids st" "name \<notin> sc_name ` set (filter sc_active (schedules st))"
    and s: "s = \<lparr>sc_id = next_id st, sc_name = name, sc_pipeline = pid, sc_trigger = trig,
                 sc_active = True\<rparr>"
    and st': "st' = st\<lparr>schedules := schedules st @ [s], next_id := Suc (next_id st)\<rparr>"
    using ok by (auto simp: create_schedule_def Let_def split: if_splits)
  have fresh: "next_id st \<notin> set (all_ids st)" using wf by (rule wf_fresh)
  show ?thesis
  proof (rule wf_registryI)
    show "distinct (all_ids st')"
      using wf fresh unfolding wf_registry_def st' s by (auto simp: all_ids_def)
    show "\<forall>i \<in> set (all_ids st'). i < next_id st'"
      using wf unfolding wf_registry_def st' s by (auto simp: all_ids_def less_Suc_eq)
    show "distinct (map sc_name (filter sc_active (schedules st')))"
      using wf guards unfolding wf_registry_def st' s by auto
    show "refs_ok st'"
      using wf guards unfolding wf_registry_def refs_ok_def st' s by (auto simp: registry_ids_defs)
  qed (use wf in \<open>simp_all add: wf_registry_def st'\<close>)
qed

lemma set_run_status_wf:
  assumes wf: "wf_registry st" and ok: "set_run_status st rid s = Inr st'"
  shows "wf_registry st'"
proof -
  define upd :: "run \<Rightarrow> run" where "upd = (\<lambda>x. if rn_id x = rid then x\<lparr>rn_status := s\<rparr> else x)"
  obtain r where fr: "find (\<lambda>r. rn_id r = rid) (runs st) = Some r"
    and adv: "status_rank (rn_status r) < status_rank s"
    and st': "st' = st\<lparr>runs := map upd (runs st)\<rparr>"
    using ok by (auto simp: set_run_status_def upd_def split: option.splits if_splits)
  have r_in: "r \<in> set (runs st)" and r_id: "rn_id r = rid"
    using fr by (auto simp: find_Some_iff nth_mem)
  have "distinct (map rn_id (runs st))" using wf by (simp add: wf_registry_def all_ids_def)
  then have uniq: "x = r" if "x \<in> set (runs st)" and "rn_id x = rid" for x
    using that r_in r_id by (metis distinct_map inj_onD)
  have listed: "rn_status r \<noteq> Unlisted" using adv by (cases s) auto
  have refs: "refs_ok st" using wf by (simp add: wf_registry_def)
  have run_ok: "rn_stack (upd x) \<in> stack_ids st
      \<and> (rn_status (upd x) \<noteq> Unlisted \<longrightarrow> set_option (rn_pipeline (upd x)) \<subseteq> pipeline_ids st)"
    if x_in: "x \<in> set (runs st)" for x
  proof (cases "rn_id x = rid")
    case True
    then have "x = r" using uniq x_in by blast
    then show ?thesis using refs r_in listed True by (simp add: refs_ok_def upd_def)
  next
    case False
    then show ?thesis using refs x_in by (simp add: refs_ok_def upd_def)
  qed
  have rid: "rn_id \<circ> upd = rn_id" by (rule ext) (simp add: upd_def)
  have ids: "all_ids st' = all_ids st" by (simp add: st' all_ids_def rid)
  show ?thesis
  proof (rule wf_registryI)
    show "distinct (all_ids st')" "\<forall>i \<in> set (all_ids st'). i < next_id st'"
      using wf ids by (simp_all add: wf_registry_def st')
    have "pipeline_ids st' = pipeline_ids st" "stack_ids st' = stack_ids st"
      by (simp_all add: st' registry_ids_defs)
    then show "refs_ok st'"
      using refs run_ok unfolding refs_ok_def by (simp add: st')
  qed (use wf in \<open>simp_all add: wf_registry_def st'\<close>)
qed

lemma next_version_Max:
  "next_version st name =
     (if versions_of st name = [] then 1 else Suc (Max (set (versions_of st name))))"
  by (simp add: next_version_def fold_max_Max)

lemma versions_of_append:
  "versions_of (st\<lparr>pipelines := pipelines st @ [p], next_id := x\<rparr>) name =
     versions_of st name @ (if pl_name p = name then [pl_version p] else [])"
  by (simp add: versions_of_def)

lemma next_version_append:
  assumes "pl_name p = name" and "pl_version p = next_version st name"
  shows "next_version (st\<lparr>pipelines := pipelines st @ [p], next_id := x\<rparr>) name = Suc (next_version st name)"
  using assms by (simp add: next_version_def versions_of_append)

lemma find_stack_member: "find_stack st i = Some k \<Longrightarrow> k \<in> set (stacks st) \<and> sk_id k = i"
  by (auto simp: find_stack_def find_Some_iff nth_mem)

lemma set_run_status_new:
  assumes fresh: "rn_id r \<notin> rn_id ` set (runs st)" and rank: "status_rank (rn_status r) < status_rank s"
  shows "set_run_status (st\<lparr>runs := runs st @ [r], next_id := x\<rparr>) (rn_id r) s =
           Inr (st\<lparr>runs := runs st @ [r\<lparr>rn_status := s\<rparr>], next_id := x\<rparr>)"
proof -
  have "find (\<lambda>y. rn_id y = rn_id r) (runs st) = None"
    using fresh by (auto simp: find_None_iff intro: rev_image_eqI)
  moreover have "map (\<lambda>y. if rn_id y = rn_id r then y\<lparr>rn_status := s\<rparr> else y) (runs st) = runs st"
    using fresh by (intro map_idI) (auto intro: rev_image_eqI)
  ultimately show ?thesis using rank by (simp add: set_run_status_def find_append_None)
qed

end
