(* ===== verification/Resolver.thy ===== *)
theory Resolver
  imports Registry
begin

text \<open>
  The identifier resolver of the client (\<^verbatim>\<open>Client.get_pipeline\<close>, \<^verbatim>\<open>get_schedule\<close>,
  \<^verbatim>\<open>get_pipeline_run\<close>, \<^verbatim>\<open>get_build\<close>, reached from every command of
  \<^verbatim>\<open>src/zenml/cli/pipeline.py\<close> that takes a \<^verbatim>\<open>name_or_id\<close>), after the
  specification's section 4.1: a string that parses as a UUID is looked up by exact
  identifier; otherwise it is a name, with an explicit version or else the highest
  version; if no name matches, it is an identifier prefix.  Zero candidates is
  \<open>NotFound\<close>, more than one is \<open>AmbiguousReference\<close>, an empty string or an
  unparsable version is \<open>InvalidArgument\<close>.  Resolution is read-only: it is a function
  of the keys and returns an identifier.
\<close>

section \<open>Keys\<close>

text \<open>What the resolver sees of an entity: its identifier, its name if the kind has
  names, and its version (\<open>0\<close> for kinds without versions).\<close>

record ekey =
  ek_id :: entity_id
  ek_name :: "string option"
  ek_version :: nat

definition pipeline_key :: "pipeline \<Rightarrow> ekey" where
  "pipeline_key p = \<lparr>ek_id = pl_id p, ek_name = Some (pl_name p), ek_version = pl_version p\<rparr>"

definition run_key :: "run \<Rightarrow> ekey" where
  "run_key r = \<lparr>ek_id = rn_id r, ek_name = Some (rn_name r), ek_version = 0\<rparr>"

definition schedule_key :: "schedule \<Rightarrow> ekey" where
  "schedule_key s = \<lparr>ek_id = sc_id s, ek_name = Some (sc_name s), ek_version = 0\<rparr>"

definition build_key :: "build \<Rightarrow> ekey" where
  "build_key b = \<lparr>ek_id = bd_id b, ek_name = None, ek_version = 0\<rparr>"

section \<open>Resolution\<close>

definition starts_with :: "string \<Rightarrow> string \<Rightarrow> bool" where
  "starts_with s t \<longleftrightarrow> take (length s) t = s"

definition version_ok :: "nat option \<Rightarrow> ekey \<Rightarrow> bool" where
  "version_ok vn k = (case vn of None \<Rightarrow> True | Some n \<Rightarrow> ek_version k = n)"

definition max_version :: "ekey list \<Rightarrow> ekey list" where
  "max_version ks = filter (\<lambda>k. ek_version k = fold max (map ek_version ks) 0) ks"

definition single_match :: "string \<Rightarrow> ekey list \<Rightarrow> client_error + entity_id" where
  "single_match kind ks =
     (case ks of
        [] \<Rightarrow> Inl (NotFound (''No '' @ kind @ '' found with this name, ID or prefix.''))
      | [k] \<Rightarrow> Inr (ek_id k)
      | _ \<Rightarrow> Inl (AmbiguousReference (map ek_id ks)))"

definition parse_version_arg :: "string option \<Rightarrow> client_error + nat option" where
  "parse_version_arg v =
     (case v of
        None \<Rightarrow> Inr None
      | Some vs \<Rightarrow> (case parse_version vs of
                     None \<Rightarrow> Inl (InvalidArgument (''Invalid version `'' @ vs @ ''`.''))
                   | Some n \<Rightarrow> Inr (Some n)))"

definition resolve :: "string \<Rightarrow> string \<Rightarrow> string option \<Rightarrow> ekey list \<Rightarrow> client_error + entity_id" where
  "resolve kind s v ks =
     (if s = [] then Inl (InvalidArgument (''The '' @ kind @ '' name or ID must not be empty.''))
      else case parse_version_arg v of
        Inl e \<Rightarrow> Inl e
      | Inr vn \<Rightarrow>
          (case parse_uuid s of
             Some i \<Rightarrow>
               if i \<in> ek_id ` set ks then Inr i
               else Inl (NotFound (''No '' @ kind @ '' with ID `'' @ s @ ''` found.''))
           | None \<Rightarrow>
               let named = filter (\<lambda>k. ek_name k = Some s \<and> version_ok vn k) ks in
               if named \<noteq> [] then single_match kind (max_version named)
               else single_match kind
                      (filter (\<lambda>k. starts_with s (uuid_str (ek_id k)) \<and> version_ok vn k) ks)))"

section \<open>The client's getters\<close>

definition get_pipeline :: "registry \<Rightarrow> string \<Rightarrow> string option \<Rightarrow> client_error + pipeline" where
  "get_pipeline st s v =
     (case resolve ''pipeline'' s v (map pipeline_key (pipelines st)) of
        Inl e \<Rightarrow> Inl e
      | Inr i \<Rightarrow> (case find_pipeline st i of
                   None \<Rightarrow> Inl (NotFound ''No pipeline found.'')
                 | Some p \<Rightarrow> Inr p))"

definition get_stack :: "registry \<Rightarrow> string \<Rightarrow> client_error + stack" where
  "get_stack st s =
     (case resolve ''stack'' s None
             (map (\<lambda>k. \<lparr>ek_id = sk_id k, ek_name = Some (sk_name k), ek_version = 0\<rparr>) (stacks st)) of
        Inl e \<Rightarrow> Inl e
      | Inr i \<Rightarrow> (case find_stack st i of
                   None \<Rightarrow> Inl (NotFound ''No stack found.'')
                 | Some k \<Rightarrow> Inr k))"

section \<open>Lemmas\<close>

lemmas resolve_defs = get_pipeline_def resolve_def parse_version_arg_def parse_version_def parse_uuid_def
  uuid_hex_def strip_chars_def version_ok_def max_version_def pipeline_key_def find_pipeline_def
  single_match_def

lemma parse_uuid_Nil [simp]: "parse_uuid [] = None"
  by (simp add: parse_uuid_def uuid_hex_def strip_chars_def)

lemma single_match_Inr: "single_match kind ks = Inr i \<Longrightarrow> \<exists>k. ks = [k] \<and> ek_id k = i"
  by (auto simp: single_match_def split: list.splits)

lemma single_match_single [simp]: "single_match kind [k] = Inr (ek_id k)"
  by (simp add: single_match_def)

lemma single_match_not_ambiguous_Nil: "single_match kind [] \<noteq> Inl (AmbiguousReference is)"
  by (simp add: single_match_def)

lemma resolve_uuid:
  assumes "parse_uuid s = Some i" and "parse_version_arg v = Inr vn"
  shows "resolve kind s v ks =
           (if i \<in> ek_id ` set ks then Inr i
            else Inl (NotFound (''No '' @ kind @ '' with ID `'' @ s @ ''` found.'')))"
proof -
  have "s \<noteq> []" using assms(1) by auto
  then show ?thesis using assms by (simp add: resolve_def)
qed

lemma resolve_in_keys:
  assumes "resolve kind s v ks = Inr i"
  shows "i \<in> ek_id ` set ks"
proof -
  have sub: "i \<in> ek_id ` set ks" if "single_match kind xs = Inr i" and "set xs \<subseteq> set ks" for xs
    using single_match_Inr [OF that(1)] that(2) by auto
  show ?thesis
    using assms
    by (auto simp: resolve_def Let_def max_version_def split: if_splits sum.splits option.splits
        intro: sub)
qed

lemma resolve_name_latest:
  assumes nu: "parse_uuid s = None" and ne: "s \<noteq> []" and k: "k \<in> set ks" and nk: "ek_name k = Some s"
    and dist: "distinct ks"
    and top: "\<And>k'. k' \<in> set ks \<Longrightarrow> ek_name k' = Some s \<Longrightarrow> k' \<noteq> k \<Longrightarrow> ek_version k' < ek_version k"
  shows "resolve kind s None ks = Inr (ek_id k)"
proof -
  define named where "named = filter (\<lambda>k'. ek_name k' = Some s \<and> version_ok None k') ks"
  have k_named: "k \<in> set named" using k nk by (simp add: named_def version_ok_def)
  have dn: "distinct named" using dist by (simp add: named_def)
  have le: "y \<le> ek_version k" if "y \<in> set (map ek_version named)" for y
    using that top by (force simp: named_def version_ok_def)
  have "fold max (map ek_version named) 0 = ek_version k"
    using k_named le by (intro fold_max_eq) auto
  then have "max_version named = [k]"
    unfolding max_version_def
  proof (simp only:, intro filter_unique [OF dn k_named])
    show "ek_version k = ek_version k" ..
    show "y = k" if "y \<in> set named" and "ek_version y = ek_version k" for y
      using that top by (force simp: named_def version_ok_def)
  qed
  moreover have "named \<noteq> []" using k_named by auto
  moreover have "resolve kind s None ks =
      (if named \<noteq> [] then single_match kind (max_version named)
       else single_match kind (filter (\<lambda>k. starts_with s (uuid_str (ek_id k)) \<and> version_ok None k) ks))"
    by (simp add: resolve_def parse_version_arg_def nu ne named_def Let_def)
  ultimately show ?thesis by simp
qed

lemma resolve_name_version:
  assumes nu: "parse_uuid s = None" and ne: "s \<noteq> []" and pv: "parse_version vs = Some n"
    and k: "k \<in> set ks" and nk: "ek_name k = Some s" and vk: "ek_version k = n" and dist: "distinct ks"
    and uniq: "\<And>k'. k' \<in> set ks \<Longrightarrow> ek_name k' = Some s \<Longrightarrow> ek_version k' = n \<Longrightarrow> k' = k"
  shows "resolve kind s (Some vs) ks = Inr (ek_id k)"
proof -
  define named where "named = filter (\<lambda>k'. ek_name k' = Some s \<and> version_ok (Some n) k') ks"
  have "named = [k]"
    unfolding named_def
  proof (rule filter_unique [OF dist k])
    show "ek_name k = Some s \<and> version_ok (Some n) k" using nk vk by (simp add: version_ok_def)
    show "y = k" if "y \<in> set ks" and "ek_name y = Some s \<and> version_ok (Some n) y" for y
      using that by (intro uniq) (simp_all add: version_ok_def)
  qed
  moreover have "max_version [k] = [k]" by (simp add: max_version_def)
  moreover have "resolve kind s (Some vs) ks =
      (if named \<noteq> [] then single_match kind (max_version named)
       else single_match kind (filter (\<lambda>k. starts_with s (uuid_str (ek_id k)) \<and> version_ok (Some n) k) ks))"
    by (simp add: resolve_def parse_version_arg_def nu ne pv named_def Let_def)
  ultimately show ?thesis by simp
qed

lemma distinct_pipeline_keys: "distinct (map pl_id ps) \<Longrightarrow> distinct (map pipeline_key ps)"
  by (induction ps) (auto simp: pipeline_key_def)

lemma wf_distinct_pipelines:
  "wf_registry st \<Longrightarrow> distinct (map pl_id (pipelines st))"
  by (simp add: wf_registry_def all_ids_def)

lemma find_pipeline_member:
  "wf_registry st \<Longrightarrow> p \<in> set (pipelines st) \<Longrightarrow> find_pipeline st (pl_id p) = Some p"
  unfolding find_pipeline_def by (rule find_key_distinct [OF wf_distinct_pipelines])

lemma find_pipeline_Some: "find_pipeline st i = Some p \<Longrightarrow> p \<in> set (pipelines st) \<and> pl_id p = i"
  by (auto simp: find_pipeline_def find_Some_iff nth_mem)

lemma get_pipeline_member: "get_pipeline st s v = Inr p \<Longrightarrow> p \<in> set (pipelines st)"
  by (auto simp: get_pipeline_def split: sum.splits option.splits dest: find_pipeline_Some)

lemma get_pipeline_key:
  assumes "wf_registry st" and "p \<in> set (pipelines st)"
    and "resolve ''pipeline'' s v (map pipeline_key (pipelines st)) = Inr (pl_id p)"
  shows "get_pipeline st s v = Inr p"
  using assms find_pipeline_member by (simp add: get_pipeline_def)

lemma pipeline_version_unique:
  assumes wf: "wf_registry st" and "p \<in> set (pipelines st)" and "q \<in> set (pipelines st)"
    and "pl_name q = pl_name p" and "pl_version q = pl_version p"
  shows "q = p"
proof -
  have "distinct (map (\<lambda>p. (pl_name p, pl_version p)) (pipelines st))"
    using wf by (simp add: wf_registry_def)
  then show ?thesis using assms(2-) by (metis (mono_tags, lifting) distinct_map inj_onD)
qed

lemma get_pipeline_latest:
  assumes wf: "wf_registry st" and nu: "parse_uuid name = None" and ne: "name \<noteq> []"
    and p: "p \<in> set (pipelines st)" and np: "pl_name p = name"
    and top: "\<forall>q \<in> set (pipelines st). pl_name q = name \<longrightarrow> pl_version q \<le> pl_version p"
  shows "get_pipeline st name None = Inr p"
proof -
  have "resolve ''pipeline'' name None (map pipeline_key (pipelines st)) = Inr (ek_id (pipeline_key p))"
  proof (rule resolve_name_latest [OF nu ne])
    show "pipeline_key p \<in> set (map pipeline_key (pipelines st))" using p by simp
    show "ek_name (pipeline_key p) = Some name" using np by (simp add: pipeline_key_def)
    show "distinct (map pipeline_key (pipelines st))"
      using wf_distinct_pipelines [OF wf] by (rule distinct_pipeline_keys)
    fix k' assume "k' \<in> set (map pipeline_key (pipelines st))" and "ek_name k' = Some name"
      and "k' \<noteq> pipeline_key p"
    moreover obtain q where q_in: "q \<in> set (pipelines st)" and kq: "k' = pipeline_key q"
      using \<open>k' \<in> set (map pipeline_key (pipelines st))\<close> by auto
    ultimately have q: "q \<in> set (pipelines st)" "k' = pipeline_key q" "pl_name q = name" "q \<noteq> p"
      by (auto simp: pipeline_key_def)
    have "pl_version q \<noteq> pl_version p"
    proof
      assume "pl_version q = pl_version p"
      then have "q = p" using pipeline_version_unique [OF wf p q(1)] q(3) np by simp
      with q(4) show False by simp
    qed
    with top q show "ek_version k' < ek_version (pipeline_key p)"
      by (auto simp: pipeline_key_def)
  qed
  then show ?thesis using wf p by (intro get_pipeline_key) (simp_all add: pipeline_key_def)
qed

lemma get_pipeline_version:
  assumes wf: "wf_registry st" and nu: "parse_uuid name = None" and ne: "name \<noteq> []"
    and p: "p \<in> set (pipelines st)" and np: "pl_name p = name"
  shows "get_pipeline st name (Some (show_version (pl_version p))) = Inr p"
proof -
  have "resolve ''pipeline'' name (Some (show_version (pl_version p))) (map pipeline_key (pipelines st))
          = Inr (ek_id (pipeline_key p))"
  proof (rule resolve_name_version [OF nu ne parse_version_show])
    show "pipeline_key p \<in> set (map pipeline_key (pipelines st))" using p by simp
    show "ek_name (pipeline_key p) = Some name" using np by (simp add: pipeline_key_def)
    show "ek_version (pipeline_key p) = pl_version p" by (simp add: pipeline_key_def)
    show "distinct (map pipeline_key (pipelines st))"
      using wf_distinct_pipelines [OF wf] by (rule distinct_pipeline_keys)
    fix k' assume "k' \<in> set (map pipeline_key (pipelines st))" and "ek_name k' = Some name"
      and "ek_version k' = pl_version p"
    then obtain q where "q \<in> set (pipelines st)" "k' = pipeline_key q" "pl_name q = name"
      "pl_version q = pl_version p"
      by (auto simp: pipeline_key_def)
    then have "q = p" using pipeline_version_unique [OF wf p] np by simp
    with \<open>k' = pipeline_key q\<close> show "k' = pipeline_key p" by simp
  qed
  then show ?thesis using wf p by (intro get_pipeline_key) (simp_all add: pipeline_key_def)
qed

lemma get_pipeline_by_id:
  assumes wf: "wf_registry st" and p: "p \<in> set (pipelines st)" and small: "pl_id p < 2 ^ 128"
  shows "get_pipeline st (uuid_str (pl_id p)) None = Inr p"
proof -
  have "parse_uuid (uuid_str (pl_id p)) = Some (pl_id p)"
    using small by (simp add: parse_uuid_uuid_str)
  then have "resolve ''pipeline'' (uuid_str (pl_id p)) None (map pipeline_key (pipelines st)) = Inr (pl_id p)"
    using p by (simp add: resolve_uuid parse_version_arg_def image_image pipeline_key_def)
  then show ?thesis by (rule get_pipeline_key [OF wf p])
qed

lemma get_pipeline_uuid_not_ambiguous:
  "parse_uuid s \<noteq> None \<Longrightarrow> get_pipeline st s v \<noteq> Inl (AmbiguousReference is)"
  by (auto simp: get_pipeline_def resolve_def parse_version_arg_def
      split: sum.splits option.splits if_splits)

lemma starts_with_uuid_str:
  assumes "c \<in> set s" and "c \<noteq> CHR ''-''" and "hex_value c = None"
  shows "\<not> starts_with s (uuid_str n)"
proof
  assume "starts_with s (uuid_str n)"
  then have "set s \<subseteq> set (uuid_str n)" unfolding starts_with_def by (metis set_take_subset)
  then show False using assms uuid_str_chars by blast
qed

end
