(* ===== verification/Cascade.thy ===== *)
theory Cascade
  imports Resolver
begin

text \<open>
  The deletions behind \<^verbatim>\<open>Client.delete_pipeline\<close>, \<^verbatim>\<open>delete_schedule\<close>,
  \<^verbatim>\<open>delete_pipeline_run\<close> and \<^verbatim>\<open>delete_build\<close>, which the delete commands of
  \<^verbatim>\<open>src/zenml/cli/pipeline.py\<close> call, after the specification's section 4.3.
  Deleting a pipeline is a plan of single store mutations, in the specification's
  order: unlist every run of the pipeline, delete its schedules, delete its builds,
  delete the pipeline.  The store executes a plan step by step and may fail at any
  step (the fault oracle \<open>fails\<close> says at which step indices it does); \<open>transact\<close>
  runs a plan all-or-nothing and reports a failure as \<open>CascadeFailed\<close>.  The bulk
  definition \<open>cascade_abs\<close> is the contract of a pipeline deletion; the step-by-step
  execution refines it.
\<close>

section \<open>Store mutations and their execution\<close>

datatype mutation =
    UnlistRun entity_id
  | DropRun entity_id
  | DropBuild entity_id
  | DropSchedule entity_id
  | DropPipeline entity_id

definition unlist :: "entity_id \<Rightarrow> run \<Rightarrow> run" where
  "unlist i r = (if rn_id r = i then r\<lparr>rn_status := Unlisted\<rparr> else r)"

fun apply_mutation :: "registry \<Rightarrow> mutation \<Rightarrow> registry" where
  "apply_mutation st (UnlistRun i) = st\<lparr>runs := map (unlist i) (runs st)\<rparr>"
| "apply_mutation st (DropRun i) = st\<lparr>runs := filter (\<lambda>r. rn_id r \<noteq> i) (runs st)\<rparr>"
| "apply_mutation st (DropBuild i) = st\<lparr>builds := filter (\<lambda>b. bd_id b \<noteq> i) (builds st)\<rparr>"
| "apply_mutation st (DropSchedule i) = st\<lparr>schedules := filter (\<lambda>s. sc_id s \<noteq> i) (schedules st)\<rparr>"
| "apply_mutation st (DropPipeline i) = st\<lparr>pipelines := filter (\<lambda>p. pl_id p \<noteq> i) (pipelines st)\<rparr>"

text \<open>
  Executing a plan without a transaction: a failure at step \<open>k\<close> stops the
  execution and leaves the state the steps before it produced.
\<close>

fun exec_steps ::
  "(nat \<Rightarrow> bool) \<Rightarrow> nat \<Rightarrow> registry \<Rightarrow> mutation list \<Rightarrow> (client_error \<times> registry) + registry" where
  "exec_steps fails k st [] = Inr st"
| "exec_steps fails k st (m # ms) =
     (if fails k then Inl (StorageError ''The store failed during the operation.'', st)
      else exec_steps fails (Suc k) (apply_mutation st m) ms)"

text \<open>
  A transaction discards the partial state of a failed execution: the caller keeps
  the state it had, and sees the failure wrapped as \<open>CascadeFailed\<close>.
\<close>

definition transact :: "(nat \<Rightarrow> bool) \<Rightarrow> registry \<Rightarrow> mutation list \<Rightarrow> client_error + registry" where
  "transact fails st ms =
     (case exec_steps fails 0 st ms of
        Inl (e, _) \<Rightarrow> Inl (CascadeFailed e)
      | Inr st' \<Rightarrow> Inr st')"

section \<open>The pipeline cascade\<close>

definition cascade_plan :: "registry \<Rightarrow> entity_id \<Rightarrow> mutation list" where
  "cascade_plan st pid =
     map (UnlistRun \<circ> rn_id) (filter (\<lambda>r. rn_pipeline r = Some pid) (runs st))
     @ map (DropSchedule \<circ> sc_id) (filter (\<lambda>s. sc_pipeline s = pid) (schedules st))
     @ map (DropBuild \<circ> bd_id) (filter (\<lambda>b. bd_pipeline b = Some pid) (builds st))
     @ [DropPipeline pid]"

text \<open>The contract: what the registry looks like after the whole cascade.\<close>

definition unlist_pipeline :: "entity_id \<Rightarrow> run \<Rightarrow> run" where
  "unlist_pipeline pid r = (if rn_pipeline r = Some pid then r\<lparr>rn_status := Unlisted\<rparr> else r)"

definition cascade_abs :: "registry \<Rightarrow> entity_id \<Rightarrow> registry" where
  "cascade_abs st pid =
     st\<lparr>runs := map (unlist_pipeline pid) (runs st),
       schedules := filter (\<lambda>s. sc_pipeline s \<noteq> pid) (schedules st),
       builds := filter (\<lambda>b. bd_pipeline b \<noteq> Some pid) (builds st),
       pipelines := filter (\<lambda>p. pl_id p \<noteq> pid) (pipelines st)\<rparr>"

section \<open>The client's deletions\<close>

definition delete_pipeline_client ::
  "(nat \<Rightarrow> bool) \<Rightarrow> registry \<Rightarrow> string \<Rightarrow> string option \<Rightarrow> client_error + registry" where
  "delete_pipeline_client fails st s v =
     (case get_pipeline st s v of
        Inl e \<Rightarrow> Inl e
      | Inr p \<Rightarrow> transact fails st (cascade_plan st (pl_id p)))"

definition delete_schedule_client ::
  "(nat \<Rightarrow> bool) \<Rightarrow> registry \<Rightarrow> string \<Rightarrow> client_error + registry" where
  "delete_schedule_client fails st s =
     (case resolve ''schedule'' s None (map schedule_key (schedules st)) of
        Inl e \<Rightarrow> Inl e
      | Inr i \<Rightarrow> transact fails st [DropSchedule i])"

definition delete_run_client ::
  "(nat \<Rightarrow> bool) \<Rightarrow> registry \<Rightarrow> string \<Rightarrow> client_error + registry" where
  "delete_run_client fails st s =
     (case resolve ''pipeline run'' s None (map run_key (runs st)) of
        Inl e \<Rightarrow> Inl e
      | Inr i \<Rightarrow> transact fails st [DropRun i])"

definition delete_build_client ::
  "(nat \<Rightarrow> bool) \<Rightarrow> registry \<Rightarrow> string \<Rightarrow> client_error + registry" where
  "delete_build_client fails st s =
     (case resolve ''pipeline build'' s None (map build_key (builds st)) of
        Inl e \<Rightarrow> Inl e
      | Inr i \<Rightarrow> transact fails st [DropBuild i])"

section \<open>Lemmas\<close>

lemma exec_steps_no_fault:
  "exec_steps (\<lambda>_. False) k st ms = Inr (fold (\<lambda>m s. apply_mutation s m) ms st)"
  by (induction ms arbitrary: k st) simp_all

lemma exec_steps_cong:
  "(\<And>j. j < length ms \<Longrightarrow> fails (k + j) = fails' (k + j)) \<Longrightarrow>
     exec_steps fails k st ms = exec_steps fails' k st ms"
proof (induction ms arbitrary: k st)
  case Nil
  then show ?case by simp
next
  case (Cons m ms)
  have "fails k = fails' k" using Cons.prems [of 0] by simp
  moreover have "exec_steps fails (Suc k) s ms = exec_steps fails' (Suc k) s ms" for s
    using Cons.prems [of "Suc _"] by (intro Cons.IH) simp
  ultimately show ?case by simp
qed

lemma exec_steps_fault:
  "j < length ms \<Longrightarrow> fails (k + j) \<Longrightarrow> \<exists>e s. exec_steps fails k st ms = Inl (e, s)"
proof (induction ms arbitrary: j k st)
  case Nil
  then show ?case by simp
next
  case (Cons m ms)
  show ?case
  proof (cases j)
    case 0
    with Cons.prems show ?thesis by simp
  next
    case (Suc j')
    with Cons.prems have "j' < length ms" and "fails (Suc k + j')" by simp_all
    then show ?thesis using Cons.IH by simp
  qed
qed

lemma transact_fault:
  "j < length ms \<Longrightarrow> fails j \<Longrightarrow> \<exists>e. transact fails st ms = Inl (CascadeFailed e)"
  using exec_steps_fault [of j ms fails 0 st] by (auto simp: transact_def)

lemma transact_no_fault:
  "(\<And>j. j < length ms \<Longrightarrow> \<not> fails j) \<Longrightarrow>
     transact fails st ms = Inr (fold (\<lambda>m s. apply_mutation s m) ms st)"
  using exec_steps_cong [of ms fails 0 "\<lambda>_. False" st] by (simp add: transact_def exec_steps_no_fault)

lemma transact_Inr: "transact fails st ms = Inr st' \<Longrightarrow> st' = fold (\<lambda>m s. apply_mutation s m) ms st"
proof -
  assume ok: "transact fails st ms = Inr st'"
  have "exec_steps fails k s ms = Inr s' \<Longrightarrow> s' = fold (\<lambda>m s. apply_mutation s m) ms s" for k s s'
    by (induction ms arbitrary: k s) (auto split: if_splits)
  with ok show ?thesis by (auto simp: transact_def split: sum.splits prod.splits)
qed

lemma fold_unlist:
  "fold (\<lambda>m s. apply_mutation s m) (map (UnlistRun \<circ> rn_id) rs) st =
     st\<lparr>runs := map (\<lambda>r. if rn_id r \<in> rn_id ` set rs then r\<lparr>rn_status := Unlisted\<rparr> else r) (runs st)\<rparr>"
  by (induction rs arbitrary: st) (auto simp: unlist_def comp_def)

lemma fold_drop_schedules:
  "fold (\<lambda>m s. apply_mutation s m) (map (DropSchedule \<circ> sc_id) ss) st =
     st\<lparr>schedules := filter (\<lambda>s. sc_id s \<notin> sc_id ` set ss) (schedules st)\<rparr>"
  by (induction ss arbitrary: st) (auto simp: comp_def intro: filter_cong)

lemma fold_drop_builds:
  "fold (\<lambda>m s. apply_mutation s m) (map (DropBuild \<circ> bd_id) bs) st =
     st\<lparr>builds := filter (\<lambda>b. bd_id b \<notin> bd_id ` set bs) (builds st)\<rparr>"
  by (induction bs arbitrary: st) (auto simp: comp_def intro: filter_cong)

lemma wf_distinct_ids:
  assumes "wf_registry st"
  shows "distinct (map pl_id (pipelines st))" "distinct (map bd_id (builds st))"
    "distinct (map rn_id (runs st))" "distinct (map sc_id (schedules st))"
    "distinct (map sk_id (stacks st))"
  using assms by (simp_all add: wf_registry_def all_ids_def)

lemma unlist_pipeline_sel [simp]:
  "rn_id (unlist_pipeline pid r) = rn_id r" "rn_name (unlist_pipeline pid r) = rn_name r"
  "rn_pipeline (unlist_pipeline pid r) = rn_pipeline r" "rn_build (unlist_pipeline pid r) = rn_build r"
  "rn_stack (unlist_pipeline pid r) = rn_stack r"
  "rn_status (unlist_pipeline pid r) = (if rn_pipeline r = Some pid then Unlisted else rn_status r)"
  by (simp_all add: unlist_pipeline_def)

lemma rn_id_comp_unlist_pipeline [simp]: "rn_id \<circ> unlist_pipeline pid = rn_id"
  by (rule ext) simp

theorem cascade_refines:
  assumes wf: "wf_registry st"
  shows "fold (\<lambda>m s. apply_mutation s m) (cascade_plan st pid) st = cascade_abs st pid"
proof -
  let ?R = "filter (\<lambda>r. rn_pipeline r = Some pid) (runs st)"
  let ?S = "filter (\<lambda>s. sc_pipeline s = pid) (schedules st)"
  let ?B = "filter (\<lambda>b. bd_pipeline b = Some pid) (builds st)"
  have runs_eq: "map (\<lambda>r. if rn_id r \<in> rn_id ` set ?R then r\<lparr>rn_status := Unlisted\<rparr> else r) (runs st)
      = map (unlist_pipeline pid) (runs st)"
    using key_in_filter_image [OF wf_distinct_ids(3) [OF wf]]
    by (intro map_cong) (simp_all add: unlist_pipeline_def del: set_filter)
  have sched_eq: "filter (\<lambda>s. sc_id s \<notin> sc_id ` set ?S) (schedules st)
      = filter (\<lambda>s. sc_pipeline s \<noteq> pid) (schedules st)"
    using key_in_filter_image [OF wf_distinct_ids(4) [OF wf]] by (intro filter_cong) (simp_all del: set_filter)
  have builds_eq: "filter (\<lambda>b. bd_id b \<notin> bd_id ` set ?B) (builds st)
      = filter (\<lambda>b. bd_pipeline b \<noteq> Some pid) (builds st)"
    using key_in_filter_image [OF wf_distinct_ids(2) [OF wf]] by (intro filter_cong) (simp_all del: set_filter)
  show ?thesis
    by (simp add: cascade_plan_def fold_unlist fold_drop_schedules fold_drop_builds
        runs_eq sched_eq builds_eq cascade_abs_def del: set_filter)
qed

theorem cascade_abs_wf:
  assumes wf: "wf_registry st"
  shows "wf_registry (cascade_abs st pid)"
proof (rule wf_registryI)
  let ?st' = "cascade_abs st pid"
  have sub: "set (all_ids ?st') \<subseteq> set (all_ids st)"
    by (auto simp: all_ids_def cascade_abs_def)
  show "\<forall>i \<in> set (all_ids ?st'). i < next_id ?st'"
    using wf sub by (auto simp: wf_registry_def cascade_abs_def)
  show "distinct (all_ids ?st')"
    using wf unfolding wf_registry_def all_ids_def
    by (auto simp: cascade_abs_def distinct_map_filter)
  show "distinct (map (\<lambda>p. (pl_name p, pl_version p)) (pipelines ?st'))"
    using wf by (auto simp: wf_registry_def cascade_abs_def)
  show "\<forall>p \<in> set (pipelines ?st'). 0 < pl_version p"
    using wf by (auto simp: wf_registry_def cascade_abs_def)
  have "distinct (map sc_name (filter sc_active (schedules st)))"
    using wf by (simp add: wf_registry_def)
  then have "distinct (map sc_name (filter (\<lambda>s. sc_pipeline s \<noteq> pid) (filter sc_active (schedules st))))"
    by (rule distinct_map_filter)
  then show "distinct (map sc_name (filter sc_active (schedules ?st')))"
    by (simp add: cascade_abs_def filter_filter conj_commute)
  have pids: "pipeline_ids ?st' = pipeline_ids st - {pid}"
    by (auto simp: cascade_abs_def pipeline_ids_def)
  have sids: "stack_ids ?st' = stack_ids st"
    by (simp add: cascade_abs_def stack_ids_def)
  have refs: "refs_ok st" using wf by (simp add: wf_registry_def)
  show "refs_ok ?st'"
    using refs unfolding refs_ok_def pids sids
    by (auto simp: cascade_abs_def)
qed

lemma apply_mutation_wf:
  assumes wf: "wf_registry st" and m: "\<And>i. m \<noteq> DropPipeline i"
  shows "wf_registry (apply_mutation st m)"
proof (rule wf_registryI)
  let ?st' = "apply_mutation st m"
  have unl: "rn_id \<circ> unlist i = rn_id" for i by (rule ext) (simp add: unlist_def)
  have sub: "set (all_ids ?st') \<subseteq> set (all_ids st)"
    using m by (cases m) (auto simp: all_ids_def unl)
  show "\<forall>i \<in> set (all_ids ?st'). i < next_id ?st'"
    using wf sub by (cases m) (auto simp: wf_registry_def)
  show "distinct (all_ids ?st')"
    using wf m unfolding wf_registry_def all_ids_def
    by (cases m) (auto simp: distinct_map_filter unl)
  show "distinct (map (\<lambda>p. (pl_name p, pl_version p)) (pipelines ?st'))"
    "\<forall>p \<in> set (pipelines ?st'). 0 < pl_version p"
    using wf m by (cases m; simp add: wf_registry_def)+
  have "distinct (map sc_name (filter sc_active (schedules st)))"
    using wf by (simp add: wf_registry_def)
  then show "distinct (map sc_name (filter sc_active (schedules ?st')))"
    by (cases m) (simp_all add: filter_filter conj_commute distinct_map_filter
        distinct_map_filter [of sc_name "filter sc_active (schedules st)", simplified filter_filter])
  have refs: "refs_ok st" using wf by (simp add: wf_registry_def)
  show "refs_ok ?st'"
    using refs m unfolding refs_ok_def
    by (cases m) (auto simp: registry_ids_defs unlist_def)
qed

lemma transact_single: "transact fails st [m] = Inr st' \<Longrightarrow> st' = apply_mutation st m"
  using transact_Inr by fastforce


lemma delete_pipeline_client_Inr:
  "delete_pipeline_client fails st s v = Inr st' \<Longrightarrow>
     \<exists>p. get_pipeline st s v = Inr p \<and> transact fails st (cascade_plan st (pl_id p)) = Inr st'"
  by (auto simp: delete_pipeline_client_def split: sum.splits)

lemma delete_pipeline_client_wf:
  assumes wf: "wf_registry st" and ok: "delete_pipeline_client fails st s v = Inr st'"
  shows "wf_registry st'"
proof -
  obtain p :: pipeline where "transact fails st (cascade_plan st (pl_id p)) = Inr st'"
    using delete_pipeline_client_Inr [OF ok] by blast
  then have "st' = cascade_abs st (pl_id p)"
    by (simp add: transact_Inr cascade_refines [OF wf, symmetric])
  then show ?thesis using cascade_abs_wf [OF wf] by simp
qed

lemma transact_single_wf:
  "wf_registry st \<Longrightarrow> transact fails st [m] = Inr st' \<Longrightarrow> (\<And>i. m \<noteq> DropPipeline i) \<Longrightarrow> wf_registry st'"
  using transact_single apply_mutation_wf by blast

lemma delete_schedule_client_wf:
  "wf_registry st \<Longrightarrow> delete_schedule_client fails st s = Inr st' \<Longrightarrow> wf_registry st'"
  by (auto simp: delete_schedule_client_def split: sum.splits elim!: transact_single_wf)

lemma delete_run_client_wf:
  "wf_registry st \<Longrightarrow> delete_run_client fails st s = Inr st' \<Longrightarrow> wf_registry st'"
  by (auto simp: delete_run_client_def split: sum.splits elim!: transact_single_wf)

lemma delete_build_client_wf:
  "wf_registry st \<Longrightarrow> delete_build_client fails st s = Inr st' \<Longrightarrow> wf_registry st'"
  by (auto simp: delete_build_client_def split: sum.splits elim!: transact_single_wf)

end
