(* ===== verification/BuildDoc.thy ===== *)
theory BuildDoc
  imports Cascade
begin

text \<open>
  The build document that \<^verbatim>\<open>build_pipeline\<close> writes with \<^verbatim>\<open>--output\<close>
  (\<^verbatim>\<open>build.yaml(include={"id", "images", "is_local"})\<close>, \<^verbatim>\<open>pipeline.py\<close> line 173)
  and that \<^verbatim>\<open>run_pipeline\<close> reads back with \<^verbatim>\<open>PipelineBuildBaseModel.from_yaml\<close>
  (line 249).  A document is the ordered field list of the model's \<^verbatim>\<open>dict()\<close>;
  \<open>yaml_include\<close> keeps the named fields in the model's order; reading a document
  into the base model needs the \<^verbatim>\<open>images\<close> and \<^verbatim>\<open>is_local\<close> fields and ignores the
  others (pydantic's default), and fails with a validation error otherwise.  The
  serialisation classes are not under \<^verbatim>\<open>src/\<close>; this follows the specification's
  section 4.4 on build artifacts.
\<close>

datatype yval = YStr string | YBool bool | YMap "(string \<times> string) list"

type_synonym ydoc = "(string \<times> yval) list"

record build_base =
  bb_images :: "(string \<times> string) list"
  bb_is_local :: bool

definition build_doc :: "build \<Rightarrow> ydoc" where
  "build_doc b =
     [(''id'', YStr (uuid_str (bd_id b))),
      (''pipeline'', YStr (case bd_pipeline b of None \<Rightarrow> [] | Some i \<Rightarrow> uuid_str i)),
      (''stack'', YStr (uuid_str (bd_stack b))),
      (''images'', YMap (bd_images b)),
      (''is_local'', YBool (bd_is_local b))]"

definition yaml_include :: "string list \<Rightarrow> ydoc \<Rightarrow> ydoc" where
  "yaml_include ks d = filter (\<lambda>(k, _). k \<in> set ks) d"

definition build_base_of_doc :: "ydoc \<Rightarrow> client_error + build_base" where
  "build_base_of_doc d =
     (case (map_of d ''images'', map_of d ''is_local'') of
        (Some (YMap im), Some (YBool l)) \<Rightarrow> Inr \<lparr>bb_images = im, bb_is_local = l\<rparr>
      | _ \<Rightarrow> Inl (InvalidArgument ''1 validation error for PipelineBuildBaseModel''))"

definition base_of_build :: "build \<Rightarrow> build_base" where
  "base_of_build b = \<lparr>bb_images = bd_images b, bb_is_local = bd_is_local b\<rparr>"

definition build_output_fields :: "string list" where
  "build_output_fields = [''id'', ''images'', ''is_local'']"

lemma build_doc_roundtrip:
  "build_base_of_doc (yaml_include build_output_fields (build_doc b)) = Inr (base_of_build b)"
  by (simp add: build_base_of_doc_def yaml_include_def build_doc_def build_output_fields_def
      base_of_build_def)

lemma build_doc_keys:
  "map fst (yaml_include build_output_fields (build_doc b)) = [''id'', ''images'', ''is_local'']"
  by (simp add: yaml_include_def build_doc_def build_output_fields_def)

end
