(* ===== verification/Cli.thy ===== *)
theory Cli
  imports BuildDoc
begin

text \<open>
  The commands of \<^verbatim>\<open>src/zenml/cli/pipeline.py\<close>, one definition per click handler,
  over an explicit world: the registry, the answers of the environment that the
  handlers consult (\<^verbatim>\<open>Client().root\<close>, the user's answer to a confirmation prompt,
  the files on disk, the importable sources, the image builder, the run executor,
  the store's faults) and the messages printed so far.  A handler returns its outcome
  and the new world: \<open>Success\<close> when it returns normally, \<open>CliError\<close> when it calls
  \<^verbatim>\<open>cli_utils.error\<close> (which raises a \<^verbatim>\<open>ClickException\<close>: exit code 1), and
  \<open>Uncaught e\<close> when an exception of the client escapes the handler.  The helpers of
  \<^verbatim>\<open>zenml.cli.utils\<close> and the pipeline's \<^verbatim>\<open>build\<close> and \<^verbatim>\<open>run\<close> are not under
  \<^verbatim>\<open>src/\<close> and are modelled after the specification.
\<close>

section \<open>The world\<close>

datatype source_obj = PipelineObject string string | OtherObject

datatype load_result = Loaded source_obj | ModuleMissing string | AttributeMissing string

datatype file_content = YamlFile ydoc | OtherFile string

datatype message =
    ActiveConfig
  | Warning string
  | Declare string
  | ErrorMsg string
  | Prompt string
  | Table "string list" "string list list"
  | RunsTable "string list list"
  | PageInfo nat nat nat nat

datatype outcome = Success | CliError | Uncaught client_error

record world =
  reg :: registry
  has_root :: bool
  active_stack :: entity_id
  confirm_answer :: bool
  files :: "string \<Rightarrow> file_content option"
  sources :: "string \<Rightarrow> load_result"
  source_root :: string
  builder :: "pipeline \<Rightarrow> stack \<Rightarrow> string option \<Rightarrow> (string \<times> string) list option"
  run_outcome :: "pipeline \<Rightarrow> run_status"
  faults :: "nat \<Rightarrow> bool"
  out :: "message list"

definition exit_code :: "outcome \<Rightarrow> nat" where
  "exit_code oc = (case oc of Success \<Rightarrow> 0 | _ \<Rightarrow> 1)"

section \<open>The helpers of \<^verbatim>\<open>zenml.cli.utils\<close>\<close>

definition emit :: "message \<Rightarrow> world \<Rightarrow> world" where
  "emit m w = w\<lparr>out := out w @ [m]\<rparr>"

definition print_active_config :: "world \<Rightarrow> world" where
  "print_active_config w = emit ActiveConfig w"

definition cli_warning :: "string \<Rightarrow> world \<Rightarrow> world" where
  "cli_warning s w = emit (Warning s) w"

definition cli_declare :: "string \<Rightarrow> world \<Rightarrow> world" where
  "cli_declare s w = emit (Declare s) w"

definition cli_error :: "string \<Rightarrow> world \<Rightarrow> outcome \<times> world" where
  "cli_error s w = (CliError, emit (ErrorMsg s) w)"

definition confirmation :: "string \<Rightarrow> world \<Rightarrow> bool \<times> world" where
  "confirmation s w = (confirm_answer w, emit (Prompt s) w)"

text \<open>Python's truth value of an optional string argument, and its text.\<close>

definition truthy :: "string option \<Rightarrow> bool" where
  "truthy v = (case v of None \<Rightarrow> False | Some s \<Rightarrow> s \<noteq> [])"

definition opt_str :: "string option \<Rightarrow> string" where
  "opt_str v = (case v of None \<Rightarrow> ''None'' | Some s \<Rightarrow> s)"

definition quoted :: "string \<Rightarrow> string" where
  "quoted s = [CHR 0x27] @ s @ [CHR 0x27]"

text \<open>\<^verbatim>\<open>str(e)\<close> of a \<^verbatim>\<open>KeyError\<close> is the representation of its argument: the message
  in single quotes.\<close>

definition key_error_str :: "client_error \<Rightarrow> string" where
  "key_error_str e = quoted (error_message e)"

text \<open>
  \<^verbatim>\<open>temporary_active_stack\<close>: activates the named stack (if one is named) for the
  body and reactivates the previous one afterwards, also when the body fails.  An
  unknown stack fails before the body runs.
\<close>

definition with_stack ::
  "string option \<Rightarrow> world \<Rightarrow> (stack \<Rightarrow> world \<Rightarrow> (client_error + 'a) \<times> world)
     \<Rightarrow> (client_error + 'a) \<times> world" where
  "with_stack sel w body =
     (let old = active_stack w;
          chosen = (if truthy sel then get_stack (reg w) (opt_str sel)
                    else (case find_stack (reg w) old of
                            None \<Rightarrow> Inl (NotFound ''No active stack.'')
                          | Some k \<Rightarrow> Inr k))
      in case chosen of
           Inl e \<Rightarrow> (Inl e, w)
         | Inr k \<Rightarrow> (case body k (w\<lparr>active_stack := sk_id k\<rparr>) of
                      (r, w') \<Rightarrow> (r, w'\<lparr>active_stack := old\<rparr>)))"

section \<open>The pipeline's build and run\<close>

text \<open>
  \<^verbatim>\<open>BasePipeline.build\<close>: the image builder of the environment says which images
  the pipeline needs on the stack (none for a purely local stack); if it needs any,
  a build record is registered and returned.
\<close>

definition pipeline_build ::
  "pipeline \<Rightarrow> stack \<Rightarrow> string option \<Rightarrow> world \<Rightarrow> (client_error + build option) \<times> world" where
  "pipeline_build p k cfg w =
     (case builder w p k cfg of
        None \<Rightarrow> (Inr None, w)
      | Some images \<Rightarrow>
          (case create_build (reg w) (Some (pl_id p)) (sk_id k) images (sk_is_local k) of
             Inl e \<Rightarrow> (Inl e, w)
           | Inr (b, st') \<Rightarrow> (Inr (Some b), w\<lparr>reg := st'\<rparr>)))"

datatype build_arg = NoBuild | BuildById string | BuildFromDoc build_base

text \<open>
  \<^verbatim>\<open>BasePipeline.run\<close>: use the given build (by identifier, which must exist, or
  registered from a build document), or build as \<^verbatim>\<open>build\<close> does; register the run
  under a fresh name, and record the executor's final status.
\<close>

definition run_build ::
  "pipeline \<Rightarrow> stack \<Rightarrow> string option \<Rightarrow> build_arg \<Rightarrow> world \<Rightarrow> (client_error + entity_id option) \<times> world" where
  "run_build p k cfg arg w =
     (case arg of
        BuildById s \<Rightarrow>
          (case parse_uuid s of
             Some i \<Rightarrow> if i \<in> build_ids (reg w) then (Inr (Some i), w)
                       else (Inl (NotFound (''No build with ID `'' @ s @ ''` found.'')), w)
           | None \<Rightarrow> (Inl (InvalidArgument ''Invalid build ID.''), w))
      | BuildFromDoc bb \<Rightarrow>
          (case create_build (reg w) (Some (pl_id p)) (sk_id k) (bb_images bb) (bb_is_local bb) of
             Inl e \<Rightarrow> (Inl e, w)
           | Inr (b, st') \<Rightarrow> (Inr (Some (bd_id b)), w\<lparr>reg := st'\<rparr>))
      | NoBuild \<Rightarrow>
          (case pipeline_build p k cfg w of
             (Inl e, w') \<Rightarrow> (Inl e, w')
           | (Inr b, w') \<Rightarrow> (Inr (map_option bd_id b), w')))"

definition pipeline_run ::
  "pipeline \<Rightarrow> stack \<Rightarrow> string option \<Rightarrow> build_arg \<Rightarrow> world \<Rightarrow> (client_error + run) \<times> world" where
  "pipeline_run p k cfg arg w =
     (case run_build p k cfg arg w of
        (Inl e, w1) \<Rightarrow> (Inl e, w1)
      | (Inr bid, w1) \<Rightarrow>
          (let name = pl_name p @ ''-'' @ show_version (next_id (reg w1)) in
           case create_run (reg w1) name (pl_id p) bid (sk_id k) of
             Inl e \<Rightarrow> (Inl e, w1)
           | Inr (r, st2) \<Rightarrow>
               (let s = run_outcome w1 p in
                if s \<in> {Completed, Failed}
                then (case set_run_status st2 (rn_id r) s of
                        Inl e \<Rightarrow> (Inl e, w1\<lparr>reg := st2\<rparr>)
                      | Inr st3 \<Rightarrow> (Inr (r\<lparr>rn_status := s\<rparr>), w1\<lparr>reg := st3\<rparr>))
                else (Inr r, w1\<lparr>reg := st2\<rparr>))))"

section \<open>The commands\<close>

definition no_repository_warning :: "string \<Rightarrow> string \<Rightarrow> string" where
  "no_repository_warning cmd what =
     ''You're running the `zenml pipeline '' @ cmd @ ''` command without a ZenML repository. ''
     @ ''Your current working directory will be used as the source root relative to which ''
     @ what @ ''. To silence this warning, run `zenml init` at your source code root.''"

definition warn_no_root :: "string \<Rightarrow> string \<Rightarrow> world \<Rightarrow> world" where
  "warn_no_root cmd what w = (if has_root w then w else cli_warning (no_repository_warning cmd what) w)"

text \<open>\<^verbatim>\<open>pipeline register SOURCE\<close> (lines 45--93).\<close>

definition register_pipeline :: "string \<Rightarrow> world \<Rightarrow> outcome \<times> world" where
  "register_pipeline source w =
     (let w1 = print_active_config w in
      if CHR ''.'' \<notin> set source
      then cli_error (''The given source path `'' @ source @ ''` is invalid. Make sure it looks ''
             @ ''like `some.module.name_of_pipeline_instance_variable` and resolves to a pipeline object.'') w1
      else
        let w2 = warn_no_root ''register'' ''the `source` argument is expected'' w1 in
        case sources w2 source of
          ModuleMissing m \<Rightarrow>
            cli_error (''Unable to import module `'' @ m @ ''`. Make sure the source path is ''
              @ ''relative to your source root `'' @ source_root w2 @ ''`.'') w2
        | AttributeMissing e \<Rightarrow> cli_error (''Unable to load attribute from module: '' @ e) w2
        | Loaded OtherObject \<Rightarrow>
            cli_error (''The given source path `'' @ source @ ''` does not resolve to a pipeline object.'') w2
        | Loaded (PipelineObject name spec) \<Rightarrow>
            (case create_pipeline (reg w2) name spec of
               Inl e \<Rightarrow> (Uncaught e, w2)
             | Inr (_, st') \<Rightarrow> (Success, w2\<lparr>reg := st'\<rparr>)))"

text \<open>\<^verbatim>\<open>pipeline build NAME_OR_ID [-v] [-c] [-s] [-o]\<close> (lines 96--175).\<close>

definition write_build_output :: "string option \<Rightarrow> build \<Rightarrow> world \<Rightarrow> world" where
  "write_build_output output_path b w =
     (case output_path of
        Some path \<Rightarrow>
          if path = [] then w
          else let w1 = cli_declare (''Writing pipeline build output to `'' @ path @ ''`.'') w in
               w1\<lparr>files := (files w1)(path \<mapsto> YamlFile (yaml_include build_output_fields (build_doc b)))\<rparr>
      | None \<Rightarrow> w)"

definition build_pipeline ::
  "string \<Rightarrow> string option \<Rightarrow> string option \<Rightarrow> string option \<Rightarrow> string option \<Rightarrow> world \<Rightarrow> outcome \<times> world" where
  "build_pipeline name version config_path stack output_path w =
     (let w1 = print_active_config w;
          w2 = warn_no_root ''build'' ''the registered step classes will be resolved'' w1
      in case get_pipeline (reg w2) name version of
           Inl e \<Rightarrow> (Uncaught e, w2)
         | Inr p \<Rightarrow>
             (case with_stack stack w2 (\<lambda>k w3. pipeline_build p k config_path w3) of
                (Inl e, w4) \<Rightarrow> (Uncaught e, w4)
              | (Inr None, w4) \<Rightarrow> (Success, cli_declare ''No docker builds required.'' w4)
              | (Inr (Some b), w4) \<Rightarrow>
                  (Success, write_build_output output_path b
                     (cli_declare (''Created pipeline build `'' @ uuid_str (bd_id b) @ ''`.'') w4))))"

text \<open>
  The \<^verbatim>\<open>--build\<close> argument of \<^verbatim>\<open>pipeline run\<close> (lines 244--254): a valid UUID is
  used as a build identifier; otherwise an existing path is read as a build
  document; anything else is an error.
\<close>

datatype build_choice = Chosen build_arg | BadBuild string | BadDoc client_error

definition choose_build :: "(string \<Rightarrow> file_content option) \<Rightarrow> string option \<Rightarrow> build_choice" where
  "choose_build fs build_path_or_id =
     (if \<not> truthy build_path_or_id then Chosen NoBuild
      else let s = opt_str build_path_or_id in
        if is_valid_uuid s then Chosen (BuildById s)
        else case fs s of
          Some (YamlFile d) \<Rightarrow>
            (case build_base_of_doc d of Inl e \<Rightarrow> BadDoc e | Inr bb \<Rightarrow> Chosen (BuildFromDoc bb))
        | Some (OtherFile _) \<Rightarrow> BadDoc (InvalidArgument ''The build file is not a build document.'')
        | None \<Rightarrow> BadBuild (''The specified build '' @ s @ '' is not a valid UUID or file path.''))"

text \<open>\<^verbatim>\<open>pipeline run NAME_OR_ID [-v] [-c] [-s] [-b]\<close> (lines 178--258).\<close>

definition run_pipeline ::
  "string \<Rightarrow> string option \<Rightarrow> string option \<Rightarrow> string option \<Rightarrow> string option \<Rightarrow> world \<Rightarrow> outcome \<times> world" where
  "run_pipeline name version config_path stack build_path_or_id w =
     (let w1 = print_active_config w;
          w2 = warn_no_root ''run'' ''the registered step classes will be resolved'' w1
      in case get_pipeline (reg w2) name version of
           Inl e \<Rightarrow> (Uncaught e, w2)
         | Inr p \<Rightarrow>
             (case choose_build (files w2) build_path_or_id of
                BadBuild msg \<Rightarrow> cli_error msg w2
              | BadDoc e \<Rightarrow> (Uncaught e, w2)
              | Chosen arg \<Rightarrow>
                  (case with_stack stack w2 (\<lambda>k w3. pipeline_run p k config_path arg w3) of
                     (Inl e, w4) \<Rightarrow> (Uncaught e, w4)
                   | (Inr _, w4) \<Rightarrow> (Success, w4))))"

section \<open>Listing commands\<close>

text \<open>\<^verbatim>\<open>print_pydantic_models(page, exclude_columns=...)\<close>: one row per item, the
  excluded columns left out.\<close>

definition model_table :: "string list \<Rightarrow> string list \<Rightarrow> (string \<times> string) list list \<Rightarrow> message" where
  "model_table cols excl rows =
     Table (filter (\<lambda>c. c \<notin> set excl) cols)
       (map (\<lambda>row. map snd (filter (\<lambda>(c, _). c \<notin> set excl) row)) rows)"

definition pipeline_row :: "pipeline \<Rightarrow> (string \<times> string) list" where
  "pipeline_row p = [(''id'', uuid_str (pl_id p)), (''name'', pl_name p), (''version'', show_version (pl_version p))]"

definition schedule_row :: "schedule \<Rightarrow> (string \<times> string) list" where
  "schedule_row s = [(''id'', uuid_str (sc_id s)), (''name'', sc_name s), (''pipeline_id'', uuid_str (sc_pipeline s))]"

definition build_row :: "build \<Rightarrow> (string \<times> string) list" where
  "build_row b = [(''id'', uuid_str (bd_id b)), (''stack'', uuid_str (bd_stack b)),
                  (''is_local'', if bd_is_local b then ''True'' else ''False'')]"

fun status_str :: "run_status \<Rightarrow> string" where
  "status_str Running = ''running''"
| "status_str Completed = ''completed''"
| "status_str Failed = ''failed''"
| "status_str Unlisted = ''unlisted''"

definition run_row :: "run \<Rightarrow> string list" where
  "run_row r = [rn_name r, uuid_str (rn_id r), status_str (rn_status r)]"

definition excluded_columns :: "string list" where
  "excluded_columns = [''id'', ''created'', ''updated'', ''user'', ''workspace'']"

definition build_excluded_columns :: "string list" where
  "build_excluded_columns = [''created'', ''updated'', ''user'', ''workspace'']"

definition page_info :: "'a page \<Rightarrow> message" where
  "page_info pg = PageInfo (pg_index pg) (pg_total_pages pg) (pg_max_size pg) (pg_total pg)"

text \<open>\<^verbatim>\<open>pipeline list\<close> (lines 261--282): errors of the client are not caught.\<close>

definition list_pipelines :: "list_args \<Rightarrow> world \<Rightarrow> outcome \<times> world" where
  "list_pipelines args w =
     (let w1 = print_active_config w in
      case client_list_pipelines (reg w1) args of
        Inl e \<Rightarrow> (Uncaught e, w1)
      | Inr pg \<Rightarrow>
          if pg_items pg = [] then (Success, cli_declare ''No pipelines found for this filter.'' w1)
          else (Success, emit (model_table [''id'', ''name'', ''version''] excluded_columns
                                 (map pipeline_row (pg_items pg))) w1))"

text \<open>\<^verbatim>\<open>pipeline schedule list\<close> (lines 341--361): the page's truth value is that of
  its items.\<close>

definition list_schedules :: "list_args \<Rightarrow> world \<Rightarrow> outcome \<times> world" where
  "list_schedules args w =
     (let w1 = print_active_config w in
      case client_list_schedules (reg w1) args of
        Inl e \<Rightarrow> (Uncaught e, w1)
      | Inr pg \<Rightarrow>
          if pg_items pg = [] then (Success, cli_declare ''No schedules found for this filter.'' w1)
          else (Success, emit (model_table [''id'', ''name'', ''pipeline_id''] excluded_columns
                                 (map schedule_row (pg_items pg))) w1))"

text \<open>\<^verbatim>\<open>pipeline runs list\<close> (lines 403--425): a \<^verbatim>\<open>KeyError\<close> is reported.\<close>

definition list_pipeline_runs :: "list_args \<Rightarrow> world \<Rightarrow> outcome \<times> world" where
  "list_pipeline_runs args w =
     (let w1 = print_active_config w in
      case client_list_runs (reg w1) args of
        Inl e \<Rightarrow> if is_key_error e then cli_error (key_error_str e) w1 else (Uncaught e, w1)
      | Inr pg \<Rightarrow>
          if pg_items pg = [] then (Success, cli_declare ''No pipeline runs found for this filter.'' w1)
          else (Success, emit (page_info pg) (emit (RunsTable (map run_row (pg_items pg))) w1)))"

text \<open>\<^verbatim>\<open>pipeline builds list\<close> (lines 473--497): the \<^verbatim>\<open>id\<close> column is shown.\<close>

definition list_pipeline_builds :: "list_args \<Rightarrow> world \<Rightarrow> outcome \<times> world" where
  "list_pipeline_builds args w =
     (let w1 = print_active_config w in
      case client_list_builds (reg w1) args of
        Inl e \<Rightarrow> if is_key_error e then cli_error (key_error_str e) w1 else (Uncaught e, w1)
      | Inr pg \<Rightarrow>
          if pg_items pg = [] then (Success, cli_declare ''No pipeline builds found for this filter.'' w1)
          else (Success, emit (model_table [''id'', ''stack'', ''is_local''] build_excluded_columns
                                 (map build_row (pg_items pg))) w1))"

section \<open>Deleting commands\<close>

text \<open>\<^verbatim>\<open>if not yes: confirmation = cli_utils.confirmation(...)\<close>\<close>

definition ask :: "bool \<Rightarrow> string \<Rightarrow> world \<Rightarrow> bool \<times> world" where
  "ask yes msg w = (if yes then (True, w) else confirmation msg w)"

text \<open>The \<^verbatim>\<open>try: ... except KeyError as e: cli_utils.error(str(e)) else: declare\<close>
  block that closes every delete command.\<close>

definition report_delete :: "client_error + registry \<Rightarrow> string \<Rightarrow> world \<Rightarrow> outcome \<times> world" where
  "report_delete r msg w =
     (case r of
        Inl e \<Rightarrow> if is_key_error e then cli_error (key_error_str e) w else (Uncaught e, w)
      | Inr st' \<Rightarrow> (Success, cli_declare msg (w\<lparr>reg := st'\<rparr>)))"

text \<open>\<^verbatim>\<open>pipeline delete NAME_OR_ID [-v] [-y]\<close> (lines 285--333).\<close>

definition delete_pipeline :: "string \<Rightarrow> string option \<Rightarrow> bool \<Rightarrow> world \<Rightarrow> outcome \<times> world" where
  "delete_pipeline name version yes w =
     (let w1 = print_active_config w;
          suffix = (if truthy version then '' (version '' @ opt_str version @ '')'' else [])
      in case ask yes (''Are you sure you want to delete pipeline `'' @ name @ suffix
                       @ ''`? This will change all existing runs of this pipeline to become unlisted.'') w1 of
           (False, w2) \<Rightarrow> (Success, cli_declare ''Pipeline deletion canceled.'' w2)
         | (True, w2) \<Rightarrow>
             report_delete (delete_pipeline_client (faults w2) (reg w2) name version)
               (''Deleted pipeline `'' @ name @ suffix @ ''`.'') w2)"

text \<open>\<^verbatim>\<open>pipeline schedule delete NAME_OR_ID [-y]\<close> (lines 364--395).\<close>

definition delete_schedule :: "string \<Rightarrow> bool \<Rightarrow> world \<Rightarrow> outcome \<times> world" where
  "delete_schedule name yes w =
     (let w1 = print_active_config w in
      case ask yes (''Are you sure you want to delete schedule `'' @ name @ ''`?'') w1 of
        (False, w2) \<Rightarrow> (Success, cli_declare ''Schedule deletion canceled.'' w2)
      | (True, w2) \<Rightarrow>
          report_delete (delete_schedule_client (faults w2) (reg w2) name)
            (''Deleted schedule '' @ quoted name @ ''.'') w2)"

text \<open>\<^verbatim>\<open>pipeline runs delete NAME_OR_ID [-y]\<close> (lines 428--465).\<close>

definition delete_pipeline_run :: "string \<Rightarrow> bool \<Rightarrow> world \<Rightarrow> outcome \<times> world" where
  "delete_pipeline_run name yes w =
     (let w1 = print_active_config w in
      case ask yes (''Are you sure you want to delete pipeline run `'' @ name @ ''`?'') w1 of
        (False, w2) \<Rightarrow> (Success, cli_declare ''Pipeline run deletion canceled.'' w2)
      | (True, w2) \<Rightarrow>
          report_delete (delete_run_client (faults w2) (reg w2) name)
            (''Deleted pipeline run '' @ quoted name @ ''.'') w2)"

text \<open>\<^verbatim>\<open>pipeline builds delete BUILD_ID [-y]\<close> (lines 500--533).\<close>

definition delete_pipeline_build :: "string \<Rightarrow> bool \<Rightarrow> world \<Rightarrow> outcome \<times> world" where
  "delete_pipeline_build build_id yes w =
     (let w1 = print_active_config w in
      case ask yes (''Are you sure you want to delete pipeline build `'' @ build_id @ ''`?'') w1 of
        (False, w2) \<Rightarrow> (Success, cli_declare ''Pipeline build deletion canceled.'' w2)
      | (True, w2) \<Rightarrow>
          report_delete (delete_build_client (faults w2) (reg w2) build_id)
            (''Deleted pipeline build '' @ quoted build_id @ ''.'') w2)"

section \<open>The command group\<close>

text \<open>The \<^verbatim>\<open>pipeline\<close> click group and its \<^verbatim>\<open>schedule\<close>, \<^verbatim>\<open>runs\<close> and \<^verbatim>\<open>builds\<close>
  subgroups: one constructor per command, with the command's arguments.\<close>

datatype command =
    Register string
  | Build string "string option" "string option" "string option" "string option"
  | Run string "string option" "string option" "string option" "string option"
  | ListPipelines list_args
  | DeletePipeline string "string option" bool
  | ListSchedules list_args
  | DeleteSchedule string bool
  | ListRuns list_args
  | DeleteRun string bool
  | ListBuilds list_args
  | DeleteBuild string bool

fun exec_command :: "command \<Rightarrow> world \<Rightarrow> outcome \<times> world" where
  "exec_command (Register src) w = register_pipeline src w"
| "exec_command (Build n v c s op) w = build_pipeline n v c s op w"
| "exec_command (Run n v c s b) w = run_pipeline n v c s b w"
| "exec_command (ListPipelines a) w = list_pipelines a w"
| "exec_command (DeletePipeline n v y) w = delete_pipeline n v y w"
| "exec_command (ListSchedules a) w = list_schedules a w"
| "exec_command (DeleteSchedule n y) w = delete_schedule n y w"
| "exec_command (ListRuns a) w = list_pipeline_runs a w"
| "exec_command (DeleteRun n y) w = delete_pipeline_run n y w"
| "exec_command (ListBuilds a) w = list_pipeline_builds a w"
| "exec_command (DeleteBuild n y) w = delete_pipeline_build n y w"

text \<open>A session: commands run one after the other on the world they leave.\<close>

fun exec_session :: "command list \<Rightarrow> world \<Rightarrow> outcome list \<times> world" where
  "exec_session [] w = ([], w)"
| "exec_session (c # cs) w =
     (case exec_command c w of
        (oc, w') \<Rightarrow> (case exec_session cs w' of (ocs, w'') \<Rightarrow> (oc # ocs, w'')))"

section \<open>Command classes and sample data\<close>

text \<open>The destructive commands, their \<^verbatim>\<open>--yes\<close> flag and the message each prints
  when the user declines.\<close>

fun destructive :: "command \<Rightarrow> bool" where
  "destructive (DeletePipeline _ _ _) = True"
| "destructive (DeleteSchedule _ _) = True"
| "destructive (DeleteRun _ _) = True"
| "destructive (DeleteBuild _ _) = True"
| "destructive _ = False"

fun forced :: "command \<Rightarrow> bool" where
  "forced (DeletePipeline _ _ y) = y"
| "forced (DeleteSchedule _ y) = y"
| "forced (DeleteRun _ y) = y"
| "forced (DeleteBuild _ y) = y"
| "forced _ = False"

fun cancel_message :: "command \<Rightarrow> string" where
  "cancel_message (DeletePipeline _ _ _) = ''Pipeline deletion canceled.''"
| "cancel_message (DeleteSchedule _ _) = ''Schedule deletion canceled.''"
| "cancel_message (DeleteRun _ _) = ''Pipeline run deletion canceled.''"
| "cancel_message (DeleteBuild _ _) = ''Pipeline build deletion canceled.''"
| "cancel_message _ = []"

fun is_prompt :: "message \<Rightarrow> bool" where
  "is_prompt (Prompt _) = True"
| "is_prompt _ = False"

text \<open>A registry with two versions of the pipeline \<^verbatim>\<open>digits\<close>, a build, a run and a
  schedule of version 1, and the default stack; and a world around it.\<close>

definition demo_registry :: registry where
  "demo_registry =
     \<lparr>pipelines = [\<lparr>pl_id = 1, pl_name = ''digits'', pl_version = 1, pl_spec = ''s1''\<rparr>,
                  \<lparr>pl_id = 2, pl_name = ''digits'', pl_version = 2, pl_spec = ''s2''\<rparr>],
      builds = [\<lparr>bd_id = 3, bd_pipeline = Some 1, bd_stack = 0, bd_images = [(''orchestrator'', ''img1'')],
                 bd_is_local = False\<rparr>],
      runs = [\<lparr>rn_id = 4, rn_name = ''digits-4'', rn_pipeline = Some 1, rn_build = Some 3, rn_stack = 0,
               rn_status = Completed\<rparr>],
      schedules = [\<lparr>sc_id = 5, sc_name = ''nightly'', sc_pipeline = 1, sc_trigger = Interval 86400,
                    sc_active = True\<rparr>],
      stacks = [\<lparr>sk_id = 0, sk_name = ''default'', sk_is_local = True\<rparr>],
      next_id = 6\<rparr>"

definition demo_world :: world where
  "demo_world =
     \<lparr>reg = demo_registry, has_root = True, active_stack = 0, confirm_answer = True,
      files = Map.empty,
      sources = (\<lambda>s. if s = ''app.digits'' then Loaded (PipelineObject ''digits'' ''s3'') else ModuleMissing ''app''),
      source_root = ''/src'', builder = (\<lambda>_ _ _. None), run_outcome = (\<lambda>_. Completed),
      faults = (\<lambda>_. False), out = []\<rparr>"

text \<open>The same world with an image builder that needs one image for every pipeline.\<close>

definition demo_build_world :: world where
  "demo_build_world = demo_world\<lparr>builder := (\<lambda>_ _ _. Some [(''orchestrator'', ''img2'')])\<rparr>"

section \<open>Lemmas\<close>

lemmas cli_defs = print_active_config_def cli_warning_def cli_declare_def cli_error_def
  confirmation_def emit_def ask_def report_delete_def

lemma with_stack_cases:
  assumes "with_stack sel w body = (r, w')"
  shows "(\<exists>e. r = Inl e \<and> w' = w) \<or> (\<exists>k w''. body k (w\<lparr>active_stack := sk_id k\<rparr>) = (r, w'') \<and> w' = w''\<lparr>active_stack := active_stack w\<rparr>)"
  using assms by (auto simp: with_stack_def Let_def split: sum.splits prod.splits option.splits)

lemma with_stack_wf:
  assumes "with_stack sel w body = (r, w')" and "wf_registry (reg w)"
    and "\<And>k w1 r w2. wf_registry (reg w1) \<Longrightarrow> body k w1 = (r, w2) \<Longrightarrow> wf_registry (reg w2)"
  shows "wf_registry (reg w')"
proof -
  from with_stack_cases [OF assms(1)] show ?thesis
  proof
    assume "\<exists>e. r = Inl e \<and> w' = w"
    then show ?thesis using assms(2) by auto
  next
    assume "\<exists>k w''. body k (w\<lparr>active_stack := sk_id k\<rparr>) = (r, w'') \<and> w' = w''\<lparr>active_stack := active_stack w\<rparr>"
    then obtain k w'' where b: "body k (w\<lparr>active_stack := sk_id k\<rparr>) = (r, w'')"
      and w': "w' = w''\<lparr>active_stack := active_stack w\<rparr>" by blast
    have "wf_registry (reg w'')" using assms(3) [OF _ b] assms(2) by simp
    then show ?thesis using w' by simp
  qed
qed

lemma pipeline_build_wf:
  "wf_registry (reg w) \<Longrightarrow> pipeline_build p k cfg w = (r, w') \<Longrightarrow> wf_registry (reg w')"
  by (auto simp: pipeline_build_def split: option.splits sum.splits elim: create_build_wf)

lemma run_build_wf:
  "wf_registry (reg w) \<Longrightarrow> run_build p k cfg arg w = (r, w') \<Longrightarrow> wf_registry (reg w')"
  by (auto simp: run_build_def split: build_arg.splits option.splits sum.splits prod.splits if_splits
      elim: create_build_wf pipeline_build_wf)

lemma pipeline_run_wf:
  assumes wf: "wf_registry (reg w)" and ok: "pipeline_run p k cfg arg w = (r, w')"
  shows "wf_registry (reg w')"
proof (cases "run_build p k cfg arg w")
  case (Pair rb w1)
  have wf1: "wf_registry (reg w1)" using run_build_wf [OF wf Pair] .
  show ?thesis
    using ok wf1 Pair
    by (auto simp: pipeline_run_def Let_def split: sum.splits prod.splits if_splits
        elim: create_run_wf set_run_status_wf [OF create_run_wf])
qed

lemma reg_write_build_output [simp]: "reg (write_build_output p b w) = reg w"
  by (simp add: write_build_output_def cli_defs split: option.splits)

lemma register_pipeline_wf:
  "wf_registry (reg w) \<Longrightarrow> register_pipeline s w = (oc, w') \<Longrightarrow> wf_registry (reg w')"
  by (auto simp: register_pipeline_def warn_no_root_def cli_defs Let_def
      split: load_result.splits source_obj.splits sum.splits if_splits elim: create_pipeline_wf)

lemma build_pipeline_wf:
  assumes wf: "wf_registry (reg w)" and ok: "build_pipeline n v c s op w = (oc, w')"
  shows "wf_registry (reg w')"
proof -
  let ?w2 = "warn_no_root ''build'' ''the registered step classes will be resolved'' (print_active_config w)"
  have wf2: "wf_registry (reg ?w2)" using wf by (simp add: warn_no_root_def cli_defs)
  have stk: "wf_registry (reg w4)" if "with_stack s ?w2 (\<lambda>k w3. pipeline_build p k c w3) = (r, w4)" for p r w4
    using with_stack_wf [OF that wf2 pipeline_build_wf] .
  show ?thesis
    using ok wf2 stk by (auto simp: build_pipeline_def Let_def cli_defs split: sum.splits prod.splits option.splits)
qed

lemma run_pipeline_wf:
  assumes wf: "wf_registry (reg w)" and ok: "run_pipeline n v c s b w = (oc, w')"
  shows "wf_registry (reg w')"
proof -
  let ?w2 = "warn_no_root ''run'' ''the registered step classes will be resolved'' (print_active_config w)"
  have wf2: "wf_registry (reg ?w2)" using wf by (simp add: warn_no_root_def cli_defs)
  have stk: "wf_registry (reg w4)" if "with_stack s ?w2 (\<lambda>k w3. pipeline_run p k c arg w3) = (r, w4)" for p arg r w4
    using with_stack_wf [OF that wf2 pipeline_run_wf] .
  show ?thesis
    using ok wf2 stk by (auto simp: run_pipeline_def Let_def cli_defs split: sum.splits prod.splits build_choice.splits)
qed

lemma delete_pipeline_wf:
  "wf_registry (reg w) \<Longrightarrow> delete_pipeline n v y w = (oc, w') \<Longrightarrow> wf_registry (reg w')"
  by (auto simp: delete_pipeline_def cli_defs Let_def split: if_splits sum.splits bool.splits
      dest: delete_pipeline_client_wf)

lemma delete_schedule_wf:
  "wf_registry (reg w) \<Longrightarrow> delete_schedule n y w = (oc, w') \<Longrightarrow> wf_registry (reg w')"
  by (auto simp: delete_schedule_def cli_defs Let_def split: if_splits sum.splits bool.splits
      dest: delete_schedule_client_wf)

lemma delete_pipeline_run_wf:
  "wf_registry (reg w) \<Longrightarrow> delete_pipeline_run n y w = (oc, w') \<Longrightarrow> wf_registry (reg w')"
  by (auto simp: delete_pipeline_run_def cli_defs Let_def split: if_splits sum.splits bool.splits
      dest: delete_run_client_wf)

lemma delete_pipeline_build_wf:
  "wf_registry (reg w) \<Longrightarrow> delete_pipeline_build n y w = (oc, w') \<Longrightarrow> wf_registry (reg w')"
  by (auto simp: delete_pipeline_build_def cli_defs Let_def split: if_splits sum.splits bool.splits
      dest: delete_build_client_wf)

lemma list_pipelines_out: "list_pipelines a w = (oc, w') \<Longrightarrow> \<exists>ms. w' = w\<lparr>out := out w @ ms\<rparr>"
  by (auto simp: list_pipelines_def cli_defs Let_def split: sum.splits if_splits)

lemma list_schedules_out: "list_schedules a w = (oc, w') \<Longrightarrow> \<exists>ms. w' = w\<lparr>out := out w @ ms\<rparr>"
  by (auto simp: list_schedules_def cli_defs Let_def split: sum.splits if_splits)

lemma list_pipeline_runs_out: "list_pipeline_runs a w = (oc, w') \<Longrightarrow> \<exists>ms. w' = w\<lparr>out := out w @ ms\<rparr>"
  by (auto simp: list_pipeline_runs_def cli_defs Let_def split: sum.splits if_splits)

lemma list_pipeline_builds_out: "list_pipeline_builds a w = (oc, w') \<Longrightarrow> \<exists>ms. w' = w\<lparr>out := out w @ ms\<rparr>"
  by (auto simp: list_pipeline_builds_def cli_defs Let_def split: sum.splits if_splits)

lemma report_delete_prompts:
  "report_delete r msg w = (oc, w') \<Longrightarrow> filter is_prompt (out w') = filter is_prompt (out w)"
  by (auto simp: report_delete_def cli_defs split: sum.splits if_splits)

lemma report_delete_Inr: "report_delete (Inr st') msg w = (oc, w') \<Longrightarrow> oc = Success \<and> reg w' = st'"
  by (auto simp: report_delete_def cli_defs)

lemma report_delete_Inl:
  "report_delete (Inl e) msg w = (oc, w') \<Longrightarrow> reg w' = reg w \<and> oc = (if is_key_error e then CliError else Uncaught e)"
  by (auto simp: report_delete_def cli_defs split: if_splits)

lemma delete_pipeline_confirmed:
  assumes "yes \<or> confirm_answer w" and "delete_pipeline name v yes w = (oc, w')"
  shows "\<exists>ms msg. report_delete (delete_pipeline_client (faults w) (reg w) name v) msg (w\<lparr>out := out w @ ms\<rparr>) = (oc, w')"
  using assms
  by (cases yes; cases "confirm_answer w")
    (simp_all add: delete_pipeline_def ask_def print_active_config_def confirmation_def emit_def Let_def,
      (intro exI, assumption)+)

lemma delete_pipeline_Success:
  assumes wf: "wf_registry (reg w)" and conf: "yes \<or> confirm_answer w"
    and run: "delete_pipeline name v yes w = (Success, w')"
  shows "\<exists>p. get_pipeline (reg w) name v = Inr p \<and> reg w' = cascade_abs (reg w) (pl_id p)"
proof -
  obtain ms msg where rd: "report_delete (delete_pipeline_client (faults w) (reg w) name v) msg (w\<lparr>out := out w @ ms\<rparr>) = (Success, w')"
    using delete_pipeline_confirmed [OF conf run] by blast
  obtain st' where cl: "delete_pipeline_client (faults w) (reg w) name v = Inr st'" and st': "reg w' = st'"
  proof (cases "delete_pipeline_client (faults w) (reg w) name v")
    case (Inl e)
    then show ?thesis using rd report_delete_Inl [of e msg "w\<lparr>out := out w @ ms\<rparr>" Success w'] by (simp split: if_splits)
  next
    case (Inr st')
    then show ?thesis using rd report_delete_Inr [of st' msg "w\<lparr>out := out w @ ms\<rparr>" Success w'] that by simp
  qed
  obtain p where "get_pipeline (reg w) name v = Inr p"
    and "transact (faults w) (reg w) (cascade_plan (reg w) (pl_id p)) = Inr st'"
    using delete_pipeline_client_Inr [OF cl] by blast
  then show ?thesis
    using st' by (auto simp: transact_Inr cascade_refines [OF wf, symmetric])
qed

lemma demo_registry_wf: "wf_registry demo_registry"
  by (simp add: demo_registry_def wf_registry_def refs_ok_def registry_ids_defs)

lemma demo_world_wf: "wf_registry (reg demo_world)"
  using demo_registry_wf by (simp add: demo_world_def)

lemma demo_get_digits_v1:
  "get_pipeline demo_registry ''digits'' (Some ''1'') =
     Inr \<lparr>pl_id = 1, pl_name = ''digits'', pl_version = 1, pl_spec = ''s1''\<rparr>"
  by (simp add: resolve_defs demo_registry_def decimal_value_def)

lemma demo_delete_v1:
  "delete_pipeline ''digits'' (Some ''1'') True demo_world =
     (Success, snd (delete_pipeline ''digits'' (Some ''1'') True demo_world))"
  by (simp add: delete_pipeline_def demo_world_def delete_pipeline_client_def demo_get_digits_v1
      print_active_config_def emit_def truthy_def report_delete_def ask_def Let_def transact_def,
      simp add: cascade_plan_def demo_registry_def)

lemma warn_no_root_out:
  "warn_no_root c m w = w\<lparr>out := out w @ (if has_root w then [] else [Warning (no_repository_warning c m)])\<rparr>"
  by (simp add: warn_no_root_def cli_warning_def emit_def)

lemma ask_confirmed:
  "yes \<or> confirm_answer w \<Longrightarrow>
     (case ask yes msg w of (False, w2) \<Rightarrow> A w2 | (True, w2) \<Rightarrow> B w2)
       = B (w\<lparr>out := out w @ (if yes then [] else [Prompt msg])\<rparr>)"
  by (auto simp: ask_def confirmation_def emit_def)

lemma delete_pipeline_build_confirmed:
  assumes "yes \<or> confirm_answer w"
  shows "\<exists>ms msg. delete_pipeline_build n yes w =
           report_delete (delete_build_client (faults w) (reg w) n) msg (w\<lparr>out := out w @ ms\<rparr>)"
  using assms
  by (cases yes) (simp_all add: delete_pipeline_build_def print_active_config_def emit_def Let_def ask_confirmed,
      (intro exI, rule refl)+)

lemma pipeline_build_result:
  "pipeline_build p k cfg w = (r, w') \<Longrightarrow>
     (\<exists>b. r = Inr (Some b) \<and> w' = w\<lparr>reg := (reg w)\<lparr>builds := builds (reg w) @ [b], next_id := Suc (next_id (reg w))\<rparr>\<rparr>)
     \<or> (w' = w \<and> (\<forall>b. r \<noteq> Inr (Some b)))"
  by (auto simp: pipeline_build_def create_build_def Let_def split: option.splits if_splits)

lemma with_stack_pipeline_build:
  assumes "with_stack sel w (\<lambda>k w3. pipeline_build p k cfg w3) = (r, w')"
  shows "(\<exists>b. r = Inr (Some b) \<and> reg w' = (reg w)\<lparr>builds := builds (reg w) @ [b], next_id := Suc (next_id (reg w))\<rparr>
           \<and> files w' = files w \<and> out w' = out w)
         \<or> (reg w' = reg w \<and> files w' = files w \<and> out w' = out w \<and> (\<forall>b. r \<noteq> Inr (Some b)))"
  using with_stack_cases [OF assms]
proof
  assume "\<exists>e. r = Inl e \<and> w' = w"
  then show ?thesis by auto
next
  assume "\<exists>k w''. pipeline_build p k cfg (w\<lparr>active_stack := sk_id k\<rparr>) = (r, w'') \<and> w' = w''\<lparr>active_stack := active_stack w\<rparr>"
  then obtain k w'' where pb: "pipeline_build p k cfg (w\<lparr>active_stack := sk_id k\<rparr>) = (r, w'')"
    and w': "w' = w''\<lparr>active_stack := active_stack w\<rparr>" by blast
  show ?thesis using pipeline_build_result [OF pb] w' by auto
qed

lemma demo_get_digits_latest:
  "get_pipeline demo_registry ''digits'' None =
     Inr \<lparr>pl_id = 2, pl_name = ''digits'', pl_version = 2, pl_spec = ''s2''\<rparr>"
  by (simp add: resolve_defs demo_registry_def)

lemma demo_get_mnist:
  "get_pipeline demo_registry ''mnist'' None = Inl (NotFound ''No pipeline found with this name, ID or prefix.'')"
  by (simp add: resolve_defs demo_registry_def starts_with_uuid_str [of "CHR ''m''"] hex_value_def)

lemma demo_build_creates:
  "builds (reg (snd (build_pipeline ''digits'' None None None (Some ''build.yaml'') demo_build_world)))
     = builds demo_registry @ [\<lparr>bd_id = 6, bd_pipeline = Some 2, bd_stack = 0,
         bd_images = [(''orchestrator'', ''img2'')], bd_is_local = True\<rparr>]"
  by (simp add: build_pipeline_def demo_build_world_def demo_world_def warn_no_root_out cli_defs Let_def
      demo_get_digits_latest with_stack_def truthy_def,
      simp add: demo_registry_def find_stack_def pipeline_build_def create_build_def registry_ids_defs
      write_build_output_def Let_def cli_defs)

lemma demo_find_default: "find_stack (reg demo_world) (active_stack demo_world) = Some \<lparr>sk_id = 0, sk_name = ''default'', sk_is_local = True\<rparr>"
  by (simp add: demo_world_def demo_registry_def find_stack_def)

lemma command_wf:
  assumes "wf_registry (reg w)" and "exec_command c w = (oc, w')"
  shows "wf_registry (reg w')"
  using assms
  by (cases c) (auto intro: register_pipeline_wf build_pipeline_wf run_pipeline_wf delete_pipeline_wf
      delete_schedule_wf delete_pipeline_run_wf delete_pipeline_build_wf
      dest: list_pipelines_out list_schedules_out list_pipeline_runs_out list_pipeline_builds_out)

lemma register_pipeline_loaded:
  assumes "CHR ''.'' \<in> set s" and "sources w s = Loaded (PipelineObject name spec)"
    and "register_pipeline s w = (oc, w')"
  shows "oc = Success \<and> sources w' = sources w
    \<and> reg w' = (reg w)\<lparr>pipelines := pipelines (reg w) @
          [\<lparr>pl_id = next_id (reg w), pl_name = name, pl_version = next_version (reg w) name, pl_spec = spec\<rparr>],
        next_id := Suc (next_id (reg w))\<rparr>"
  using assms by (auto simp: register_pipeline_def warn_no_root_out cli_defs Let_def create_pipeline_Inr)

section \<open>Properties\<close>

text \<open>
  C1. Declining the confirmation prompt of a destructive command (pipeline,
  schedule, run or build deletion without \<^verbatim>\<open>--yes\<close>) leaves the registry unchanged,
  ends with exit status 0 and prints the command's cancellation message last.
\<close>

theorem declined_delete_noop:
  assumes "destructive c" and "\<not> forced c" and "\<not> confirm_answer w" and "exec_command c w = (oc, w')"
  shows "oc = Success \<and> reg w' = reg w \<and> last (out w') = Declare (cancel_message c)"
  using assms
  by (cases c) (auto simp: delete_pipeline_def delete_schedule_def delete_pipeline_run_def
      delete_pipeline_build_def cli_defs Let_def)

theorem declined_delete_noop_witness:
  "fst (exec_command (DeletePipeline ''digits'' None False) (demo_world\<lparr>confirm_answer := False\<rparr>)) = Success
   \<and> reg (snd (exec_command (DeletePipeline ''digits'' None False) (demo_world\<lparr>confirm_answer := False\<rparr>)))
     = demo_registry"
  using declined_delete_noop [of "DeletePipeline ''digits'' None False" "demo_world\<lparr>confirm_answer := False\<rparr>"
      "fst (exec_command (DeletePipeline ''digits'' None False) (demo_world\<lparr>confirm_answer := False\<rparr>))"
      "snd (exec_command (DeletePipeline ''digits'' None False) (demo_world\<lparr>confirm_answer := False\<rparr>))"]
  by (simp add: demo_world_def)

text \<open>
  C3. A confirmed \<^verbatim>\<open>pipeline delete\<close> of a pipeline that resolves, on a store
  that does not fail during the cascade, succeeds and leaves exactly the registry the
  cascade contract \<open>cascade_abs\<close> describes: runs unlisted, schedules and builds of the
  pipeline deleted, the pipeline deleted.
\<close>

theorem delete_pipeline_refines:
  assumes wf: "wf_registry (reg w)" and p: "get_pipeline (reg w) name v = Inr p"
    and conf: "yes \<or> confirm_answer w"
    and nf: "\<forall>j < length (cascade_plan (reg w) (pl_id p)). \<not> faults w j"
    and run: "delete_pipeline name v yes w = (oc, w')"
  shows "oc = Success \<and> reg w' = cascade_abs (reg w) (pl_id p)"
proof -
  have "delete_pipeline_client (faults w) (reg w) name v = Inr (cascade_abs (reg w) (pl_id p))"
    using p nf by (simp add: delete_pipeline_client_def transact_no_fault cascade_refines [OF wf])
  then show ?thesis using delete_pipeline_confirmed [OF conf run] report_delete_Inr by auto
qed

theorem delete_pipeline_refines_witness:
  "fst (delete_pipeline ''digits'' (Some ''1'') True demo_world) = Success
   \<and> reg (snd (delete_pipeline ''digits'' (Some ''1'') True demo_world)) = cascade_abs demo_registry 1"
  using delete_pipeline_refines [of demo_world "''digits''" "Some ''1''"
      "\<lparr>pl_id = 1, pl_name = ''digits'', pl_version = 1, pl_spec = ''s1''\<rparr>" True
      "fst (delete_pipeline ''digits'' (Some ''1'') True demo_world)"
      "snd (delete_pipeline ''digits'' (Some ''1'') True demo_world)"]
    demo_registry_wf demo_get_digits_v1
  by (simp add: demo_world_def)

text \<open>
  C4. If the store fails at any step of the cascade of a confirmed
  \<^verbatim>\<open>pipeline delete\<close>, the registry is left exactly as it was and the command ends with
  the uncaught \<open>CascadeFailed\<close> error (the handler only catches \<^verbatim>\<open>KeyError\<close>).
\<close>

theorem delete_pipeline_fault_atomic:
  assumes p: "get_pipeline (reg w) name v = Inr p" and conf: "yes \<or> confirm_answer w"
    and j: "j < length (cascade_plan (reg w) (pl_id p))" and fj: "faults w j"
    and run: "delete_pipeline name v yes w = (oc, w')"
  shows "(\<exists>e. oc = Uncaught (CascadeFailed e)) \<and> reg w' = reg w"
proof -
  obtain e where "delete_pipeline_client (faults w) (reg w) name v = Inl (CascadeFailed e)"
    using transact_fault [OF j, of "faults w" "reg w"] fj p by (auto simp: delete_pipeline_client_def)
  then show ?thesis using delete_pipeline_confirmed [OF conf run] report_delete_Inl by fastforce
qed

theorem delete_pipeline_fault_atomic_witness:
  "(\<exists>e. fst (delete_pipeline ''digits'' (Some ''1'') True (demo_world\<lparr>faults := \<lambda>j. j = 0\<rparr>))
          = Uncaught (CascadeFailed e))
   \<and> reg (snd (delete_pipeline ''digits'' (Some ''1'') True (demo_world\<lparr>faults := \<lambda>j. j = 0\<rparr>)))
       = reg demo_world"
  using delete_pipeline_fault_atomic [of "demo_world\<lparr>faults := \<lambda>j. j = 0\<rparr>" "''digits''" "Some ''1''"
      "\<lparr>pl_id = 1, pl_name = ''digits'', pl_version = 1, pl_spec = ''s1''\<rparr>" True 0
      "fst (delete_pipeline ''digits'' (Some ''1'') True (demo_world\<lparr>faults := \<lambda>j. j = 0\<rparr>))"
      "snd (delete_pipeline ''digits'' (Some ''1'') True (demo_world\<lparr>faults := \<lambda>j. j = 0\<rparr>))"]
  by (simp add: demo_world_def demo_get_digits_v1 cascade_plan_def)

text \<open>
  C5. After a confirmed \<^verbatim>\<open>pipeline delete\<close> that succeeds, some pipeline \<open>p\<close> of the
  registry was deleted: every run is still there (same identifiers, same order) and the
  runs of \<open>p\<close> are unlisted, exactly the builds and schedules of \<open>p\<close> are gone, and
  exactly \<open>p\<close> is gone from the pipelines (other versions of its name stay).
\<close>

theorem delete_pipeline_unlists_runs:
  assumes wf: "wf_registry (reg w)" and conf: "yes \<or> confirm_answer w"
    and run: "delete_pipeline name v yes w = (Success, w')"
  shows "\<exists>p \<in> set (pipelines (reg w)).
           map rn_id (runs (reg w')) = map rn_id (runs (reg w))
         \<and> (\<forall>r \<in> set (runs (reg w')). rn_pipeline r = Some (pl_id p) \<longrightarrow> rn_status r = Unlisted)
         \<and> builds (reg w') = filter (\<lambda>b. bd_pipeline b \<noteq> Some (pl_id p)) (builds (reg w))
         \<and> schedules (reg w') = filter (\<lambda>s. sc_pipeline s \<noteq> pl_id p) (schedules (reg w))
         \<and> pipelines (reg w') = filter (\<lambda>q. pl_id q \<noteq> pl_id p) (pipelines (reg w))"
proof -
  obtain p where p: "get_pipeline (reg w) name v = Inr p" and r: "reg w' = cascade_abs (reg w) (pl_id p)"
    using delete_pipeline_Success [OF wf conf run] by blast
  have "map rn_id (runs (reg w')) = map rn_id (runs (reg w))"
    using r by (simp add: cascade_abs_def)
  moreover have "\<forall>r \<in> set (runs (reg w')). rn_pipeline r = Some (pl_id p) \<longrightarrow> rn_status r = Unlisted"
    using r by (auto simp: cascade_abs_def)
  ultimately show ?thesis
    using get_pipeline_member [OF p] r by (auto simp: cascade_abs_def)
qed

theorem delete_pipeline_unlists_runs_witness:
  "\<exists>p \<in> set (pipelines (reg demo_world)).
     map rn_id (runs (reg (snd (delete_pipeline ''digits'' (Some ''1'') True demo_world)))) = map rn_id (runs (reg demo_world))
   \<and> (\<forall>r \<in> set (runs (reg (snd (delete_pipeline ''digits'' (Some ''1'') True demo_world)))).
        rn_pipeline r = Some (pl_id p) \<longrightarrow> rn_status r = Unlisted)
   \<and> builds (reg (snd (delete_pipeline ''digits'' (Some ''1'') True demo_world)))
       = filter (\<lambda>b. bd_pipeline b \<noteq> Some (pl_id p)) (builds (reg demo_world))
   \<and> schedules (reg (snd (delete_pipeline ''digits'' (Some ''1'') True demo_world)))
       = filter (\<lambda>s. sc_pipeline s \<noteq> pl_id p) (schedules (reg demo_world))
   \<and> pipelines (reg (snd (delete_pipeline ''digits'' (Some ''1'') True demo_world)))
       = filter (\<lambda>q. pl_id q \<noteq> pl_id p) (pipelines (reg demo_world))"
  by (rule delete_pipeline_unlists_runs [OF demo_world_wf _ demo_delete_v1]) simp

text \<open>
  C6. A delete command given \<^verbatim>\<open>--yes\<close> never prompts for confirmation.
\<close>

theorem forced_delete_no_prompt:
  assumes "destructive c" and "forced c" and "exec_command c w = (oc, w')"
  shows "filter is_prompt (out w') = filter is_prompt (out w)"
  using assms
  by (cases c) (auto simp: delete_pipeline_def delete_schedule_def delete_pipeline_run_def
      delete_pipeline_build_def ask_def print_active_config_def emit_def Let_def
      dest!: report_delete_prompts)

theorem forced_delete_no_prompt_witness:
  "filter is_prompt (out (snd (exec_command (DeleteBuild ''3'' True) demo_world))) = filter is_prompt (out demo_world)"
  using forced_delete_no_prompt [of "DeleteBuild ''3'' True" demo_world
      "fst (exec_command (DeleteBuild ''3'' True) demo_world)" "snd (exec_command (DeleteBuild ''3'' True) demo_world)"]
  by simp

text \<open>
  C7. \<^verbatim>\<open>pipeline register\<close> of a source that loads a pipeline appends exactly one
  pipeline record: it gets the next identifier and version 1 if the name is new, and
  otherwise one more than the highest version registered under the name.
\<close>

theorem register_next_version:
  assumes dot: "CHR ''.'' \<in> set s" and src: "sources w s = Loaded (PipelineObject name spec)"
    and run: "register_pipeline s w = (oc, w')"
  shows "oc = Success
    \<and> pipelines (reg w') = pipelines (reg w) @
        [\<lparr>pl_id = next_id (reg w), pl_name = name,
          pl_version = (if versions_of (reg w) name = [] then 1 else Suc (Max (set (versions_of (reg w) name)))),
          pl_spec = spec\<rparr>]"
  using register_pipeline_loaded [OF assms] by (simp add: next_version_Max)

theorem register_next_version_witness:
  "fst (register_pipeline ''app.digits'' demo_world) = Success
   \<and> pipelines (reg (snd (register_pipeline ''app.digits'' demo_world))) =
       pipelines demo_registry @ [\<lparr>pl_id = 6, pl_name = ''digits'', pl_version = 3, pl_spec = ''s3''\<rparr>]"
  using register_next_version [of "''app.digits''" demo_world "''digits''" "''s3''"
      "fst (register_pipeline ''app.digits'' demo_world)" "snd (register_pipeline ''app.digits'' demo_world)"]
  by (simp add: demo_world_def demo_registry_def versions_of_def)

text \<open>
  C8. \<^verbatim>\<open>pipeline register\<close> of a source path without a dot fails with a CLI error
  (exit status 1) and registers nothing.
\<close>

theorem register_invalid_source:
  assumes "CHR ''.'' \<notin> set s" and "register_pipeline s w = (oc, w')"
  shows "oc = CliError \<and> exit_code oc = 1 \<and> reg w' = reg w"
  using assms by (auto simp: register_pipeline_def cli_defs exit_code_def)

theorem register_invalid_source_witness:
  "fst (register_pipeline ''digits'' demo_world) = CliError \<and> reg (snd (register_pipeline ''digits'' demo_world)) = demo_registry"
  using register_invalid_source [of "''digits''" demo_world "fst (register_pipeline ''digits'' demo_world)"
      "snd (register_pipeline ''digits'' demo_world)"]
  by (simp add: demo_world_def)

text \<open>
  C9. When \<^verbatim>\<open>pipeline build -o PATH\<close> creates a build, the document it writes to
  \<open>PATH\<close> is read back by \<^verbatim>\<open>pipeline run -b PATH\<close> (for a path that is not a UUID) as
  exactly that build's images and locality.
\<close>

theorem build_output_roundtrip:
  assumes run: "build_pipeline n v cfg stk (Some path) w = (oc, w')" and ne: "path \<noteq> []"
    and nu: "\<not> is_valid_uuid path" and new: "length (builds (reg w')) \<noteq> length (builds (reg w))"
  shows "\<exists>b. builds (reg w') = builds (reg w) @ [b]
           \<and> choose_build (files w') (Some path) = Chosen (BuildFromDoc (base_of_build b))"
proof -
  let ?w2 = "warn_no_root ''build'' ''the registered step classes will be resolved'' (print_active_config w)"
  have r2: "reg ?w2 = reg w" by (simp add: warn_no_root_out cli_defs)
  obtain p where p: "get_pipeline (reg ?w2) n v = Inr p"
    using run new r2 by (auto simp: build_pipeline_def Let_def split: sum.splits)
  obtain r w4 where ws: "with_stack stk ?w2 (\<lambda>k w3. pipeline_build p k cfg w3) = (r, w4)"
    by (metis surj_pair)
  have run': "build_pipeline n v cfg stk (Some path) w =
      (case r of Inl e \<Rightarrow> (Uncaught e, w4)
       | Inr None \<Rightarrow> (Success, cli_declare ''No docker builds required.'' w4)
       | Inr (Some b) \<Rightarrow> (Success, write_build_output (Some path) b
              (cli_declare (''Created pipeline build `'' @ uuid_str (bd_id b) @ ''`.'') w4)))"
    using p ws by (simp add: build_pipeline_def Let_def split: sum.splits option.splits)
  from with_stack_pipeline_build [OF ws] show ?thesis
  proof
    assume "\<exists>b. r = Inr (Some b) \<and> reg w4 = (reg ?w2)\<lparr>builds := builds (reg ?w2) @ [b], next_id := Suc (next_id (reg ?w2))\<rparr>
           \<and> files w4 = files ?w2 \<and> out w4 = out ?w2"
    then obtain b where rb: "r = Inr (Some b)"
      and reg4: "reg w4 = (reg ?w2)\<lparr>builds := builds (reg ?w2) @ [b], next_id := Suc (next_id (reg ?w2))\<rparr>"
      by blast
    have w': "w' = write_build_output (Some path) b
        (cli_declare (''Created pipeline build `'' @ uuid_str (bd_id b) @ ''`.'') w4)"
      using run run' rb by simp
    have "files w' path = Some (YamlFile (yaml_include build_output_fields (build_doc b)))"
      using ne by (simp add: w' write_build_output_def cli_defs)
    then have "choose_build (files w') (Some path) = Chosen (BuildFromDoc (base_of_build b))"
      using ne nu by (simp add: choose_build_def truthy_def opt_str_def build_doc_roundtrip)
    moreover have "builds (reg w') = builds (reg w) @ [b]"
      using reg4 r2 by (simp add: w' write_build_output_def cli_defs split: option.splits)
    ultimately show ?thesis by blast
  next
    assume "reg w4 = reg ?w2 \<and> files w4 = files ?w2 \<and> out w4 = out ?w2 \<and> (\<forall>b. r \<noteq> Inr (Some b))"
    then have "reg w' = reg w"
      using run run' r2 by (auto simp: cli_defs split: sum.splits option.splits)
    with new show ?thesis by simp
  qed
qed

theorem build_output_roundtrip_witness:
  "\<exists>b. builds (reg (snd (build_pipeline ''digits'' None None None (Some ''build.yaml'') demo_build_world)))
         = builds (reg demo_build_world) @ [b]
     \<and> choose_build (files (snd (build_pipeline ''digits'' None None None (Some ''build.yaml'') demo_build_world)))
         (Some ''build.yaml'') = Chosen (BuildFromDoc (base_of_build b))"
  using build_output_roundtrip [of "''digits''" None None None "''build.yaml''" demo_build_world
      "fst (build_pipeline ''digits'' None None None (Some ''build.yaml'') demo_build_world)"
      "snd (build_pipeline ''digits'' None None None (Some ''build.yaml'') demo_build_world)"]
  by (simp add: demo_build_creates, simp add: demo_build_world_def demo_world_def demo_registry_def
      is_valid_uuid_def parse_uuid_def uuid_hex_def strip_chars_def)

text \<open>
  C10. When the pipeline argument of \<^verbatim>\<open>pipeline build\<close> or \<^verbatim>\<open>pipeline run\<close> does
  not resolve, the client's error escapes both handlers uncaught, and neither the
  registry nor the files change.
\<close>

theorem unknown_pipeline_uncaught:
  assumes e: "get_pipeline (reg w) n v = Inl e"
    and b: "exec_command (Build n v cfg stk op) w = (oc1, w1)"
    and r: "exec_command (Run n v cfg stk bp) w = (oc2, w2)"
  shows "oc1 = Uncaught e \<and> reg w1 = reg w \<and> files w1 = files w
       \<and> oc2 = Uncaught e \<and> reg w2 = reg w \<and> files w2 = files w"
  using assms by (auto simp: build_pipeline_def run_pipeline_def warn_no_root_out cli_defs Let_def)

theorem unknown_pipeline_uncaught_witness:
  "fst (exec_command (Build ''mnist'' None None None None) demo_world)
     = Uncaught (NotFound ''No pipeline found with this name, ID or prefix.'')
   \<and> fst (exec_command (Run ''mnist'' None None None None) demo_world)
     = Uncaught (NotFound ''No pipeline found with this name, ID or prefix.'')"
  using unknown_pipeline_uncaught [of demo_world "''mnist''" None "NotFound ''No pipeline found with this name, ID or prefix.''"
      None None None "fst (exec_command (Build ''mnist'' None None None None) demo_world)"
      "snd (exec_command (Build ''mnist'' None None None None) demo_world)" None
      "fst (exec_command (Run ''mnist'' None None None None) demo_world)"
      "snd (exec_command (Run ''mnist'' None None None None) demo_world)"]
  by (simp add: demo_world_def demo_get_mnist)

text \<open>
  C11. \<^verbatim>\<open>pipeline builds delete --yes\<close> given the printed identifier of an existing
  build, on a store that does not fail, deletes exactly that build and nothing else.
\<close>

theorem delete_build_by_uuid:
  assumes wf: "wf_registry (reg w)" and b: "b \<in> set (builds (reg w))" and small: "bd_id b < 2 ^ 128"
    and nf: "\<not> faults w 0" and run: "delete_pipeline_build (uuid_str (bd_id b)) True w = (oc, w')"
  shows "oc = Success \<and> reg w' = (reg w)\<lparr>builds := filter (\<lambda>x. bd_id x \<noteq> bd_id b) (builds (reg w))\<rparr>"
proof -
  have "parse_uuid (uuid_str (bd_id b)) = Some (bd_id b)"
    using small by (simp add: parse_uuid_uuid_str)
  then have "resolve ''pipeline build'' (uuid_str (bd_id b)) None (map build_key (builds (reg w))) = Inr (bd_id b)"
    using b by (simp add: resolve_uuid parse_version_arg_def image_image build_key_def)
  then have "delete_build_client (faults w) (reg w) (uuid_str (bd_id b))
      = Inr ((reg w)\<lparr>builds := filter (\<lambda>x. bd_id x \<noteq> bd_id b) (builds (reg w))\<rparr>)"
    using nf by (simp add: delete_build_client_def transact_def)
  then show ?thesis
    using delete_pipeline_build_confirmed [of True w "uuid_str (bd_id b)"] run report_delete_Inr by fastforce
qed

theorem delete_build_by_uuid_witness:
  "fst (delete_pipeline_build (uuid_str 3) True demo_world) = Success
   \<and> builds (reg (snd (delete_pipeline_build (uuid_str 3) True demo_world))) = []"
  using delete_build_by_uuid [of demo_world "hd (builds demo_registry)"
      "fst (delete_pipeline_build (uuid_str 3) True demo_world)" "snd (delete_pipeline_build (uuid_str 3) True demo_world)"]
    demo_world_wf
  by (simp add: demo_world_def demo_registry_def)

text \<open>
  C20. \<^verbatim>\<open>pipeline run\<close> of a resolvable pipeline on the active stack, when no images
  are needed and the executor finishes, succeeds: exactly one run is appended, named
  after the pipeline and the identifier counter, referring to the pipeline and the
  stack, with the executor's final status; the active stack is restored.
\<close>

theorem run_pipeline_records_run:
  assumes wf: "wf_registry (reg w)" and p: "get_pipeline (reg w) n v = Inr p"
    and k: "find_stack (reg w) (active_stack w) = Some k"
    and nb: "builder w p k cfg = None" and fin: "run_outcome w p \<in> {Completed, Failed}"
    and run: "run_pipeline n v cfg None None w = (oc, w')"
  shows "oc = Success \<and> active_stack w' = active_stack w
    \<and> runs (reg w') = runs (reg w) @
        [\<lparr>rn_id = next_id (reg w), rn_name = pl_name p @ ''-'' @ show_version (next_id (reg w)),
          rn_pipeline = Some (pl_id p), rn_build = None, rn_stack = sk_id k, rn_status = run_outcome w p\<rparr>]"
proof -
  have pid: "pl_id p \<in> pipeline_ids (reg w)"
    using get_pipeline_member [OF p] by (simp add: pipeline_ids_def)
  have sid: "sk_id k \<in> stack_ids (reg w)"
    using find_stack_member [OF k] by (auto simp: stack_ids_def intro: rev_image_eqI)
  have fresh: "next_id (reg w) \<notin> rn_id ` set (runs (reg w))"
    using wf_fresh_parts(3) [OF wf] .
  have rank: "status_rank Running < status_rank (run_outcome w p)" using fin by auto
  show ?thesis
    using run p k nb pid sid set_run_status_new [of "\<lparr>rn_id = next_id (reg w), rn_name = pl_name p @ ''-'' @ show_version (next_id (reg w)),
          rn_pipeline = Some (pl_id p), rn_build = None, rn_stack = sk_id k, rn_status = Running\<rparr>" "reg w"
          "run_outcome w p" "Suc (next_id (reg w))"] fresh rank fin
    by (auto simp: run_pipeline_def warn_no_root_out cli_defs Let_def choose_build_def truthy_def with_stack_def
        pipeline_run_def run_build_def pipeline_build_def create_run_def)
qed

theorem run_pipeline_records_run_witness:
  "fst (run_pipeline ''digits'' None None None None demo_world) = Success
   \<and> runs (reg (snd (run_pipeline ''digits'' None None None None demo_world))) = runs demo_registry @
       [\<lparr>rn_id = 6, rn_name = ''digits-'' @ show_version 6, rn_pipeline = Some 2, rn_build = None,
         rn_stack = 0, rn_status = Completed\<rparr>]"
  using run_pipeline_records_run [of demo_world "''digits''" None
      "\<lparr>pl_id = 2, pl_name = ''digits'', pl_version = 2, pl_spec = ''s2''\<rparr>"
      "\<lparr>sk_id = 0, sk_name = ''default'', sk_is_local = True\<rparr>" None
      "fst (run_pipeline ''digits'' None None None None demo_world)"
      "snd (run_pipeline ''digits'' None None None None demo_world)"]
    demo_world_wf demo_find_default
  by (simp add: demo_world_def demo_get_digits_latest, simp add: demo_registry_def)

end
