(* ===== verification/Runs.thy ===== *)
theory Runs
  imports Cli
begin

text \<open>
  Builds and runs across commands: what \<^verbatim>\<open>pipeline run\<close> does with each kind of
  \<^verbatim>\<open>--build\<close> argument, what \<^verbatim>\<open>pipeline build\<close> does when no image is needed, the
  document of \<^verbatim>\<open>build -o\<close> fed back to \<^verbatim>\<open>run -b\<close>, and the deletion of a run.
\<close>

section \<open>Lemmas\<close>

lemma with_stack_active:
  "find_stack (reg w) (active_stack w) = Some k \<Longrightarrow>
     with_stack None w body = (case body k (w\<lparr>active_stack := sk_id k\<rparr>) of (r, w') \<Rightarrow> (r, w'\<lparr>active_stack := active_stack w\<rparr>))"
  by (simp add: with_stack_def truthy_def)

lemma preamble_out:
  "warn_no_root c m (print_active_config w)
     = w\<lparr>out := out w @ ActiveConfig # (if has_root w then [] else [Warning (no_repository_warning c m)])\<rparr>"
  by (simp add: warn_no_root_out cli_defs emit_def)

lemma run_pipeline_chosen:
  assumes p: "get_pipeline (reg w) n v = Inr p" and c: "choose_build (files w) bp = Chosen arg"
    and k: "find_stack (reg w) (active_stack w) = Some k"
  shows "\<exists>ms. run_pipeline n v cfg None bp w =
     (case pipeline_run p k cfg arg (w\<lparr>out := out w @ ms, active_stack := sk_id k\<rparr>) of
        (Inl e, w4) \<Rightarrow> (Uncaught e, w4\<lparr>active_stack := active_stack w\<rparr>)
      | (Inr _, w4) \<Rightarrow> (Success, w4\<lparr>active_stack := active_stack w\<rparr>))"
proof -
  define ms where "ms = ActiveConfig # (if has_root w then []
      else [Warning (no_repository_warning ''run'' ''the registered step classes will be resolved'')])"
  have "run_pipeline n v cfg None bp w =
     (case pipeline_run p k cfg arg (w\<lparr>out := out w @ ms, active_stack := sk_id k\<rparr>) of
        (Inl e, w4) \<Rightarrow> (Uncaught e, w4\<lparr>active_stack := active_stack w\<rparr>)
      | (Inr _, w4) \<Rightarrow> (Success, w4\<lparr>active_stack := active_stack w\<rparr>))"
    using p c k by (simp add: run_pipeline_def Let_def preamble_out ms_def with_stack_active split: prod.splits sum.splits)
  then show ?thesis by blast
qed

lemma build_pipeline_created:
  assumes p: "get_pipeline (reg w) n v = Inr p" and k: "find_stack (reg w) (active_stack w) = Some k"
    and imgs: "builder w p k cfg = Some images"
  defines "b \<equiv> \<lparr>bd_id = next_id (reg w), bd_pipeline = Some (pl_id p), bd_stack = sk_id k,
                 bd_images = images, bd_is_local = sk_is_local k\<rparr>"
  shows "\<exists>ms. build_pipeline n v cfg None op w =
     (Success, write_build_output op b
        (w\<lparr>reg := (reg w)\<lparr>builds := builds (reg w) @ [b], next_id := Suc (next_id (reg w))\<rparr>, out := out w @ ms\<rparr>))"
proof -
  define ms where "ms = ActiveConfig # (if has_root w then []
      else [Warning (no_repository_warning ''build'' ''the registered step classes will be resolved'')])"
  have pid: "pl_id p \<in> pipeline_ids (reg w)"
    using get_pipeline_member [OF p] by (simp add: pipeline_ids_def)
  have sid: "sk_id k \<in> stack_ids (reg w)"
    using find_stack_member [OF k] by (auto simp: stack_ids_def intro: rev_image_eqI)
  have "build_pipeline n v cfg None op w =
     (Success, write_build_output op b
        (w\<lparr>reg := (reg w)\<lparr>builds := builds (reg w) @ [b], next_id := Suc (next_id (reg w))\<rparr>,
           out := out w @ ms @ [Declare (''Created pipeline build `'' @ uuid_str (bd_id b) @ ''`.'')]\<rparr>))"
    using p k imgs pid sid
    by (simp add: build_pipeline_def Let_def preamble_out ms_def with_stack_active pipeline_build_def
        create_build_def b_def cli_declare_def emit_def)
  then show ?thesis by blast
qed

lemma run_build_from_doc:
  assumes "pl_id p \<in> pipeline_ids (reg w)" and "sk_id k \<in> stack_ids (reg w)"
  shows "run_build p k cfg (BuildFromDoc bb) w =
     (Inr (Some (next_id (reg w))),
      w\<lparr>reg := (reg w)\<lparr>builds := builds (reg w) @ [\<lparr>bd_id = next_id (reg w), bd_pipeline = Some (pl_id p),
          bd_stack = sk_id k, bd_images = bb_images bb, bd_is_local = bb_is_local bb\<rparr>],
        next_id := Suc (next_id (reg w))\<rparr>\<rparr>)"
  using assms by (simp add: run_build_def create_build_def Let_def)

lemma run_build_by_id:
  "parse_uuid s = Some i \<Longrightarrow> i \<in> build_ids (reg w) \<Longrightarrow> run_build p k cfg (BuildById s) w = (Inr (Some i), w)"
  by (simp add: run_build_def)

lemma pipeline_run_recorded:
  assumes rb: "run_build p k cfg arg w = (Inr bid, w1)" and wf: "wf_registry (reg w1)"
    and pid: "pl_id p \<in> pipeline_ids (reg w1)" and sid: "sk_id k \<in> stack_ids (reg w1)"
    and bid: "set_option bid \<subseteq> build_ids (reg w1)" and fin: "run_outcome w1 p \<in> {Completed, Failed}"
  defines "r \<equiv> \<lparr>rn_id = next_id (reg w1), rn_name = pl_name p @ ''-'' @ show_version (next_id (reg w1)),
                 rn_pipeline = Some (pl_id p), rn_build = bid, rn_stack = sk_id k, rn_status = run_outcome w1 p\<rparr>"
  shows "pipeline_run p k cfg arg w =
     (Inr r, w1\<lparr>reg := (reg w1)\<lparr>runs := runs (reg w1) @ [r], next_id := Suc (next_id (reg w1))\<rparr>\<rparr>)"
proof -
  have fresh: "next_id (reg w1) \<notin> rn_id ` set (runs (reg w1))"
    using wf_fresh_parts(3) [OF wf] .
  have rank: "status_rank Running < status_rank (run_outcome w1 p)" using fin by auto
  have "create_run (reg w1) (pl_name p @ ''-'' @ show_version (next_id (reg w1))) (pl_id p) bid (sk_id k)
      = Inr (r\<lparr>rn_status := Running\<rparr>,
             (reg w1)\<lparr>runs := runs (reg w1) @ [r\<lparr>rn_status := Running\<rparr>], next_id := Suc (next_id (reg w1))\<rparr>)"
    using pid sid bid by (cases bid) (auto simp: create_run_def r_def Let_def)
  moreover have "set_run_status ((reg w1)\<lparr>runs := runs (reg w1) @ [r\<lparr>rn_status := Running\<rparr>], next_id := Suc (next_id (reg w1))\<rparr>)
      (next_id (reg w1)) (run_outcome w1 p)
      = Inr ((reg w1)\<lparr>runs := runs (reg w1) @ [r], next_id := Suc (next_id (reg w1))\<rparr>)"
    using set_run_status_new [of "r\<lparr>rn_status := Running\<rparr>" "reg w1" "run_outcome w1 p"] fresh rank
    by (simp add: r_def)
  ultimately show ?thesis
    using rb fin by (simp add: pipeline_run_def r_def Let_def)
qed

lemma get_pipeline_add_build:
  "get_pipeline (st\<lparr>builds := bs, next_id := x\<rparr>) n v = get_pipeline st n v"
  by (simp add: get_pipeline_def find_pipeline_def split: sum.split)

lemma find_stack_add_build:
  "find_stack (st\<lparr>builds := bs, next_id := x\<rparr>) i = find_stack st i"
  by (simp add: find_stack_def)

lemma add_build_wf:
  assumes "wf_registry st" and "pid \<in> pipeline_ids st" and "sid \<in> stack_ids st"
  shows "wf_registry (st\<lparr>builds := builds st @ [\<lparr>bd_id = next_id st, bd_pipeline = Some pid, bd_stack = sid,
           bd_images = images, bd_is_local = loc\<rparr>], next_id := Suc (next_id st)\<rparr>)"
proof -
  have "create_build st (Some pid) sid images loc
      = Inr (\<lparr>bd_id = next_id st, bd_pipeline = Some pid, bd_stack = sid, bd_images = images, bd_is_local = loc\<rparr>,
             st\<lparr>builds := builds st @ [\<lparr>bd_id = next_id st, bd_pipeline = Some pid, bd_stack = sid,
               bd_images = images, bd_is_local = loc\<rparr>], next_id := Suc (next_id st)\<rparr>)"
    using assms(2,3) by (simp add: create_build_def Let_def)
  then show ?thesis by (rule create_build_wf [OF assms(1)])
qed

lemma write_build_output_some:
  "path \<noteq> [] \<Longrightarrow> write_build_output (Some path) b w
     = w\<lparr>out := out w @ [Declare (''Writing pipeline build output to `'' @ path @ ''`.'')],
         files := (files w)(path \<mapsto> YamlFile (yaml_include build_output_fields (build_doc b)))\<rparr>"
  by (simp add: write_build_output_def cli_declare_def emit_def)

lemma choose_written_doc:
  "path \<noteq> [] \<Longrightarrow> \<not> is_valid_uuid path \<Longrightarrow> fs path = Some (YamlFile (yaml_include build_output_fields (build_doc b)))
     \<Longrightarrow> choose_build fs (Some path) = Chosen (BuildFromDoc (base_of_build b))"
  by (simp add: choose_build_def truthy_def opt_str_def build_doc_roundtrip)

lemma delete_pipeline_run_confirmed:
  assumes "yes \<or> confirm_answer w"
  shows "\<exists>ms msg. delete_pipeline_run n yes w =
           report_delete (delete_run_client (faults w) (reg w) n) msg (w\<lparr>out := out w @ ms\<rparr>)"
  using assms
  by (cases yes) (simp_all add: delete_pipeline_run_def print_active_config_def emit_def Let_def ask_confirmed,
      (intro exI, rule refl)+)

lemma choose_printed_uuid:
  "i < 2 ^ 128 \<Longrightarrow> choose_build fs (Some (uuid_str i)) = Chosen (BuildById (uuid_str i))"
proof -
  assume "i < 2 ^ 128"
  then have "parse_uuid (uuid_str i) = Some i" by (simp add: parse_uuid_uuid_str)
  moreover have "length (uuid_str i) = 36" by (rule length_uuid_str)
  then have "uuid_str i \<noteq> []" by (metis list.size(3) zero_neq_numeral)
  ultimately show ?thesis by (simp add: choose_build_def truthy_def opt_str_def is_valid_uuid_def)
qed

section \<open>Properties\<close>

lemma run_from_written_doc:
  assumes wf: "wf_registry (reg w)" and p: "get_pipeline (reg w) n v = Inr p"
    and k: "find_stack (reg w) (active_stack w) = Some k"
    and path: "path \<noteq> []" "\<not> is_valid_uuid path"
    and f: "files w path = Some (YamlFile (yaml_include build_output_fields (build_doc b)))"
    and fin: "run_outcome w p \<in> {Completed, Failed}"
  shows "\<exists>w' r. run_pipeline n v cfg None (Some path) w = (Success, w')
    \<and> builds (reg w') = builds (reg w) @ [\<lparr>bd_id = next_id (reg w), bd_pipeline = Some (pl_id p),
         bd_stack = sk_id k, bd_images = bd_images b, bd_is_local = bd_is_local b\<rparr>]
    \<and> runs (reg w') = runs (reg w) @ [r] \<and> rn_build r = Some (next_id (reg w))"
proof -
  define st where "st = reg w"
  define b2 where "b2 = \<lparr>bd_id = next_id st, bd_pipeline = Some (pl_id p), bd_stack = sk_id k,
                           bd_images = bd_images b, bd_is_local = bd_is_local b\<rparr>"
  define st3 where "st3 = st\<lparr>builds := builds st @ [b2], next_id := Suc (next_id st)\<rparr>"
  have pid: "pl_id p \<in> pipeline_ids st"
    using get_pipeline_member [OF p] by (simp add: pipeline_ids_def st_def)
  have sid: "sk_id k \<in> stack_ids st"
    using find_stack_member [OF k] by (auto simp: stack_ids_def st_def intro: rev_image_eqI)
  have c: "choose_build (files w) (Some path) = Chosen (BuildFromDoc (base_of_build b))"
    using choose_written_doc [of path "files w" b, OF path f] .
  obtain ms where run: "run_pipeline n v cfg None (Some path) w =
     (case pipeline_run p k cfg (BuildFromDoc (base_of_build b)) (w\<lparr>out := out w @ ms, active_stack := sk_id k\<rparr>) of
        (Inl e, w4) \<Rightarrow> (Uncaught e, w4\<lparr>active_stack := active_stack w\<rparr>)
      | (Inr _, w4) \<Rightarrow> (Success, w4\<lparr>active_stack := active_stack w\<rparr>))"
    using run_pipeline_chosen [OF p c k] by blast
  define w3 where "w3 = w\<lparr>out := out w @ ms, active_stack := sk_id k\<rparr>"
  have rb: "run_build p k cfg (BuildFromDoc (base_of_build b)) w3 = (Inr (Some (next_id st)), w3\<lparr>reg := st3\<rparr>)"
    using run_build_from_doc [of p w3 k cfg "base_of_build b"] pid sid
    by (simp add: w3_def st_def st3_def b2_def base_of_build_def)
  have wf3: "wf_registry st3" using add_build_wf [OF wf [folded st_def] pid sid] by (simp add: st3_def b2_def)
  have ids3: "pl_id p \<in> pipeline_ids st3" "sk_id k \<in> stack_ids st3" "next_id st \<in> build_ids st3"
    using pid sid by (simp_all add: st3_def b2_def pipeline_ids_def stack_ids_def build_ids_def)
  have pr: "pipeline_run p k cfg (BuildFromDoc (base_of_build b)) w3 =
     (Inr \<lparr>rn_id = next_id st3, rn_name = pl_name p @ ''-'' @ show_version (next_id st3),
           rn_pipeline = Some (pl_id p), rn_build = Some (next_id st), rn_stack = sk_id k, rn_status = run_outcome w p\<rparr>,
      (w3\<lparr>reg := st3\<rparr>)\<lparr>reg := st3\<lparr>runs := runs st3 @ [\<lparr>rn_id = next_id st3,
           rn_name = pl_name p @ ''-'' @ show_version (next_id st3), rn_pipeline = Some (pl_id p),
           rn_build = Some (next_id st), rn_stack = sk_id k, rn_status = run_outcome w p\<rparr>],
         next_id := Suc (next_id st3)\<rparr>\<rparr>)"
    using pipeline_run_recorded [OF rb] wf3 ids3 fin by (simp add: w3_def)
  show ?thesis
    using run pr by (simp add: w3_def [symmetric] st3_def b2_def st_def)
qed

text \<open>
  C23. Feeding the document of \<^verbatim>\<open>pipeline build -o PATH\<close> back to
  \<^verbatim>\<open>pipeline run -b PATH\<close> does not reuse the build: the document carries the build's
  \<^verbatim>\<open>id\<close>, but \<^verbatim>\<open>PipelineBuildBaseModel\<close> drops it, so the run registers a second
  build with the same images and locality and refers to that one.
\<close>

theorem build_then_run_duplicates_build:
  assumes wf: "wf_registry (reg w)" and p: "get_pipeline (reg w) n v = Inr p"
    and k: "find_stack (reg w) (active_stack w) = Some k"
    and imgs: "builder w p k cfg = Some images"
    and path: "path \<noteq> []" "\<not> is_valid_uuid path"
    and fin: "run_outcome w p \<in> {Completed, Failed}"
    and ses: "exec_session [Build n v cfg None (Some path), Run n v cfg None (Some path)] w = (ocs, w')"
  shows "ocs = [Success, Success]
    \<and> (\<exists>b1 b2 r. builds (reg w') = builds (reg w) @ [b1, b2] \<and> runs (reg w') = runs (reg w) @ [r]
         \<and> bd_id b1 \<noteq> bd_id b2 \<and> bd_images b2 = bd_images b1 \<and> bd_is_local b2 = bd_is_local b1
         \<and> rn_build r = Some (bd_id b2))"
proof -
  define st1 where "st1 = reg w"
  define b1 where "b1 = \<lparr>bd_id = next_id st1, bd_pipeline = Some (pl_id p), bd_stack = sk_id k,
                           bd_images = images, bd_is_local = sk_is_local k\<rparr>"
  define st2 where "st2 = st1\<lparr>builds := builds st1 @ [b1], next_id := Suc (next_id st1)\<rparr>"
  have pid: "pl_id p \<in> pipeline_ids st1"
    using get_pipeline_member [OF p] by (simp add: pipeline_ids_def st1_def)
  have sid: "sk_id k \<in> stack_ids st1"
    using find_stack_member [OF k] by (auto simp: stack_ids_def st1_def intro: rev_image_eqI)
  obtain ms where bld: "build_pipeline n v cfg None (Some path) w =
      (Success, write_build_output (Some path) b1 (w\<lparr>reg := st2, out := out w @ ms\<rparr>))"
    using build_pipeline_created [OF p k imgs, where op = "Some path"] unfolding b1_def st2_def st1_def by blast
  define w1 where "w1 = write_build_output (Some path) b1 (w\<lparr>reg := st2, out := out w @ ms\<rparr>)"
  have w1: "reg w1 = st2" "files w1 path = Some (YamlFile (yaml_include build_output_fields (build_doc b1)))"
    "active_stack w1 = active_stack w" "run_outcome w1 = run_outcome w"
    using path by (simp_all add: w1_def write_build_output_some)
  have p1: "get_pipeline (reg w1) n v = Inr p" using p by (simp add: w1 st2_def st1_def get_pipeline_add_build)
  have k1: "find_stack (reg w1) (active_stack w1) = Some k" using k by (simp add: w1 st2_def st1_def find_stack_add_build)
  have wf1: "wf_registry (reg w1)" using add_build_wf [OF wf [folded st1_def] pid sid] by (simp add: w1 st2_def b1_def)
  obtain w2 r where run: "run_pipeline n v cfg None (Some path) w1 = (Success, w2)"
      and bs: "builds (reg w2) = builds st2 @ [\<lparr>bd_id = next_id st2, bd_pipeline = Some (pl_id p),
         bd_stack = sk_id k, bd_images = images, bd_is_local = sk_is_local k\<rparr>]"
      and rs: "runs (reg w2) = runs st2 @ [r]" and rb: "rn_build r = Some (next_id st2)"
    using run_from_written_doc [OF wf1 p1 k1 path w1(2), where cfg = cfg] fin by (auto simp: w1 b1_def)
  have "exec_session [Build n v cfg None (Some path), Run n v cfg None (Some path)] w = ([Success, Success], w2)"
    using bld run by (simp add: w1_def [symmetric])
  then show ?thesis
    using ses bs rs rb by (auto simp: st2_def b1_def st1_def)
qed

theorem build_then_run_duplicates_build_witness:
  "fst (exec_session [Build ''digits'' None None None (Some ''build.yaml''), Run ''digits'' None None None (Some ''build.yaml'')]
        demo_build_world) = [Success, Success]
   \<and> (\<exists>b1 b2 r. builds (reg (snd (exec_session [Build ''digits'' None None None (Some ''build.yaml''),
                        Run ''digits'' None None None (Some ''build.yaml'')] demo_build_world)))
                  = builds (reg demo_build_world) @ [b1, b2]
         \<and> runs (reg (snd (exec_session [Build ''digits'' None None None (Some ''build.yaml''),
                        Run ''digits'' None None None (Some ''build.yaml'')] demo_build_world)))
                  = runs (reg demo_build_world) @ [r]
         \<and> bd_id b1 \<noteq> bd_id b2 \<and> bd_images b2 = bd_images b1 \<and> bd_is_local b2 = bd_is_local b1
         \<and> rn_build r = Some (bd_id b2))"
proof -
  have wf: "wf_registry (reg demo_build_world)" using demo_world_wf by (simp add: demo_build_world_def)
  have p: "get_pipeline (reg demo_build_world) ''digits'' None
      = Inr \<lparr>pl_id = 2, pl_name = ''digits'', pl_version = 2, pl_spec = ''s2''\<rparr>"
    by (simp add: demo_build_world_def demo_world_def demo_get_digits_latest)
  have k: "find_stack (reg demo_build_world) (active_stack demo_build_world)
      = Some \<lparr>sk_id = 0, sk_name = ''default'', sk_is_local = True\<rparr>"
    using demo_find_default by (simp add: demo_build_world_def)
  have imgs: "builder demo_build_world \<lparr>pl_id = 2, pl_name = ''digits'', pl_version = 2, pl_spec = ''s2''\<rparr>
      \<lparr>sk_id = 0, sk_name = ''default'', sk_is_local = True\<rparr> None = Some [(''orchestrator'', ''img2'')]"
    by (simp add: demo_build_world_def)
  have path: "''build.yaml'' \<noteq> []" "\<not> is_valid_uuid ''build.yaml''"
    by (simp_all add: is_valid_uuid_def parse_uuid_def uuid_hex_def strip_chars_def)
  have fin: "run_outcome demo_build_world \<lparr>pl_id = 2, pl_name = ''digits'', pl_version = 2, pl_spec = ''s2''\<rparr>
      \<in> {Completed, Failed}"
    by (simp add: demo_build_world_def demo_world_def)
  show ?thesis
    using build_then_run_duplicates_build [OF wf p k imgs path fin surjective_pairing] by simp
qed

text \<open>
  C24. \<^verbatim>\<open>pipeline run -b ARG\<close> with an argument that is neither a valid UUID nor an
  existing file ends with the CLI error naming the argument (exit status 1), before
  any stack is activated and without touching the registry.
\<close>

theorem run_invalid_build_arg:
  assumes "get_pipeline (reg w) n v = Inr p" and "b \<noteq> []" and "\<not> is_valid_uuid b" and "files w b = None"
    and "run_pipeline n v cfg stk (Some b) w = (oc, w')"
  shows "oc = CliError \<and> exit_code oc = 1 \<and> reg w' = reg w \<and> active_stack w' = active_stack w
    \<and> last (out w') = ErrorMsg (''The specified build '' @ b @ '' is not a valid UUID or file path.'')"
  using assms
  by (auto simp: run_pipeline_def preamble_out Let_def choose_build_def truthy_def opt_str_def cli_error_def
      emit_def exit_code_def)

theorem run_invalid_build_arg_witness:
  "fst (run_pipeline ''digits'' None None None (Some ''nope'') demo_world) = CliError
   \<and> reg (snd (run_pipeline ''digits'' None None None (Some ''nope'') demo_world)) = reg demo_world"
  using run_invalid_build_arg [of demo_world "''digits''" None
      "\<lparr>pl_id = 2, pl_name = ''digits'', pl_version = 2, pl_spec = ''s2''\<rparr>" "''nope''" None None
      "fst (run_pipeline ''digits'' None None None (Some ''nope'') demo_world)"
      "snd (run_pipeline ''digits'' None None None (Some ''nope'') demo_world)"]
  by (simp add: demo_world_def demo_get_digits_latest,
      simp add: is_valid_uuid_def parse_uuid_def uuid_hex_def strip_chars_def)

text \<open>
  C25. \<^verbatim>\<open>pipeline run -b ID\<close> with the printed identifier of an existing build reuses
  that build: no build is registered, and the one run appended refers to the given
  build.
\<close>

theorem run_with_build_id:
  assumes wf: "wf_registry (reg w)" and p: "get_pipeline (reg w) n v = Inr p"
    and k: "find_stack (reg w) (active_stack w) = Some k"
    and b: "b \<in> set (builds (reg w))" and small: "bd_id b < 2 ^ 128"
    and fin: "run_outcome w p \<in> {Completed, Failed}"
    and run: "run_pipeline n v cfg None (Some (uuid_str (bd_id b))) w = (oc, w')"
  shows "oc = Success \<and> builds (reg w') = builds (reg w)
    \<and> runs (reg w') = runs (reg w) @
        [\<lparr>rn_id = next_id (reg w), rn_name = pl_name p @ ''-'' @ show_version (next_id (reg w)),
          rn_pipeline = Some (pl_id p), rn_build = Some (bd_id b), rn_stack = sk_id k, rn_status = run_outcome w p\<rparr>]"
proof -
  obtain ms where r: "run_pipeline n v cfg None (Some (uuid_str (bd_id b))) w =
     (case pipeline_run p k cfg (BuildById (uuid_str (bd_id b))) (w\<lparr>out := out w @ ms, active_stack := sk_id k\<rparr>) of
        (Inl e, w4) \<Rightarrow> (Uncaught e, w4\<lparr>active_stack := active_stack w\<rparr>)
      | (Inr _, w4) \<Rightarrow> (Success, w4\<lparr>active_stack := active_stack w\<rparr>))"
    using run_pipeline_chosen [OF p choose_printed_uuid [OF small] k] by blast
  define w3 where "w3 = w\<lparr>out := out w @ ms, active_stack := sk_id k\<rparr>"
  have pid: "pl_id p \<in> pipeline_ids (reg w3)"
    using get_pipeline_member [OF p] by (simp add: pipeline_ids_def w3_def)
  have sid: "sk_id k \<in> stack_ids (reg w3)"
    using find_stack_member [OF k] by (auto simp: stack_ids_def w3_def intro: rev_image_eqI)
  have bid: "bd_id b \<in> build_ids (reg w3)" using b by (simp add: build_ids_def w3_def)
  have rb: "run_build p k cfg (BuildById (uuid_str (bd_id b))) w3 = (Inr (Some (bd_id b)), w3)"
    using run_build_by_id [OF _ bid] small by (simp add: parse_uuid_uuid_str)
  show ?thesis
    using pipeline_run_recorded [OF rb] wf pid sid bid fin run r
    by (auto simp: w3_def)
qed

theorem run_with_build_id_witness:
  "fst (run_pipeline ''digits'' None None None (Some (uuid_str 3)) demo_world) = Success
   \<and> builds (reg (snd (run_pipeline ''digits'' None None None (Some (uuid_str 3)) demo_world))) = builds demo_registry
   \<and> runs (reg (snd (run_pipeline ''digits'' None None None (Some (uuid_str 3)) demo_world))) = runs demo_registry @
       [\<lparr>rn_id = 6, rn_name = ''digits-'' @ show_version 6, rn_pipeline = Some 2, rn_build = Some 3,
         rn_stack = 0, rn_status = Completed\<rparr>]"
  using run_with_build_id [of demo_world "''digits''" None
      "\<lparr>pl_id = 2, pl_name = ''digits'', pl_version = 2, pl_spec = ''s2''\<rparr>"
      "\<lparr>sk_id = 0, sk_name = ''default'', sk_is_local = True\<rparr>" "hd (builds demo_registry)" None
      "fst (run_pipeline ''digits'' None None None (Some (uuid_str 3)) demo_world)"
      "snd (run_pipeline ''digits'' None None None (Some (uuid_str 3)) demo_world)"]
    demo_world_wf demo_find_default
  by (simp add: demo_world_def demo_get_digits_latest, simp add: demo_registry_def)

text \<open>
  C26. When the pipeline needs no image on the stack, \<^verbatim>\<open>pipeline build -o PATH\<close>
  succeeds, registers nothing and reports that no build was required, and it writes no
  file to \<open>PATH\<close>: the output option is ignored without a word.
\<close>

theorem build_nothing_required:
  assumes p: "get_pipeline (reg w) n v = Inr p" and k: "find_stack (reg w) (active_stack w) = Some k"
    and nb: "builder w p k cfg = None"
    and run: "build_pipeline n v cfg None (Some path) w = (oc, w')"
  shows "oc = Success \<and> reg w' = reg w \<and> files w' = files w \<and> active_stack w' = active_stack w
    \<and> last (out w') = Declare ''No docker builds required.''"
  using assms
  by (auto simp: build_pipeline_def preamble_out Let_def with_stack_active pipeline_build_def cli_declare_def emit_def)

theorem build_nothing_required_witness:
  "fst (build_pipeline ''digits'' None None None (Some ''build.yaml'') demo_world) = Success
   \<and> files (snd (build_pipeline ''digits'' None None None (Some ''build.yaml'') demo_world)) = files demo_world"
  using build_nothing_required [of demo_world "''digits''" None
      "\<lparr>pl_id = 2, pl_name = ''digits'', pl_version = 2, pl_spec = ''s2''\<rparr>"
      "\<lparr>sk_id = 0, sk_name = ''default'', sk_is_local = True\<rparr>" None "''build.yaml''"
      "fst (build_pipeline ''digits'' None None None (Some ''build.yaml'') demo_world)"
      "snd (build_pipeline ''digits'' None None None (Some ''build.yaml'') demo_world)"]
    demo_find_default
  by (simp add: demo_world_def demo_get_digits_latest)

text \<open>
  C27. \<^verbatim>\<open>pipeline runs delete --yes\<close> given the printed identifier of an existing
  run, on a store that does not fail, removes exactly that run record from the
  registry: a hard delete, where deleting the run's pipeline keeps the run and only
  unlists it (C5), the asymmetry the specification's design notes leave open.
\<close>

theorem delete_run_removes_record:
  assumes wf: "wf_registry (reg w)" and r: "r \<in> set (runs (reg w))" and small: "rn_id r < 2 ^ 128"
    and nf: "\<not> faults w 0" and run: "delete_pipeline_run (uuid_str (rn_id r)) True w = (oc, w')"
  shows "oc = Success \<and> reg w' = (reg w)\<lparr>runs := filter (\<lambda>x. rn_id x \<noteq> rn_id r) (runs (reg w))\<rparr>"
proof -
  have "parse_uuid (uuid_str (rn_id r)) = Some (rn_id r)"
    using small by (simp add: parse_uuid_uuid_str)
  then have "resolve ''pipeline run'' (uuid_str (rn_id r)) None (map run_key (runs (reg w))) = Inr (rn_id r)"
    using r by (simp add: resolve_uuid parse_version_arg_def image_image run_key_def)
  then have "delete_run_client (faults w) (reg w) (uuid_str (rn_id r))
      = Inr ((reg w)\<lparr>runs := filter (\<lambda>x. rn_id x \<noteq> rn_id r) (runs (reg w))\<rparr>)"
    using nf by (simp add: delete_run_client_def transact_def)
  then show ?thesis
    using delete_pipeline_run_confirmed [of True w "uuid_str (rn_id r)"] run report_delete_Inr by fastforce
qed

theorem delete_run_removes_record_witness:
  "fst (delete_pipeline_run (uuid_str 4) True demo_world) = Success
   \<and> runs (reg (snd (delete_pipeline_run (uuid_str 4) True demo_world))) = []"
  using delete_run_removes_record [of demo_world "hd (runs demo_registry)"
      "fst (delete_pipeline_run (uuid_str 4) True demo_world)" "snd (delete_pipeline_run (uuid_str 4) True demo_world)"]
    demo_world_wf
  by (simp add: demo_world_def demo_registry_def)

end
