(* ===== verification/Listing.thy ===== *)
theory Listing
  imports Cli
begin

text \<open>
  Listing across pages: what \<^verbatim>\<open>pipeline list --page I --size N\<close> prints for each
  page, that the pages together print every matching pipeline once and in order, and
  what a page past the last does.  \<open>table_rows\<close> reads the rows off a printed table.
\<close>

fun table_rows :: "message \<Rightarrow> string list list" where
  "table_rows (Table _ rows) = rows"
| "table_rows _ = []"

section \<open>Lemmas\<close>

lemma concat_pages:
  "concat (map (\<lambda>i. take sz (drop (i * sz) xs)) [0..<n]) = take (n * sz) xs"
proof (induction n)
  case (Suc n)
  have "Suc n * sz = n * sz + sz" by simp
  then have "take (Suc n * sz) xs = take (n * sz) xs @ take sz (drop (n * sz) xs)"
    by (simp only: take_add)
  then show ?case using Suc.IH by simp
qed simp

lemma total_pages_cover:
  assumes "1 \<le> sz"
  shows "length xs \<le> total_pages (length xs) sz * sz" and "1 \<le> total_pages (length xs) sz"
proof -
  show "length xs \<le> total_pages (length xs) sz * sz"
  proof (cases "length xs = 0")
    case False
    let ?m = "length xs + sz - 1"
    have m: "?m mod sz < sz" using assms by simp
    have "?m div sz * sz + ?m mod sz = ?m" by (rule div_mult_mod_eq)
    then have "length xs \<le> ?m div sz * sz" using m assms by linarith
    then show ?thesis using False by (simp add: total_pages_def)
  qed (simp add: total_pages_def)
  show "1 \<le> total_pages (length xs) sz"
  proof (cases "xs = []")
    case False
    then have "sz \<le> length xs + sz - 1" by (cases xs) auto
    then have "sz div sz \<le> (length xs + sz - 1) div sz" by (rule div_le_mono)
    then show ?thesis using assms False by (simp add: total_pages_def)
  qed (simp add: total_pages_def)
qed

lemma paginate_pages:
  assumes "1 \<le> sz" and "i \<in> set [1..<Suc (total_pages (length xs) sz)]"
  shows "paginate i sz xs = Inr \<lparr>pg_index = i, pg_max_size = sz,
      pg_total_pages = total_pages (length xs) sz, pg_total = length xs,
      pg_items = take sz (drop ((i - 1) * sz) xs)\<rparr>"
  using assms by (auto simp: paginate_def)

lemma paginate_cover:
  assumes "1 \<le> sz"
  shows "concat (map (\<lambda>i. take sz (drop ((i - 1) * sz) xs)) [1..<Suc (total_pages (length xs) sz)]) = xs"
proof -
  let ?n = "total_pages (length xs) sz"
  have "[1..<Suc ?n] = map Suc [0..<?n]" by (simp add: map_Suc_upt)
  then have "concat (map (\<lambda>i. take sz (drop ((i - 1) * sz) xs)) [1..<Suc ?n])
      = take (?n * sz) xs"
    by (simp add: comp_def concat_pages)
  then show ?thesis using total_pages_cover(1) [OF assms, of xs] by simp
qed

lemma table_rows_model_table [simp]:
  "table_rows (model_table cols excl rows) = map (\<lambda>row. map snd (filter (\<lambda>(c, _). c \<notin> set excl) row)) rows"
  by (simp add: model_table_def)

lemma list_pipelines_page:
  assumes "client_list_pipelines (reg w) a = Inr pg"
  shows "\<exists>m. list_pipelines a w = (Success, w\<lparr>out := out w @ [ActiveConfig, m]\<rparr>)
           \<and> table_rows m = table_rows (model_table [''id'', ''name'', ''version''] excluded_columns
                                   (map pipeline_row (pg_items pg)))"
  using assms
  by (cases "pg_items pg = []") (auto simp: list_pipelines_def cli_defs emit_def)

lemma list_pipelines_session:
  assumes "\<forall>i \<in> set ixs. client_list_pipelines (reg w) (a i) = Inr (pg i)"
    and "exec_session (map (\<lambda>i. ListPipelines (a i)) ixs) w = (ocs, w')"
  shows "ocs = replicate (length ixs) Success \<and> reg w' = reg w
    \<and> (\<exists>ms. out w' = out w @ ms \<and> concat (map table_rows ms)
          = concat (map (\<lambda>i. table_rows (model_table [''id'', ''name'', ''version''] excluded_columns
                                   (map pipeline_row (pg_items (pg i))))) ixs))"
  using assms
proof (induction ixs arbitrary: w ocs w')
  case Nil
  then show ?case by simp
next
  case (Cons i ixs)
  obtain m where m: "list_pipelines (a i) w = (Success, w\<lparr>out := out w @ [ActiveConfig, m]\<rparr>)"
    and rows: "table_rows m = table_rows (model_table [''id'', ''name'', ''version''] excluded_columns
                                   (map pipeline_row (pg_items (pg i))))"
    using list_pipelines_page Cons.prems(1) by (meson list.set_intros(1))
  let ?w1 = "w\<lparr>out := out w @ [ActiveConfig, m]\<rparr>"
  obtain ocs1 w2 where s: "exec_session (map (\<lambda>i. ListPipelines (a i)) ixs) ?w1 = (ocs1, w2)"
    by (metis surj_pair)
  have "ocs1 = replicate (length ixs) Success \<and> reg w2 = reg ?w1
    \<and> (\<exists>ms. out w2 = out ?w1 @ ms \<and> concat (map table_rows ms)
          = concat (map (\<lambda>i. table_rows (model_table [''id'', ''name'', ''version''] excluded_columns
                                   (map pipeline_row (pg_items (pg i))))) ixs))"
    using Cons.IH [OF _ s] Cons.prems(1) by simp
  then obtain ms where o: "out w2 = out ?w1 @ ms"
    and c: "concat (map table_rows ms) = concat (map (\<lambda>i. table_rows (model_table [''id'', ''name'', ''version'']
        excluded_columns (map pipeline_row (pg_items (pg i))))) ixs)"
    and r: "ocs1 = replicate (length ixs) Success" "reg w2 = reg ?w1" by blast
  have "ocs = Success # ocs1" "w' = w2" using Cons.prems(2) m s by simp_all
  moreover have "out w2 = out w @ ([ActiveConfig, m] @ ms)" using o by simp
  moreover have "concat (map table_rows ([ActiveConfig, m] @ ms)) = concat (map (\<lambda>i. table_rows
      (model_table [''id'', ''name'', ''version''] excluded_columns (map pipeline_row (pg_items (pg i))))) (i # ixs))"
    using c rows by simp
  ultimately show ?case using r by auto
qed

section \<open>Properties\<close>

text \<open>
  C28. Listing the pipelines page by page, from page 1 to the last page, with a page size
  of at least 1, succeeds on every page, changes no registry entry, and prints
  together exactly the rows of the one table of all pipelines matching the filter, in
  registry order, each once.
\<close>

theorem list_pages_cover:
  assumes sz: "1 \<le> sz"
    and ses: "exec_session (map (\<lambda>i. ListPipelines \<lparr>la_name = flt, la_page = i, la_size = sz\<rparr>)
               [1..<Suc (total_pages (length (filter (\<lambda>p. name_matches flt (pl_name p)) (pipelines (reg w)))) sz)]) w
             = (ocs, w')"
  shows "ocs = replicate (total_pages (length (filter (\<lambda>p. name_matches flt (pl_name p)) (pipelines (reg w)))) sz) Success
    \<and> reg w' = reg w
    \<and> (\<exists>ms. out w' = out w @ ms \<and> concat (map table_rows ms)
          = table_rows (model_table [''id'', ''name'', ''version''] excluded_columns
              (map pipeline_row (filter (\<lambda>p. name_matches flt (pl_name p)) (pipelines (reg w))))))"
proof -
  let ?ps = "filter (\<lambda>p. name_matches flt (pl_name p)) (pipelines (reg w))"
  let ?n = "total_pages (length ?ps) sz"
  define pg where "pg i = \<lparr>pg_index = i, pg_max_size = sz, pg_total_pages = ?n, pg_total = length ?ps,
      pg_items = take sz (drop ((i - 1) * sz) ?ps)\<rparr>" for i
  have pages: "\<forall>i \<in> set [1..<Suc ?n]. client_list_pipelines (reg w) \<lparr>la_name = flt, la_page = i, la_size = sz\<rparr> = Inr (pg i)"
  proof
    fix i assume "i \<in> set [1..<Suc ?n]"
    from paginate_pages [OF sz this] show "client_list_pipelines (reg w) \<lparr>la_name = flt, la_page = i, la_size = sz\<rparr> = Inr (pg i)"
      by (simp add: client_list_pipelines_def pg_def)
  qed
  have "concat (map (\<lambda>i. table_rows (model_table [''id'', ''name'', ''version''] excluded_columns
            (map pipeline_row (pg_items (pg i))))) [1..<Suc ?n])
      = table_rows (model_table [''id'', ''name'', ''version''] excluded_columns
            (map pipeline_row (concat (map (\<lambda>i. take sz (drop ((i - 1) * sz) ?ps)) [1..<Suc ?n]))))"
    by (simp add: pg_def map_concat comp_def)
  then show ?thesis
    using list_pipelines_session [OF pages ses]
      paginate_cover [OF sz, of ?ps]
    by simp
qed

theorem list_pages_cover_witness:
  "fst (exec_session [ListPipelines \<lparr>la_name = Some ''digits'', la_page = 1, la_size = 1\<rparr>,
                      ListPipelines \<lparr>la_name = Some ''digits'', la_page = 2, la_size = 1\<rparr>] demo_world)
     = [Success, Success]"
proof -
  obtain ocs w' where e: "exec_session [ListPipelines \<lparr>la_name = Some ''digits'', la_page = 1, la_size = 1\<rparr>,
      ListPipelines \<lparr>la_name = Some ''digits'', la_page = 2, la_size = 1\<rparr>] demo_world = (ocs, w')"
    by fastforce
  have n: "total_pages (length (filter (\<lambda>p. name_matches (Some ''digits'') (pl_name p)) (pipelines (reg demo_world)))) 1 = 2"
    by (simp add: demo_world_def demo_registry_def name_matches_def total_pages_def)
  have s: "map (\<lambda>i. ListPipelines \<lparr>la_name = Some ''digits'', la_page = i, la_size = 1\<rparr>)
      [1..<Suc (total_pages (length (filter (\<lambda>p. name_matches (Some ''digits'') (pl_name p)) (pipelines (reg demo_world)))) 1)]
    = [ListPipelines \<lparr>la_name = Some ''digits'', la_page = 1, la_size = 1\<rparr>,
       ListPipelines \<lparr>la_name = Some ''digits'', la_page = 2, la_size = 1\<rparr>]"
    unfolding n by (simp add: upt_rec)
  have e': "exec_session (map (\<lambda>i. ListPipelines \<lparr>la_name = Some ''digits'', la_page = i, la_size = 1\<rparr>)
      [1..<Suc (total_pages (length (filter (\<lambda>p. name_matches (Some ''digits'') (pl_name p)) (pipelines (reg demo_world)))) 1)])
      demo_world = (ocs, w')"
    unfolding s by (rule e)
  have "ocs = replicate 2 Success"
    using list_pages_cover [OF _ e'] n by simp
  then show ?thesis using e by (simp add: numeral_2_eq_2)
qed

text \<open>
  C29. A page past the last one is an error of the client that no list command
  catches: \<^verbatim>\<open>pipeline list\<close> and \<^verbatim>\<open>pipeline runs list\<close> (which only catches
  \<^verbatim>\<open>KeyError\<close>) end with the uncaught \<^verbatim>\<open>ValueError\<close> after printing the active
  configuration, and the registry is unchanged.
\<close>

theorem list_page_out_of_range:
  assumes "1 \<le> sz"
    and "total_pages (length (filter (\<lambda>p. name_matches flt (pl_name p)) (pipelines (reg w)))) sz < i"
    and "total_pages (length (filter (\<lambda>r. name_matches flt (rn_name r)) (runs (reg w)))) sz < i"
    and "list_pipelines \<lparr>la_name = flt, la_page = i, la_size = sz\<rparr> w = (oc1, w1)"
    and "list_pipeline_runs \<lparr>la_name = flt, la_page = i, la_size = sz\<rparr> w = (oc2, w2)"
  shows "oc1 = Uncaught (InvalidArgument ''Invalid page.'') \<and> reg w1 = reg w \<and> out w1 = out w @ [ActiveConfig]
    \<and> oc2 = Uncaught (InvalidArgument ''Invalid page.'') \<and> reg w2 = reg w \<and> out w2 = out w @ [ActiveConfig]"
  using assms
  by (auto simp: list_pipelines_def list_pipeline_runs_def client_list_pipelines_def client_list_runs_def
      paginate_def cli_defs emit_def)

theorem list_page_out_of_range_witness:
  "fst (list_pipelines \<lparr>la_name = None, la_page = 3, la_size = 1\<rparr> demo_world)
     = Uncaught (InvalidArgument ''Invalid page.'')
   \<and> fst (list_pipeline_runs \<lparr>la_name = None, la_page = 3, la_size = 1\<rparr> demo_world)
     = Uncaught (InvalidArgument ''Invalid page.'')"
  using list_page_out_of_range [of 1 None demo_world 3 "fst (list_pipelines \<lparr>la_name = None, la_page = 3, la_size = 1\<rparr> demo_world)"
      "snd (list_pipelines \<lparr>la_name = None, la_page = 3, la_size = 1\<rparr> demo_world)"
      "fst (list_pipeline_runs \<lparr>la_name = None, la_page = 3, la_size = 1\<rparr> demo_world)"
      "snd (list_pipeline_runs \<lparr>la_name = None, la_page = 3, la_size = 1\<rparr> demo_world)"]
  by (simp add: demo_world_def demo_registry_def name_matches_def total_pages_def)

end
