(* ===== verification/Stacks.thy ===== *)
theory Stacks
  imports Cli
begin

text \<open>
  The \<^verbatim>\<open>--stack\<close> option of \<^verbatim>\<open>pipeline build\<close> and \<^verbatim>\<open>pipeline run\<close>: both
  handlers run the pipeline inside \<^verbatim>\<open>cli_utils.temporary_active_stack(stack_name_or_id)\<close>
  (lines 161 and 256).  The lemmas follow the registry through \<open>run_build\<close>,
  \<open>pipeline_run\<close> and \<open>with_stack\<close>: whatever the outcome, the records a command adds
  are on the selected stack, and the active stack is the one before the command.
\<close>

section \<open>Sample data\<close>

text \<open>The demo world with a second, remote stack that is not the active one, and an
  image builder that needs one image on every stack.\<close>

definition two_stack_world :: world where
  "two_stack_world =
     demo_build_world\<lparr>reg := demo_registry\<lparr>stacks := stacks demo_registry @ [\<lparr>sk_id = 6, sk_name = ''remote'', sk_is_local = False\<rparr>],
                                          next_id := 7\<rparr>\<rparr>"

section \<open>Lemmas\<close>

lemma with_stack_selected:
  "s \<noteq> [] \<Longrightarrow> get_stack (reg w) s = Inr k \<Longrightarrow>
     with_stack (Some s) w body = (case body k (w\<lparr>active_stack := sk_id k\<rparr>) of (r, w') \<Rightarrow> (r, w'\<lparr>active_stack := active_stack w\<rparr>))"
  by (simp add: with_stack_def truthy_def opt_str_def)

lemma create_build_on_stack:
  "create_build st pid sid images loc = Inr (b, st') \<Longrightarrow>
     runs st' = runs st \<and> builds st' = builds st @ [b] \<and> bd_stack b = sid"
  by (auto simp: create_build_def Let_def split: if_splits)

lemma pipeline_build_on_stack:
  "pipeline_build p k cfg w = (r, w') \<Longrightarrow>
     runs (reg w') = runs (reg w) \<and> (\<exists>bs. builds (reg w') = builds (reg w) @ bs \<and> (\<forall>b \<in> set bs. bd_stack b = sk_id k))"
  by (fastforce simp: pipeline_build_def split: option.splits sum.splits dest: create_build_on_stack)

lemma run_build_on_stack:
  "run_build p k cfg arg w = (r, w') \<Longrightarrow>
     runs (reg w') = runs (reg w) \<and> (\<exists>bs. builds (reg w') = builds (reg w) @ bs \<and> (\<forall>b \<in> set bs. bd_stack b = sk_id k))"
  by (fastforce simp: run_build_def split: build_arg.splits option.splits sum.splits prod.splits if_splits
      dest: create_build_on_stack pipeline_build_on_stack)

lemma find_snoc_new: "(\<forall>x \<in> set xs. \<not> P x) \<Longrightarrow> P y \<Longrightarrow> find P (xs @ [y]) = Some y"
  by (induction xs) auto

lemma set_run_status_appended:
  assumes fresh: "rn_id r \<notin> rn_id ` set (runs st)"
    and ok: "set_run_status (st\<lparr>runs := runs st @ [r], next_id := x\<rparr>) (rn_id r) s = Inr st'"
  shows "runs st' = runs st @ [r\<lparr>rn_status := s\<rparr>] \<and> builds st' = builds st"
proof -
  have "find (\<lambda>y. rn_id y = rn_id r) (runs st @ [r]) = Some r"
    using fresh by (intro find_snoc_new) (auto simp: image_iff)
  then have rank: "status_rank (rn_status r) < status_rank s"
    using ok by (auto simp: set_run_status_def split: if_splits)
  show ?thesis
    using ok set_run_status_new [OF fresh rank, where x = x] by auto
qed

lemma pipeline_run_on_stack:
  assumes wf: "wf_registry (reg w)" and ok: "pipeline_run p k cfg arg w = (r, w')"
  shows "\<exists>bs rs. builds (reg w') = builds (reg w) @ bs \<and> runs (reg w') = runs (reg w) @ rs
           \<and> (\<forall>b \<in> set bs. bd_stack b = sk_id k) \<and> (\<forall>x \<in> set rs. rn_stack x = sk_id k)"
proof (cases "run_build p k cfg arg w")
  case (Pair rb w1)
  obtain bs where bs: "runs (reg w1) = runs (reg w)" "builds (reg w1) = builds (reg w) @ bs"
      "\<forall>b \<in> set bs. bd_stack b = sk_id k"
    using run_build_on_stack [OF Pair] by blast
  have fresh: "next_id (reg w1) \<notin> rn_id ` set (runs (reg w1))"
    using wf_fresh_parts(3) [OF run_build_wf [OF wf Pair]] .
  show ?thesis
  proof (cases rb)
    case (Inl e)
    then show ?thesis using ok Pair bs by (auto simp: pipeline_run_def)
  next
    case (Inr bid)
    show ?thesis
    proof (cases "create_run (reg w1) (pl_name p @ ''-'' @ show_version (next_id (reg w1))) (pl_id p) bid (sk_id k)")
      case (Inl e)
      then show ?thesis using ok Pair Inr bs by (auto simp: pipeline_run_def Let_def)
    next
      case (Inr rs2)
      then obtain x st2 where cr: "create_run (reg w1) (pl_name p @ ''-'' @ show_version (next_id (reg w1))) (pl_id p) bid (sk_id k) = Inr (x, st2)"
        by (cases rs2) auto
      have x: "x = \<lparr>rn_id = next_id (reg w1), rn_name = pl_name p @ ''-'' @ show_version (next_id (reg w1)),
                    rn_pipeline = Some (pl_id p), rn_build = bid, rn_stack = sk_id k, rn_status = Running\<rparr>"
        and st2: "st2 = (reg w1)\<lparr>runs := runs (reg w1) @ [x], next_id := Suc (next_id (reg w1))\<rparr>"
        using cr by (auto simp: create_run_def Let_def split: if_splits)
      have fx: "rn_id x \<notin> rn_id ` set (runs (reg w1))" using fresh x by simp
      have "reg w' = st2 \<or> (runs (reg w') = runs (reg w1) @ [x\<lparr>rn_status := run_outcome w1 p\<rparr>]
                               \<and> builds (reg w') = builds (reg w1))"
        using ok Pair \<open>rb = Inr bid\<close> cr x st2 set_run_status_appended [OF fx, of "Suc (next_id (reg w1))"]
        by (auto simp: pipeline_run_def Let_def split: if_splits sum.splits)
      then show ?thesis
      proof
        assume "reg w' = st2"
        then show ?thesis using bs st2 x by (auto intro!: exI [of _ bs] exI [of _ "[x]"])
      next
        assume "runs (reg w') = runs (reg w1) @ [x\<lparr>rn_status := run_outcome w1 p\<rparr>] \<and> builds (reg w') = builds (reg w1)"
        then show ?thesis using bs x by (auto intro!: exI [of _ bs] exI [of _ "[x\<lparr>rn_status := run_outcome w1 p\<rparr>]"])
      qed
    qed
  qed
qed

lemma write_build_output_keeps:
  "reg (write_build_output op b w) = reg w \<and> active_stack (write_build_output op b w) = active_stack w"
  by (simp add: write_build_output_def cli_declare_def emit_def Let_def split: option.split)

lemma build_pipeline_on_stack:
  assumes s: "s \<noteq> []" and k: "get_stack (reg w) s = Inr k"
    and b: "build_pipeline n v cfg (Some s) op w = (oc, w')"
  shows "active_stack w' = active_stack w \<and> runs (reg w') = runs (reg w)
    \<and> (\<exists>bs. builds (reg w') = builds (reg w) @ bs \<and> (\<forall>b \<in> set bs. bd_stack b = sk_id k))"
proof -
  define w2 where "w2 = warn_no_root ''build'' ''the registered step classes will be resolved'' (print_active_config w)"
  have w2: "reg w2 = reg w" "active_stack w2 = active_stack w" by (simp_all add: w2_def warn_no_root_out cli_defs)
  show ?thesis
  proof (cases "get_pipeline (reg w) n v")
    case (Inl e)
    then show ?thesis using b w2 by (simp add: build_pipeline_def w2_def [symmetric])
  next
    case (Inr p)
    obtain r w3 where pb: "pipeline_build p k cfg (w2\<lparr>active_stack := sk_id k\<rparr>) = (r, w3)" by fastforce
    have ws: "with_stack (Some s) w2 (\<lambda>k w3. pipeline_build p k cfg w3) = (r, w3\<lparr>active_stack := active_stack w\<rparr>)"
      unfolding with_stack_selected [OF s, of w2 k, unfolded w2(1), OF k] using pb w2(2) by simp
    obtain bs where bs: "runs (reg w3) = runs (reg w)" "builds (reg w3) = builds (reg w) @ bs"
        "\<forall>b \<in> set bs. bd_stack b = sk_id k"
      using pipeline_build_on_stack [OF pb] w2 by auto
    have "reg w' = reg w3 \<and> active_stack w' = active_stack w"
      using b Inr ws w2 write_build_output_keeps
      by (auto simp: build_pipeline_def w2_def [symmetric] cli_declare_def emit_def split: sum.splits option.splits)
    then show ?thesis using bs by auto
  qed
qed

lemma run_pipeline_on_stack:
  assumes wf: "wf_registry (reg w)" and s: "s \<noteq> []" and k: "get_stack (reg w) s = Inr k"
    and r: "run_pipeline n v cfg (Some s) bp w = (oc, w')"
  shows "active_stack w' = active_stack w
    \<and> (\<exists>bs rs. builds (reg w') = builds (reg w) @ bs \<and> runs (reg w') = runs (reg w) @ rs
         \<and> (\<forall>b \<in> set bs. bd_stack b = sk_id k) \<and> (\<forall>x \<in> set rs. rn_stack x = sk_id k))"
proof -
  define w2 where "w2 = warn_no_root ''run'' ''the registered step classes will be resolved'' (print_active_config w)"
  have w2: "reg w2 = reg w" "active_stack w2 = active_stack w" by (simp_all add: w2_def warn_no_root_out cli_defs)
  have same: "active_stack w' = active_stack w \<and> reg w' = reg w" if "w' = w2 \<or> (\<exists>m. (oc, w') = cli_error m w2)"
    using that w2 by (auto simp: cli_defs)
  have unchanged: ?thesis if "active_stack w' = active_stack w \<and> reg w' = reg w"
    using that by (intro conjI exI [of _ "[]"]) simp_all
  show ?thesis
  proof (cases "get_pipeline (reg w) n v")
    case (Inl e)
    then have "w' = w2" using r w2 by (simp add: run_pipeline_def w2_def [symmetric])
    then show ?thesis using same unchanged by blast
  next
    case (Inr p)
    show ?thesis
    proof (cases "choose_build (files w2) bp")
      case (Chosen arg)
      obtain x w3 where pr: "pipeline_run p k cfg arg (w2\<lparr>active_stack := sk_id k\<rparr>) = (x, w3)" by fastforce
      have ws: "with_stack (Some s) w2 (\<lambda>k w3. pipeline_run p k cfg arg w3) = (x, w3\<lparr>active_stack := active_stack w\<rparr>)"
        unfolding with_stack_selected [OF s, of w2 k, unfolded w2(1), OF k] using pr w2(2) by simp
      have "wf_registry (reg (w2\<lparr>active_stack := sk_id k\<rparr>))" using wf w2 by simp
      from pipeline_run_on_stack [OF this pr] w2
      have ex: "\<exists>bs rs. builds (reg w3) = builds (reg w) @ bs \<and> runs (reg w3) = runs (reg w) @ rs
         \<and> (\<forall>b \<in> set bs. bd_stack b = sk_id k) \<and> (\<forall>x \<in> set rs. rn_stack x = sk_id k)" by simp
      have "run_pipeline n v cfg (Some s) bp w
          = (case with_stack (Some s) w2 (\<lambda>k w3. pipeline_run p k cfg arg w3) of
               (Inl e, w4) \<Rightarrow> (Uncaught e, w4) | (Inr _, w4) \<Rightarrow> (Success, w4))"
        unfolding run_pipeline_def Let_def w2_def [symmetric] using Inr Chosen w2(1) by simp
      then have "w' = w3\<lparr>active_stack := active_stack w\<rparr>"
        using r ws by (cases x) simp_all
      then have rw: "reg w' = reg w3" and aw: "active_stack w' = active_stack w" by simp_all
      show ?thesis unfolding rw using aw ex by blast
    next
      case (BadBuild m)
      have "run_pipeline n v cfg (Some s) bp w = cli_error m w2"
        unfolding run_pipeline_def Let_def w2_def [symmetric] using Inr BadBuild w2(1) by simp
      then have "(oc, w') = cli_error m w2" using r by simp
      then show ?thesis using same unchanged by blast
    next
      case (BadDoc e)
      have "run_pipeline n v cfg (Some s) bp w = (Uncaught e, w2)"
        unfolding run_pipeline_def Let_def w2_def [symmetric] using Inr BadDoc w2(1) by simp
      then have "w' = w2" using r by simp
      then show ?thesis using same unchanged by blast
    qed
  qed
qed

lemma two_stack_world_wf: "wf_registry (reg two_stack_world)"
  by (simp add: two_stack_world_def demo_build_world_def demo_world_def demo_registry_def
      wf_registry_def refs_ok_def registry_ids_defs)

lemma two_stack_world_remote:
  "get_stack (reg two_stack_world) ''remote'' = Inr \<lparr>sk_id = 6, sk_name = ''remote'', sk_is_local = False\<rparr>"
  by (simp add: two_stack_world_def demo_build_world_def demo_world_def demo_registry_def get_stack_def
      resolve_defs find_stack_def)

text \<open>
  C30. \<^verbatim>\<open>pipeline build -s S\<close> and \<^verbatim>\<open>pipeline run -s S\<close> act on the selected stack
  S and only for the duration of the command: whatever the outcome (success, an
  unknown pipeline, a bad \<^verbatim>\<open>--build\<close> argument, a failing store), every build and run
  they register is on S, nothing else in the build and run lists changes, and the
  active stack afterwards is the one before.
\<close>

theorem stack_option_scoped:
  assumes wf: "wf_registry (reg w)" and s: "s \<noteq> []" and k: "get_stack (reg w) s = Inr k"
    and b: "build_pipeline n v cfg (Some s) op w = (oc1, w1)"
    and r: "run_pipeline n v cfg (Some s) bp w = (oc2, w2)"
  shows "active_stack w1 = active_stack w \<and> runs (reg w1) = runs (reg w)
      \<and> (\<exists>bs. builds (reg w1) = builds (reg w) @ bs \<and> (\<forall>b \<in> set bs. bd_stack b = sk_id k))
    \<and> active_stack w2 = active_stack w
      \<and> (\<exists>bs rs. builds (reg w2) = builds (reg w) @ bs \<and> runs (reg w2) = runs (reg w) @ rs
           \<and> (\<forall>b \<in> set bs. bd_stack b = sk_id k) \<and> (\<forall>x \<in> set rs. rn_stack x = sk_id k))"
  using build_pipeline_on_stack [OF s k b] run_pipeline_on_stack [OF wf s k r] by blast

theorem stack_option_scoped_witness:
  "active_stack (snd (build_pipeline ''digits'' None None (Some ''remote'') None two_stack_world)) = 0
   \<and> active_stack (snd (run_pipeline ''digits'' None None (Some ''remote'') None two_stack_world)) = 0
   \<and> (\<exists>rs. runs (reg (snd (run_pipeline ''digits'' None None (Some ''remote'') None two_stack_world)))
            = runs (reg two_stack_world) @ rs \<and> (\<forall>x \<in> set rs. rn_stack x = 6))
   \<and> map rn_stack (runs (reg (snd (run_pipeline ''digits'' None None (Some ''remote'') None two_stack_world)))) = [0, 6]"
proof -
  have a0: "active_stack two_stack_world = 0"
    by (simp add: two_stack_world_def demo_build_world_def demo_world_def)
  have "''remote'' \<noteq> []" by simp
  note st = stack_option_scoped [OF two_stack_world_wf this two_stack_world_remote, of "''digits''" None None None
      "fst (build_pipeline ''digits'' None None (Some ''remote'') None two_stack_world)"
      "snd (build_pipeline ''digits'' None None (Some ''remote'') None two_stack_world)" None
      "fst (run_pipeline ''digits'' None None (Some ''remote'') None two_stack_world)"
      "snd (run_pipeline ''digits'' None None (Some ''remote'') None two_stack_world)"]
  have ran: "map rn_stack (runs (reg (snd (run_pipeline ''digits'' None None (Some ''remote'') None two_stack_world)))) = [0, 6]"
    using two_stack_world_remote
    by (simp add: run_pipeline_def Let_def with_stack_def truthy_def opt_str_def warn_no_root_out cli_defs
        choose_build_def resolve_defs decimal_value_def pipeline_run_def run_build_def pipeline_build_def create_build_def
        create_run_def set_run_status_def registry_ids_defs two_stack_world_def demo_build_world_def demo_world_def
        demo_registry_def)
  show ?thesis
    using st ran unfolding a0 by (simp only: prod.collapse simp_thms stack.select_convs) blast
qed

end
