(* ===== verification/FileStore.thy ===== *)
theory FileStore
  imports Ids "HOL-Library.AList"
begin

text \<open>
  The directory-oriented artifact store and the calls of \<^verbatim>\<open>zenml.utils.io_utils\<close>
  and \<^verbatim>\<open>tempfile\<close> that the materializer makes.  These modules are not under
  \<^verbatim>\<open>src/\<close>; they follow the specification's section 4.4 and the libraries'
  documented behaviour.  A store is the list of its files, each a path and its content,
  in the order they were written; a directory is the set of files whose path extends
  it, so \<open>is_dir\<close> holds of a path with a file below it and \<^verbatim>\<open>listdir\<close> gives the
  names directly below a path in the order of their first file.  \<open>copy_tree\<close> is
  \<^verbatim>\<open>io_utils.copy_dir(source_dir, destination_dir, overwrite=False)\<close>: for each
  entry of the listing taken when the call starts, a subdirectory is copied by a
  recursive call, unless it is the destination itself, and a file is copied with
  \<^verbatim>\<open>fileio.copy\<close>, which raises \<^verbatim>\<open>FileExistsError\<close> on an existing destination; the
  store may fail at any copy (the fault oracle \<open>fails\<close> is asked with the number of
  copies made so far).  Nothing bounds the recursion of the source, so
  \<open>copy_tree\<close> is a \<^theory_text>\<open>partial_function (option)\<close> in which \<open>None\<close> is a copy
  that never returns; \<open>copy_tree_terminates\<close> shows that it returns whenever source
  and destination are disjoint.
\<close>

section \<open>Paths and files\<close>

type_synonym path = "string list"

record 'c store =
  st_files :: "(path \<times> 'c) list"

datatype fs_error =
    OSError path
  | FileExistsError path
  | IOFailure path

definition read_file :: "'c store \<Rightarrow> path \<Rightarrow> 'c option" where
  "read_file s p = map_of (st_files s) p"

definition write_file :: "path \<Rightarrow> 'c \<Rightarrow> 'c store \<Rightarrow> 'c store" where
  "write_file p c s = s\<lparr>st_files := AList.update p c (st_files s)\<rparr>"

definition under :: "path \<Rightarrow> path \<Rightarrow> bool" where
  "under d p \<longleftrightarrow> take (length d) p = d \<and> length d < length p"

definition is_dir :: "'c store \<Rightarrow> path \<Rightarrow> bool" where
  "is_dir s d \<longleftrightarrow> (\<exists>p \<in> fst ` set (st_files s). under d p)"

definition listdir :: "'c store \<Rightarrow> path \<Rightarrow> string list" where
  "listdir s d = remdups (map (\<lambda>p. p ! length d) (filter (under d) (map fst (st_files s))))"

definition remove_tree :: "path \<Rightarrow> 'c store \<Rightarrow> 'c store" where
  "remove_tree d s = s\<lparr>st_files := filter (\<lambda>(p, _). \<not> under d p) (st_files s)\<rparr>"

text \<open>\<^verbatim>\<open>TemporaryDirectory()\<close>: the first directory \<^verbatim>\<open>/tmp/tmpN\<close> with nothing in
  it; one of the first \<open>length (st_files s) + 1\<close> candidates is free.\<close>

definition tmp_root :: path where
  "tmp_root = [''tmp'']"

definition tmp_candidate :: "nat \<Rightarrow> path" where
  "tmp_candidate n = tmp_root @ [''tmp'' @ show_version n]"

definition temporary_directory :: "'c store \<Rightarrow> path" where
  "temporary_directory s =
     (case find (\<lambda>n. \<forall>(p, _) \<in> set (st_files s). \<not> under (tmp_candidate n) p \<and> p \<noteq> tmp_candidate n)
                [0..<Suc (length (st_files s))] of
        Some n \<Rightarrow> tmp_candidate n
      | None \<Rightarrow> tmp_candidate (length (st_files s)))"

section \<open>io_utils.copy_dir\<close>

partial_function (option) copy_tree ::
  "(nat \<Rightarrow> bool) \<Rightarrow> path \<Rightarrow> path \<Rightarrow> string list \<Rightarrow> nat \<Rightarrow> 'c store
     \<Rightarrow> ((fs_error \<times> 'c store) + (nat \<times> 'c store)) option" where
  "copy_tree fails src dst ns k s =
     (case ns of
        [] \<Rightarrow> Some (Inr (k, s))
      | n # rest \<Rightarrow>
          if is_dir s (src @ [n]) then
            (if src @ [n] = dst then copy_tree fails src dst rest k s
             else Option.bind (copy_tree fails (src @ [n]) (dst @ [n]) (listdir s (src @ [n])) k s)
                    (\<lambda>r. case r of
                           Inl e \<Rightarrow> Some (Inl e)
                         | Inr (k', s') \<Rightarrow> copy_tree fails src dst rest k' s'))
          else
            (case read_file s (dst @ [n]) of
               Some _ \<Rightarrow> Some (Inl (FileExistsError (dst @ [n]), s))
             | None \<Rightarrow>
                 if fails k then Some (Inl (IOFailure (dst @ [n]), s))
                 else (case read_file s (src @ [n]) of
                         None \<Rightarrow> Some (Inl (OSError (src @ [n]), s))
                       | Some c \<Rightarrow> copy_tree fails src dst rest (Suc k) (write_file (dst @ [n]) c s))))"

text \<open>\<^verbatim>\<open>copy_dir\<close> returns the store after the copy, or the first error and the
  store as the error left it.\<close>

definition copy_dir :: "(nat \<Rightarrow> bool) \<Rightarrow> path \<Rightarrow> path \<Rightarrow> 'c store
     \<Rightarrow> ((fs_error \<times> 'c store) + 'c store) option" where
  "copy_dir fails src dst s =
     map_option (map_sum id snd) (copy_tree fails src dst (listdir s src) 0 s)"

section \<open>Lemmas\<close>

lemma update_new: "k \<notin> fst ` set al \<Longrightarrow> AList.update k v al = al @ [(k, v)]"
  by (induction al) auto

lemma read_write [simp]: "read_file (write_file p c s) q = (if q = p then Some c else read_file s q)"
  by (simp add: read_file_def write_file_def update_conv')

lemma read_remove_tree [simp]:
  fixes s :: "'c store"
  shows "read_file (remove_tree d s) p = (if under d p then None else read_file s p)"
proof -
  have "map_of (filter (\<lambda>(q, _). \<not> under d q) al) p = (if under d p then None else map_of al p)" for al :: "(path \<times> 'c) list"
    by (induction al) auto
  then show ?thesis by (simp add: read_file_def remove_tree_def)
qed

lemma is_dir_write: "is_dir (write_file p c s) d \<longleftrightarrow> under d p \<or> is_dir s d"
  by (auto simp: is_dir_def write_file_def dom_update)

lemma copy_tree_Nil [simp]: "copy_tree fails src dst [] k s = Some (Inr (k, s))"
  by (simp add: copy_tree.simps)

lemma copy_tree_file:
  "\<not> is_dir s (src @ [n]) \<Longrightarrow> copy_tree fails src dst (n # ns) k s =
     (case read_file s (dst @ [n]) of
        Some _ \<Rightarrow> Some (Inl (FileExistsError (dst @ [n]), s))
      | None \<Rightarrow>
          if fails k then Some (Inl (IOFailure (dst @ [n]), s))
          else (case read_file s (src @ [n]) of
                  None \<Rightarrow> Some (Inl (OSError (src @ [n]), s))
                | Some c \<Rightarrow> copy_tree fails src dst ns (Suc k) (write_file (dst @ [n]) c s)))"
  by (simp add: copy_tree.simps [of fails src dst "n # ns"])

lemma copy_tree_dir:
  "is_dir s (src @ [n]) \<Longrightarrow> src @ [n] \<noteq> dst \<Longrightarrow> copy_tree fails src dst (n # ns) k s =
     Option.bind (copy_tree fails (src @ [n]) (dst @ [n]) (listdir s (src @ [n])) k s)
       (\<lambda>r. case r of Inl e \<Rightarrow> Some (Inl e) | Inr (k', s') \<Rightarrow> copy_tree fails src dst ns k' s')"
  by (simp add: copy_tree.simps [of fails src dst "n # ns"])

lemma under_iff: "under d p \<longleftrightarrow> (\<exists>q. q \<noteq> [] \<and> p = d @ q)"
proof
  assume "under d p"
  then have "p = d @ drop (length d) p" "drop (length d) p \<noteq> []"
    unfolding under_def by (metis append_take_drop_id, simp)
  then show "\<exists>q. q \<noteq> [] \<and> p = d @ q" by blast
qed (auto simp: under_def)

lemma under_snoc: "under (d @ [n]) p \<Longrightarrow> under d p"
  by (auto simp: under_iff)

lemma under_append [simp]: "under d (d @ q) \<longleftrightarrow> q \<noteq> []"
  by (auto simp: under_iff)

lemma under_comparable:
  assumes "under a p" "under b p"
  shows "a = b \<or> under a b \<or> under b a"
proof -
  from assms(1) obtain q where q: "p = a @ q" by (auto simp: under_iff)
  from assms(2) obtain q' where q': "p = b @ q'" by (auto simp: under_iff)
  from q q' have "a @ q = b @ q'" by simp
  then show ?thesis by (auto simp: append_eq_append_conv2 under_iff)
qed

lemma disjoint_snoc:
  assumes "\<not> under src dst" "\<not> under dst src" "src \<noteq> dst"
  shows "\<not> under (src @ [n]) (dst @ [n])" "\<not> under (dst @ [n]) (src @ [n])" "src @ [n] \<noteq> dst @ [n]"
  using assms by (auto simp: under_iff append_eq_append_conv2 Cons_eq_append_conv)

lemma is_dir_file:
  assumes "is_dir s d"
  obtains p where "under d p" "read_file s p \<noteq> None"
  using assms by (auto simp: is_dir_def read_file_def weak_map_of_SomeI)

lemma copy_tree_frame:
  assumes "copy_tree fails src dst ns k s = Some r"
  shows "\<forall>p. \<not> under dst p \<longrightarrow> read_file (case_sum snd snd r) p = read_file s p"
  apply (rule copy_tree.raw_induct
    [where P = "\<lambda>fails src dst ns k s r. \<forall>p. \<not> under dst p \<longrightarrow> read_file (case_sum snd snd r) p = read_file s p",
     OF _ assms])
  subgoal premises prems for f fails src dst ns k s r
  proof (cases ns)
    case Nil
    then show ?thesis using prems(2) by auto
  next
    case (Cons n rest)
    note eq = prems(2)[unfolded Cons list.case]
    show ?thesis
    proof (cases "is_dir s (src @ [n])")
      case True
      show ?thesis
      proof (cases "src @ [n] = dst")
        case True
        then show ?thesis using eq \<open>is_dir s (src @ [n])\<close> prems(1) by simp
      next
        case False
        with eq True obtain r1 where r1: "f fails (src @ [n]) (dst @ [n]) (listdir s (src @ [n])) k s = Some r1"
          and r: "(case r1 of Inl e \<Rightarrow> Some (Inl e) | Inr (k', s') \<Rightarrow> f fails src dst rest k' s') = Some r"
          by (auto simp: bind_eq_Some_conv)
        have f1: "read_file (case_sum snd snd r1) p = read_file s p" if "\<not> under dst p" for p
          using prems(1) [OF r1] that under_snoc by blast
        show ?thesis
        proof (cases r1)
          case (Inl e)
          then show ?thesis using r f1 by auto
        next
          case (Inr ks)
          then obtain k' s' where ks: "r1 = Inr (k', s')" by (cases ks) auto
          then show ?thesis using r f1 prems(1) [of fails src dst rest k' s' r] by auto
        qed
      qed
    next
      case False
      have ne: "dst @ [n] \<noteq> p" if "\<not> under dst p" for p using that by auto
      show ?thesis
      proof (cases "read_file s (dst @ [n]) = None \<and> \<not> fails k")
        case True
        then show ?thesis
          using eq False ne prems(1) [of fails src dst rest "Suc k"]
          by (auto split: option.splits)
      next
        case False
        then show ?thesis using eq \<open>\<not> is_dir s (src @ [n])\<close> by (auto split: option.splits if_splits)
      qed
    qed
  qed
  done

lemma copy_tree_terminates:
  assumes "\<not> under src dst" "\<not> under dst src" "src \<noteq> dst"
    and "\<forall>p. under src p \<longrightarrow> read_file s p \<noteq> None \<longrightarrow> length p \<le> B"
  shows "\<exists>r. copy_tree fails src dst ns k s = Some r"
  using assms
proof (induction "B - length src" arbitrary: src dst ns k s rule: less_induct)
  case less
  note disj = less.prems(1-3)
  show ?case
    using less.prems(4)
  proof (induction ns arbitrary: k s)
    case Nil
    then show ?case by simp
  next
    case (Cons n ns)
    have keep: "\<not> under src p" if "under dst p" for p
      using under_comparable [OF _ that] disj by blast
    show ?case
    proof (cases "is_dir s (src @ [n])")
      case True
      then obtain p where p: "under (src @ [n]) p" "read_file s p \<noteq> None" by (rule is_dir_file)
      then have "length src < B"
        using Cons.prems under_snoc [OF p(1)] by (fastforce simp: under_def)
      then have lt: "B - length (src @ [n]) < B - length src" by simp
      have ne: "src @ [n] \<noteq> dst" using disj(1) by auto
      have bound: "\<forall>p. under (src @ [n]) p \<longrightarrow> read_file s p \<noteq> None \<longrightarrow> length p \<le> B"
        using Cons.prems under_snoc by blast
      obtain r1 where r1: "copy_tree fails (src @ [n]) (dst @ [n]) (listdir s (src @ [n])) k s = Some r1"
        using less.hyps [OF lt disjoint_snoc [OF disj] bound] by blast
      show ?thesis
      proof (cases r1)
        case (Inl e)
        then show ?thesis using r1 by (simp add: copy_tree_dir [OF True ne])
      next
        case (Inr ks)
        then obtain k' s' where ks: "r1 = Inr (k', s')" by (cases ks) auto
        have "read_file s' p = read_file s p" if "under src p" for p
          using copy_tree_frame [OF r1] ks keep [of p] under_snoc that by auto
        then have "\<forall>p. under src p \<longrightarrow> read_file s' p \<noteq> None \<longrightarrow> length p \<le> B"
          using Cons.prems by simp
        then obtain r where "copy_tree fails src dst ns k' s' = Some r" using Cons.IH by blast
        then show ?thesis using r1 ks by (simp add: copy_tree_dir [OF True ne])
      qed
    next
      case False
      have "\<not> under src (dst @ [n])" using keep by simp
      then have "\<forall>p. under src p \<longrightarrow> read_file (write_file (dst @ [n]) c s) p \<noteq> None \<longrightarrow> length p \<le> B" for c
        using Cons.prems by auto
      then show ?thesis
        using Cons.IH by (auto simp: copy_tree_file [OF False] split: option.splits)
    qed
  qed
qed

lemma tmp_candidate_index:
  assumes "under (tmp_candidate n) q \<or> q = tmp_candidate n"
  shows "parse_version (drop 3 (q ! 1)) = Some n"
proof -
  have t: "take (length (tmp_candidate n)) q = tmp_candidate n"
    using assms by (auto simp: under_def)
  have "1 < length (tmp_candidate n)" by (simp add: tmp_candidate_def tmp_root_def)
  then have "q ! 1 = tmp_candidate n ! 1" by (metis nth_take t)
  then have "q ! 1 = ''tmp'' @ show_version n" by (simp add: tmp_candidate_def tmp_root_def)
  then show ?thesis by simp
qed

lemma temporary_directory_fresh:
  assumes pc: "(p, c) \<in> set (st_files s)"
  shows "\<not> under (temporary_directory s) p \<and> p \<noteq> temporary_directory s"
proof -
  define L where "L = length (st_files s)"
  define free where "free = (\<lambda>n. \<forall>(q, _) \<in> set (st_files s). \<not> under (tmp_candidate n) q \<and> q \<noteq> tmp_candidate n)"
  define idx where "idx q = (case parse_version (drop 3 (q ! 1)) of Some n \<Rightarrow> n | None \<Rightarrow> 0)" for q :: path
  have "\<exists>n \<in> set [0..<Suc L]. free n"
  proof (rule ccontr)
    assume nf: "\<not> (\<exists>n \<in> set [0..<Suc L]. free n)"
    have "n \<in> idx ` fst ` set (st_files s)" if "n < Suc L" for n
    proof -
      have "n \<in> set [0..<Suc L]" using that by (simp del: upt_Suc)
      then have "\<not> free n" using nf by blast
      then obtain q c' where qc: "(q, c') \<in> set (st_files s)"
        and b: "under (tmp_candidate n) q \<or> q = tmp_candidate n"
        unfolding free_def by blast
      have "idx q = n" using tmp_candidate_index [OF b] by (simp add: idx_def)
      then show ?thesis using qc by force
    qed
    then have "{0..<Suc L} \<subseteq> idx ` fst ` set (st_files s)" by auto
    then have "card {0..<Suc L} \<le> card (idx ` fst ` set (st_files s))"
      by (intro card_mono) simp_all
    also have "\<dots> \<le> card (fst ` set (st_files s))" by (rule card_image_le) simp
    also have "\<dots> \<le> card (set (st_files s))" by (rule card_image_le) simp
    also have "\<dots> \<le> L" unfolding L_def by (rule card_length)
    finally show False by simp
  qed
  then obtain n where fn: "find free [0..<Suc L] = Some n"
    by (metis find_None_iff2 not_None_eq)
  then have "free n" by (auto simp: find_Some_iff)
  moreover have "temporary_directory s = tmp_candidate n"
    using fn by (simp add: temporary_directory_def free_def L_def)
  ultimately show ?thesis using pc by (auto simp: free_def)
qed

lemma temporary_directory_candidate: "\<exists>n. temporary_directory s = tmp_candidate n"
  by (auto simp: temporary_directory_def split: option.splits)

lemma read_file_length:
  "read_file s p \<noteq> None \<Longrightarrow> length p \<le> Max (insert 0 (length ` fst ` set (st_files s)))"
  by (auto simp: read_file_def map_of_eq_None_iff intro!: Max_ge)

lemma copy_dir_nested:
  "copy_dir (\<lambda>_. False) [''a''] [''b'']
     \<lparr>st_files = [([''a'', ''x'', ''f''], ''1''), ([''a'', ''g''], ''2'')]\<rparr>
   = Some (Inr \<lparr>st_files = [([''a'', ''x'', ''f''], ''1''), ([''a'', ''g''], ''2''),
                             ([''b'', ''x'', ''f''], ''1''), ([''b'', ''g''], ''2'')]\<rparr>)"
  by (simp add: copy_dir_def listdir_def is_dir_def under_def copy_tree_file copy_tree_dir
      read_file_def write_file_def)

text \<open>\<^verbatim>\<open>copy_dir\<close> returns whenever source and destination are disjoint
  directories, and it writes only below the destination.\<close>

lemma copy_dir_returns:
  assumes "\<not> under src dst" "\<not> under dst src" "src \<noteq> dst"
  shows "\<exists>r. copy_dir fails src dst s = Some r
           \<and> (\<forall>p. \<not> under dst p \<longrightarrow> read_file (case_sum snd id r) p = read_file s p)"
proof -
  have "\<forall>p. under src p \<longrightarrow> read_file s p \<noteq> None
      \<longrightarrow> length p \<le> Max (insert 0 (length ` fst ` set (st_files s)))"
    using read_file_length [of s] by blast
  then obtain r where r: "copy_tree fails src dst (listdir s src) 0 s = Some r"
    using copy_tree_terminates [OF assms] by blast
  have "case_sum snd id (map_sum id snd r) = case_sum snd snd r" by (cases r) auto
  then show ?thesis using r copy_tree_frame [OF r] by (simp add: copy_dir_def)
qed

end
