(* ===== verification/Materializer.thy ===== *)
theory Materializer
  imports FileStore
begin

text \<open>
  The Huggingface TensorFlow model materializer,
  \<^verbatim>\<open>src/zenml/integrations/huggingface/materializers/huggingface_tf_model_materializer.py\<close>,
  over the file store of \<open>FileStore\<close> whose files hold a configuration or weights
  (\<open>stored\<close>).  A model is its Python class name, its configuration and its layers
  (\<open>tf_model\<close>).  What the materializer calls is modelled after the specification's
  section 4.4 and the libraries' documented behaviour: \<^verbatim>\<open>save_pretrained\<close> of
  \<^verbatim>\<open>transformers\<close> writes \<^verbatim>\<open>config.json\<close> (whose \<^verbatim>\<open>architectures\<close> is the class
  name without its first two characters, the \<^verbatim>\<open>TF\<close> prefix) and then
  \<^verbatim>\<open>tf_model.h5\<close>; \<^verbatim>\<open>AutoConfig.from_pretrained\<close> reads the configuration;
  \<^verbatim>\<open>TemporaryDirectory()\<close> picks a fresh directory and removes it when the object is
  released, at the end of \<^verbatim>\<open>save\<close>; \<^verbatim>\<open>io_utils.copy_dir\<close> is \<open>copy_dir\<close>, so
  \<open>save\<close> returns \<open>None\<close> exactly when that copy would not return.  The class
  attributes \<^verbatim>\<open>ASSOCIATED_TYPES\<close> and \<^verbatim>\<open>ASSOCIATED_ARTIFACT_TYPE\<close> register the
  materializer for \<^verbatim>\<open>TFPreTrainedModel\<close> and its subclasses, the registry the
  specification's section 9 describes.
\<close>

section \<open>Models and their metadata\<close>

record tf_layer =
  ly_name :: string
  ly_params :: nat
  ly_trainable :: bool

record tf_model =
  tm_class :: string
  tm_config :: string
  tm_layers :: "tf_layer list"

text \<open>\<^verbatim>\<open>TFPreTrainedModel.num_parameters(only_trainable)\<close>: the sizes of the model's
  (trainable) weights.\<close>

definition num_parameters :: "bool \<Rightarrow> tf_model \<Rightarrow> nat" where
  "num_parameters only_trainable m =
     sum_list (map ly_params (filter (\<lambda>l. \<not> only_trainable \<or> ly_trainable l) (tm_layers m)))"

text \<open>\<^verbatim>\<open>extract_metadata\<close> (lines 73--88).\<close>

definition extract_metadata :: "tf_model \<Rightarrow> (string \<times> nat) list" where
  "extract_metadata m =
     [(''num_layers'', length (tm_layers m)),
      (''num_params'', num_parameters False m),
      (''num_trainable_params'', num_parameters True m)]"

section \<open>Files and errors\<close>

datatype stored = ConfigJson "string list" string | TfWeights "tf_layer list"

datatype mat_error =
    StoreError fs_error
  | IndexError
  | AttributeError string

section \<open>The libraries the materializer calls\<close>

definition save_pretrained :: "tf_model \<Rightarrow> path \<Rightarrow> stored store \<Rightarrow> stored store" where
  "save_pretrained m d s =
     write_file (d @ [''tf_model.h5'']) (TfWeights (tm_layers m))
       (write_file (d @ [''config.json'']) (ConfigJson [drop 2 (tm_class m)] (tm_config m)) s)"

definition auto_config :: "stored store \<Rightarrow> path \<Rightarrow> mat_error + (string list \<times> string)" where
  "auto_config s d =
     (case read_file s (d @ [''config.json'']) of
        Some (ConfigJson archs cfg) \<Rightarrow> Inr (archs, cfg)
      | _ \<Rightarrow> Inl (StoreError (OSError (d @ [''config.json'']))))"

definition from_pretrained :: "string \<Rightarrow> stored store \<Rightarrow> path \<Rightarrow> mat_error + tf_model" where
  "from_pretrained cls s d =
     (case (auto_config s d, read_file s (d @ [''tf_model.h5''])) of
        (Inr (_, cfg), Some (TfWeights ls)) \<Rightarrow> Inr \<lparr>tm_class = cls, tm_config = cfg, tm_layers = ls\<rparr>
      | (Inl e, _) \<Rightarrow> Inl e
      | _ \<Rightarrow> Inl (StoreError (OSError (d @ [''tf_model.h5'']))))"

section \<open>The materializer\<close>

definition default_tf_model_dir :: string where
  "default_tf_model_dir = ''hf_tf_model''"

text \<open>The class header (lines 31--35): the types the materializer handles and the
  kind of artifact it writes.\<close>

datatype artifact_type = DataArtifact | ModelArtifact | SchemaArtifact | ServiceArtifact | StatisticsArtifact

record materializer_class =
  mc_name :: string
  mc_associated_types :: "string list"
  mc_artifact_type :: artifact_type

definition hf_tf_materializer :: materializer_class where
  "hf_tf_materializer =
     \<lparr>mc_name = ''HFTFModelMaterializer'', mc_associated_types = [''TFPreTrainedModel''],
      mc_artifact_type = ModelArtifact\<rparr>"

text \<open>The registry of \<^verbatim>\<open>BaseMaterializer\<close>'s metaclass: a materializer class is
  registered for each of its associated types that has none yet (the first registration
  is kept), and a value is handled by the materializer of the first class of its
  method resolution order (\<open>mro\<close>) that has one; \<open>None\<close> is the
  \<^verbatim>\<open>StepInterfaceError\<close> for a type with no materializer.\<close>

type_synonym materializer_registry = "(string \<times> materializer_class) list"

definition register_materializer :: "materializer_class \<Rightarrow> materializer_registry \<Rightarrow> materializer_registry" where
  "register_materializer mc reg =
     fold (\<lambda>t r. if t \<in> fst ` set r then r else r @ [(t, mc)]) (mc_associated_types mc) reg"

definition materializer_for ::
  "(string \<Rightarrow> string list) \<Rightarrow> materializer_registry \<Rightarrow> string \<Rightarrow> materializer_class option" where
  "materializer_for mro reg cls =
     (case find (\<lambda>c. c \<in> fst ` set reg) (mro cls) of
        None \<Rightarrow> None
      | Some c \<Rightarrow> map_of reg c)"

text \<open>Line 51: \<^verbatim>\<open>"TF" + config.architectures[0]\<close>, an \<^verbatim>\<open>IndexError\<close> when
  the configuration names no architecture.\<close>

definition model_architecture :: "string list \<Rightarrow> mat_error + string" where
  "model_architecture archs = (case archs of [] \<Rightarrow> Inl IndexError | a # _ \<Rightarrow> Inr (''TF'' @ a))"

text \<open>Lines 52--54: \<^verbatim>\<open>getattr(importlib.import_module("transformers"), architecture)\<close>,
  an \<^verbatim>\<open>AttributeError\<close> for a class the module does not export.\<close>

definition model_class :: "(string \<Rightarrow> bool) \<Rightarrow> string \<Rightarrow> mat_error + string" where
  "model_class transformers architecture =
     (if transformers architecture then Inr architecture else Inl (AttributeError architecture))"

text \<open>\<^verbatim>\<open>load\<close> (lines 37--57).\<close>

definition load :: "(string \<Rightarrow> bool) \<Rightarrow> path \<Rightarrow> stored store \<Rightarrow> mat_error + tf_model" where
  "load transformers uri s =
     (let d = uri @ [default_tf_model_dir] in
      case auto_config s d of
        Inl e \<Rightarrow> Inl e
      | Inr (archs, _) \<Rightarrow>
          (case model_architecture archs of
             Inl e \<Rightarrow> Inl e
           | Inr architecture \<Rightarrow>
               (case model_class transformers architecture of
                  Inl e \<Rightarrow> Inl e
                | Inr cls \<Rightarrow> from_pretrained cls s d)))"

text \<open>\<^verbatim>\<open>save\<close> (lines 59--71): write into a temporary directory, copy it into
  \<^verbatim>\<open>uri/hf_tf_model\<close>; the temporary directory is removed when \<^verbatim>\<open>save\<close> ends, also
  when the copy fails.\<close>

definition save :: "(nat \<Rightarrow> bool) \<Rightarrow> path \<Rightarrow> tf_model \<Rightarrow> stored store
     \<Rightarrow> ((mat_error + unit) \<times> stored store) option" where
  "save fails uri m s =
     (let tmp = temporary_directory s;
          s2 = save_pretrained m tmp s
      in map_option
           (\<lambda>r. case r of
                  Inl (e, s3) \<Rightarrow> (Inl (StoreError e), remove_tree tmp s3)
                | Inr s3 \<Rightarrow> (Inr (), remove_tree tmp s3))
           (copy_dir fails tmp (uri @ [default_tf_model_dir]) s2))"

section \<open>Sample data\<close>

text \<open>A BERT model with a frozen classifier head, an artifact location of the local
  store, and a \<^verbatim>\<open>transformers\<close> module exporting two TensorFlow classes.\<close>

definition demo_model :: tf_model where
  "demo_model = \<lparr>tm_class = ''TFBertModel'', tm_config = ''{hidden_size: 768}'',
     tm_layers = [\<lparr>ly_name = ''bert'', ly_params = 109482240, ly_trainable = True\<rparr>,
                  \<lparr>ly_name = ''classifier'', ly_params = 1538, ly_trainable = False\<rparr>]\<rparr>"

definition demo_transformers :: "string \<Rightarrow> bool" where
  "demo_transformers c \<longleftrightarrow> c \<in> {''TFBertModel'', ''TFGPT2Model''}"

definition demo_uri :: path where
  "demo_uri = [''local_stores'', ''artifacts'', ''trainer'', ''output'', ''7'']"

text \<open>The files of a BERT model as \<^verbatim>\<open>save_pretrained\<close> leaves them.\<close>

text \<open>The method resolution order of \<^verbatim>\<open>TFBertModel\<close> and a registry that already
  holds the built-in materializer for Python's \<^verbatim>\<open>dict\<close>.\<close>

definition demo_mro :: "string \<Rightarrow> string list" where
  "demo_mro c = (if c = ''TFBertModel''
                 then [''TFBertModel'', ''TFBertPreTrainedModel'', ''TFPreTrainedModel'', ''Layer'', ''object'']
                 else [c, ''object''])"

definition demo_materializers :: materializer_registry where
  "demo_materializers = [(''dict'', \<lparr>mc_name = ''BuiltInContainerMaterializer'', mc_associated_types = [''dict''],
                                 mc_artifact_type = DataArtifact\<rparr>)]"

definition demo_store :: "stored store" where
  "demo_store = \<lparr>st_files =
     [(demo_uri @ [default_tf_model_dir, ''config.json''], ConfigJson [''BertModel''] (tm_config demo_model)),
      (demo_uri @ [default_tf_model_dir, ''tf_model.h5''], TfWeights (tm_layers demo_model))]\<rparr>"

section \<open>Lemmas\<close>

lemma tmp_candidate_disjoint:
  assumes "\<not> under tmp_root uri"
  shows "\<not> under (tmp_candidate n) (uri @ [default_tf_model_dir, x])"
    and "uri @ [default_tf_model_dir] \<noteq> tmp_candidate n"
    and "uri @ [default_tf_model_dir, x] \<noteq> tmp_candidate n @ [y]"
proof -
  have "take 2 (uri @ [default_tf_model_dir, x]) \<noteq> tmp_candidate n"
  proof (cases uri)
    case (Cons u rest)
    show ?thesis
    proof (cases rest)
      case (Cons u2 rest2)
      then show ?thesis using assms \<open>uri = u # rest\<close>
        by (auto simp: under_def tmp_candidate_def tmp_root_def)
    qed (simp add: \<open>uri = u # rest\<close> tmp_candidate_def default_tf_model_dir_def)
  qed (simp add: tmp_candidate_def tmp_root_def default_tf_model_dir_def)
  then show "\<not> under (tmp_candidate n) (uri @ [default_tf_model_dir, x])"
    by (auto simp: under_def tmp_candidate_def tmp_root_def numeral_2_eq_2)
  show "uri @ [default_tf_model_dir] \<noteq> tmp_candidate n"
  proof
    assume eq: "uri @ [default_tf_model_dir] = tmp_candidate n"
    then have "last (uri @ [default_tf_model_dir]) = last (tmp_candidate n)" by simp
    then show False by (simp add: tmp_candidate_def default_tf_model_dir_def)
  qed
  then show "uri @ [default_tf_model_dir, x] \<noteq> tmp_candidate n @ [y]"
    by (metis append.assoc append1_eq_conv append_Cons append_Nil)
qed

lemma listdir_save_pretrained:
  assumes fresh: "\<And>p. p \<in> fst ` set (st_files s) \<Longrightarrow> \<not> under d p"
  shows "listdir (save_pretrained m d s) d = [''config.json'', ''tf_model.h5'']"
proof -
  have k1: "d @ [''config.json''] \<notin> fst ` set (st_files s)" using fresh by fastforce
  have k2: "d @ [''tf_model.h5''] \<notin> fst ` set (st_files s @ [(d @ [''config.json''], c)])" for c
    using fresh by fastforce
  have "filter (under d) (map fst (st_files s)) = []" using fresh by (auto simp: filter_empty_conv)
  then show ?thesis
    by (simp add: save_pretrained_def write_file_def update_new [OF k1] update_new [OF k2] listdir_def)
qed

lemma save_pretrained_flat:
  assumes fresh: "\<And>p. p \<in> fst ` set (st_files s) \<Longrightarrow> \<not> under d p"
  shows "\<not> is_dir (save_pretrained m d s) (d @ [n])"
proof -
  have "\<not> is_dir s (d @ [n])" using fresh under_snoc by (fastforce simp: is_dir_def)
  then show ?thesis by (simp add: save_pretrained_def is_dir_write under_def)
qed

lemma temporary_directory_disjoint:
  assumes "\<not> under tmp_root uri"
  shows "\<not> under (temporary_directory s) (uri @ [default_tf_model_dir, x])"
    and "uri @ [default_tf_model_dir] \<noteq> temporary_directory s"
proof -
  obtain n where "temporary_directory s = tmp_candidate n"
    using temporary_directory_candidate by blast
  then show "\<not> under (temporary_directory s) (uri @ [default_tf_model_dir, x])"
    and "uri @ [default_tf_model_dir] \<noteq> temporary_directory s"
    using tmp_candidate_disjoint(1,2) [OF assms, of n] by simp_all
qed

lemma temporary_directory_apart:
  assumes nu: "\<not> under tmp_root uri"
  shows "\<not> under (temporary_directory s) (uri @ [default_tf_model_dir])"
    and "\<not> under (uri @ [default_tf_model_dir]) (temporary_directory s)"
    and "uri @ [default_tf_model_dir] \<noteq> temporary_directory s"
proof -
  obtain n where tn: "temporary_directory s = tmp_candidate n"
    using temporary_directory_candidate by blast
  show "\<not> under (temporary_directory s) (uri @ [default_tf_model_dir])"
  proof
    assume "under (temporary_directory s) (uri @ [default_tf_model_dir])"
    then obtain q where "q \<noteq> []" "uri @ [default_tf_model_dir] = tmp_candidate n @ q"
      by (auto simp: under_iff tn)
    then have "under tmp_root uri"
      by (cases q rule: rev_cases) (auto simp: under_iff tmp_candidate_def tmp_root_def)
    with nu show False by simp
  qed
  show "\<not> under (uri @ [default_tf_model_dir]) (temporary_directory s)"
  proof
    assume "under (uri @ [default_tf_model_dir]) (temporary_directory s)"
    then obtain q where "q \<noteq> []" "tmp_candidate n = uri @ default_tf_model_dir # q"
      by (auto simp: under_iff tn)
    then show False
      by (cases uri) (auto simp: tmp_candidate_def tmp_root_def default_tf_model_dir_def Cons_eq_append_conv)
  qed
  show "uri @ [default_tf_model_dir] \<noteq> temporary_directory s"
    using temporary_directory_disjoint(2) [OF nu] .
qed

lemma save_fresh:
  fixes fails :: "nat \<Rightarrow> bool" and m :: tf_model
  assumes nu: "\<not> under tmp_root uri"
    and fresh: "read_file s (uri @ [default_tf_model_dir, ''config.json'']) = None"
      "read_file s (uri @ [default_tf_model_dir, ''tf_model.h5'']) = None"
  defines "tmp \<equiv> temporary_directory s"
  defines "s2 \<equiv> save_pretrained m tmp s"
  defines "c1 \<equiv> write_file (uri @ [default_tf_model_dir, ''config.json''])
                 (ConfigJson [drop 2 (tm_class m)] (tm_config m)) s2"
  shows "save fails uri m s = Some
     (if fails 0 then (Inl (StoreError (IOFailure (uri @ [default_tf_model_dir, ''config.json'']))), remove_tree tmp s2)
      else if fails 1 then (Inl (StoreError (IOFailure (uri @ [default_tf_model_dir, ''tf_model.h5'']))), remove_tree tmp c1)
      else (Inr (), remove_tree tmp (write_file (uri @ [default_tf_model_dir, ''tf_model.h5''])
                                       (TfWeights (tm_layers m)) c1)))"
proof -
  have fr: "\<And>p. p \<in> fst ` set (st_files s) \<Longrightarrow> \<not> under tmp p"
    using temporary_directory_fresh tmp_def by fastforce
  have ld: "listdir s2 tmp = [''config.json'', ''tf_model.h5'']"
    unfolding s2_def by (rule listdir_save_pretrained [OF fr])
  have nd2: "\<not> is_dir s2 (tmp @ [n])" for n
    unfolding s2_def by (rule save_pretrained_flat [OF fr])
  have nt: "\<not> under (tmp @ [n]) (uri @ [default_tf_model_dir, x])" for n x
    using temporary_directory_disjoint(1) [OF nu] under_snoc tmp_def by blast
  have nd1: "\<not> is_dir c1 (tmp @ [n])" for n
    using nd2 nt by (simp add: c1_def is_dir_write)
  have ne: "uri @ [default_tf_model_dir, x] \<noteq> tmp @ [y]" for x y
    using tmp_candidate_disjoint(3) [OF nu] temporary_directory_candidate tmp_def by metis
  have ne0: "uri @ [default_tf_model_dir] \<noteq> tmp"
    using temporary_directory_disjoint(2) [OF nu] tmp_def by simp
  have r1: "read_file s2 (tmp @ [''config.json'']) = Some (ConfigJson [drop 2 (tm_class m)] (tm_config m))"
    by (simp add: s2_def save_pretrained_def)
  have r2: "read_file c1 (tmp @ [''tf_model.h5'']) = Some (TfWeights (tm_layers m))"
    using ne ne0 by (simp add: c1_def s2_def save_pretrained_def)
  have d1: "read_file s2 (uri @ [default_tf_model_dir, ''config.json'']) = None"
    using fresh ne ne0 by (simp add: s2_def save_pretrained_def)
  have d2: "read_file c1 (uri @ [default_tf_model_dir, ''tf_model.h5'']) = None"
    using fresh ne ne0 by (simp add: c1_def s2_def save_pretrained_def)
  show ?thesis
    by (simp add: save_def Let_def tmp_def [symmetric] s2_def [symmetric] copy_dir_def ld
        copy_tree_file [OF nd2] r1 d1 c1_def [symmetric] copy_tree_file [OF nd1] r2 d2)
qed

lemma save_existing:
  assumes nu: "\<not> under tmp_root uri"
    and ex: "read_file s (uri @ [default_tf_model_dir, ''config.json'']) \<noteq> None"
  shows "save fails uri m s = Some
     (Inl (StoreError (FileExistsError (uri @ [default_tf_model_dir, ''config.json'']))),
      remove_tree (temporary_directory s) (save_pretrained m (temporary_directory s) s))"
proof -
  have fr: "\<And>p. p \<in> fst ` set (st_files s) \<Longrightarrow> \<not> under (temporary_directory s) p"
    using temporary_directory_fresh by fastforce
  have ld: "listdir (save_pretrained m (temporary_directory s) s) (temporary_directory s)
      = [''config.json'', ''tf_model.h5'']"
    by (rule listdir_save_pretrained [OF fr])
  have nd: "\<not> is_dir (save_pretrained m (temporary_directory s) s) (temporary_directory s @ [n])" for n
    by (rule save_pretrained_flat [OF fr])
  obtain c where c: "read_file s (uri @ [default_tf_model_dir, ''config.json'']) = Some c"
    using ex by blast
  have "read_file (save_pretrained m (temporary_directory s) s) (uri @ [default_tf_model_dir, ''config.json''])
      = Some c"
    using c by (simp add: save_pretrained_def temporary_directory_disjoint [OF nu])
  then show ?thesis
    by (simp add: save_def copy_dir_def ld Let_def copy_tree_file [OF nd])
qed

lemma sum_list_partition:
  "sum_list (map f xs) = sum_list (map f (filter P xs)) + sum_list (map f (filter (\<lambda>x. \<not> P x) xs))"
  for f :: "'a \<Rightarrow> nat"
  by (induction xs) simp_all

text \<open>
  C12. On an artifact location outside the temporary area with no model written
  yet, and a store that does not fail, \<^verbatim>\<open>save\<close> succeeds and \<^verbatim>\<open>load\<close> then
  returns the model, its class renamed to \<^verbatim>\<open>TF\<close> followed by the class name
  without its first two characters (so exactly the model for a \<^verbatim>\<open>TF...\<close> class),
  provided \<^verbatim>\<open>transformers\<close> exports that class.
\<close>

theorem save_load_roundtrip:
  assumes nu: "\<not> under tmp_root uri"
    and fresh: "read_file s (uri @ [default_tf_model_dir, ''config.json'']) = None"
      "read_file s (uri @ [default_tf_model_dir, ''tf_model.h5'']) = None"
    and nf: "\<not> fails 0" "\<not> fails 1"
    and known: "transformers (''TF'' @ drop 2 (tm_class m))"
  shows "\<exists>s'. save fails uri m s = Some (Inr (), s')
       \<and> load transformers uri s' = Inr (m\<lparr>tm_class := ''TF'' @ drop 2 (tm_class m)\<rparr>)"
  using nf known
  by (simp add: save_fresh [OF nu fresh] temporary_directory_disjoint [OF nu] load_def auto_config_def
      from_pretrained_def model_architecture_def model_class_def Let_def)

theorem save_load_roundtrip_witness:
  "\<exists>s'. save (\<lambda>_. False) demo_uri demo_model \<lparr>st_files = []\<rparr> = Some (Inr (), s')
     \<and> load demo_transformers demo_uri s' = Inr demo_model"
  using save_load_roundtrip [of demo_uri "\<lparr>st_files = []\<rparr>" "\<lambda>_. False" demo_transformers demo_model]
  by (simp add: demo_uri_def demo_model_def demo_transformers_def under_def tmp_root_def read_file_def)

text \<open>
  C13. \<^verbatim>\<open>save\<close> is not atomic: if the store fails while copying the weights, the
  configuration is already in place at the artifact location, and a later \<^verbatim>\<open>load\<close>
  sees the partial artifact and fails on the missing weights file.
\<close>

theorem save_fault_partial:
  assumes nu: "\<not> under tmp_root uri"
    and fresh: "read_file s (uri @ [default_tf_model_dir, ''config.json'']) = None"
      "read_file s (uri @ [default_tf_model_dir, ''tf_model.h5'']) = None"
    and f: "\<not> fails 0" "fails 1"
    and known: "transformers (''TF'' @ drop 2 (tm_class m))"
  shows "\<exists>s'. save fails uri m s = Some (Inl (StoreError (IOFailure (uri @ [default_tf_model_dir, ''tf_model.h5'']))), s')
       \<and> read_file s' (uri @ [default_tf_model_dir, ''config.json'']) \<noteq> None
       \<and> load transformers uri s' = Inl (StoreError (OSError (uri @ [default_tf_model_dir, ''tf_model.h5''])))"
  using f known fresh
  by (simp add: save_fresh [OF nu fresh] temporary_directory_disjoint [OF nu] load_def auto_config_def
      from_pretrained_def model_architecture_def model_class_def Let_def,
      simp add: save_pretrained_def temporary_directory_disjoint [OF nu])

theorem save_fault_partial_witness:
  "\<exists>s'. save (\<lambda>k. k = 1) demo_uri demo_model \<lparr>st_files = []\<rparr>
     = Some (Inl (StoreError (IOFailure (demo_uri @ [default_tf_model_dir, ''tf_model.h5'']))), s')"
  using save_fault_partial [of demo_uri "\<lparr>st_files = []\<rparr>" "\<lambda>k. k = 1" demo_transformers demo_model]
  by (auto simp: demo_uri_def demo_model_def demo_transformers_def under_def tmp_root_def read_file_def)

text \<open>
  C14. Saving a second model to a location that already holds one fails with
  \<^verbatim>\<open>FileExistsError\<close> (\<^verbatim>\<open>copy_dir\<close> does not overwrite) and leaves the files
  of the first model as they were.
\<close>

theorem save_twice_rejected:
  assumes nu: "\<not> under tmp_root uri"
    and fresh: "read_file s (uri @ [default_tf_model_dir, ''config.json'']) = None"
      "read_file s (uri @ [default_tf_model_dir, ''tf_model.h5'']) = None"
    and nf: "\<not> fails 0" "\<not> fails 1"
  shows "\<exists>s1 s2. save fails uri m s = Some (Inr (), s1)
       \<and> save fails' uri m' s1 = Some (Inl (StoreError (FileExistsError (uri @ [default_tf_model_dir, ''config.json'']))), s2)
       \<and> (\<forall>x. read_file s2 (uri @ [default_tf_model_dir, x]) = read_file s1 (uri @ [default_tf_model_dir, x]))"
proof -
  obtain s1 where s1: "save fails uri m s = Some (Inr (), s1)"
    using nf by (simp add: save_fresh [OF nu fresh])
  moreover have "read_file s1 (uri @ [default_tf_model_dir, ''config.json'']) \<noteq> None"
    using s1 nf by (auto simp: save_fresh [OF nu fresh] temporary_directory_disjoint [OF nu])
  ultimately show ?thesis
    by (simp add: save_existing [OF nu] save_pretrained_def temporary_directory_disjoint [OF nu])
qed

theorem save_twice_rejected_witness:
  "\<exists>s1 s2. save (\<lambda>_. False) demo_uri demo_model \<lparr>st_files = []\<rparr> = Some (Inr (), s1)
     \<and> save (\<lambda>_. False) demo_uri demo_model s1
         = Some (Inl (StoreError (FileExistsError (demo_uri @ [default_tf_model_dir, ''config.json'']))), s2)"
  using save_twice_rejected [of demo_uri "\<lparr>st_files = []\<rparr>" "\<lambda>_. False" demo_model "\<lambda>_. False" demo_model]
  by (auto simp: demo_uri_def under_def tmp_root_def read_file_def)

text \<open>
  C15. \<^verbatim>\<open>load\<close> only returns a model when the artifact location holds a
  configuration with at least one architecture and a weights file: the model's class
  is \<^verbatim>\<open>TF\<close> followed by the first architecture, a class \<^verbatim>\<open>transformers\<close>
  exports, and its layers are those of the weights file.
\<close>

theorem load_requires_markers:
  assumes "load transformers uri s = Inr m'"
  shows "(\<exists>a archs c. read_file s (uri @ [default_tf_model_dir, ''config.json'']) = Some (ConfigJson (a # archs) c)
            \<and> tm_class m' = ''TF'' @ a \<and> transformers (tm_class m'))
       \<and> read_file s (uri @ [default_tf_model_dir, ''tf_model.h5'']) = Some (TfWeights (tm_layers m'))"
  using assms
  by (auto simp: load_def auto_config_def from_pretrained_def model_architecture_def model_class_def Let_def
      split: option.splits stored.splits list.splits if_splits sum.splits prod.splits)

theorem load_requires_markers_witness:
  "(\<exists>a archs c. read_file demo_store (demo_uri @ [default_tf_model_dir, ''config.json'']) = Some (ConfigJson (a # archs) c)
      \<and> tm_class demo_model = ''TF'' @ a \<and> demo_transformers (tm_class demo_model))
   \<and> read_file demo_store (demo_uri @ [default_tf_model_dir, ''tf_model.h5'']) = Some (TfWeights (tm_layers demo_model))"
  using load_requires_markers [of demo_transformers demo_uri demo_store demo_model]
  by (simp add: load_def auto_config_def from_pretrained_def model_architecture_def model_class_def
      read_file_def demo_store_def demo_uri_def default_tf_model_dir_def demo_model_def demo_transformers_def)

text \<open>
  C16. \<^verbatim>\<open>extract_metadata\<close> reports the number of layers, the number of
  parameters, and the number of trainable parameters, which is at most the number of
  parameters; the difference is the parameters of the frozen layers.
\<close>

theorem extract_metadata_bounds:
  "map fst (extract_metadata m) = [''num_layers'', ''num_params'', ''num_trainable_params'']
   \<and> the (map_of (extract_metadata m) ''num_layers'') = length (tm_layers m)
   \<and> the (map_of (extract_metadata m) ''num_params'')
       = the (map_of (extract_metadata m) ''num_trainable_params'')
         + sum_list (map ly_params (filter (\<lambda>l. \<not> ly_trainable l) (tm_layers m)))
   \<and> the (map_of (extract_metadata m) ''num_trainable_params'') \<le> the (map_of (extract_metadata m) ''num_params'')"
  using sum_list_partition [of ly_params "tm_layers m" ly_trainable]
  by (simp add: extract_metadata_def num_parameters_def)

lemma find_takeWhile:
  "x \<in> set xs \<Longrightarrow> P x \<Longrightarrow> (\<forall>y \<in> set (takeWhile (\<lambda>y. y \<noteq> x) xs). \<not> P y) \<Longrightarrow> find P xs = Some x"
proof (induction xs)
  case (Cons y ys)
  then show ?case by (cases "y = x") auto
qed simp

lemma map_of_snoc:
  "map_of (xs @ [(k, v)]) t = (case map_of xs t of None \<Rightarrow> if t = k then Some v else None | Some m \<Rightarrow> Some m)"
  by (simp add: map_add_def split: option.splits)

lemma map_of_register_materializer:
  "map_of (register_materializer mc reg) t
     = (case map_of reg t of None \<Rightarrow> (if t \<in> set (mc_associated_types mc) then Some mc else None) | Some m \<Rightarrow> Some m)"
proof -
  have "map_of (fold (\<lambda>t r. if t \<in> fst ` set r then r else r @ [(t, mc)]) ts reg) t
      = (case map_of reg t of None \<Rightarrow> (if t \<in> set ts then Some mc else None) | Some m \<Rightarrow> Some m)" for ts
  proof (induction ts arbitrary: reg)
    case (Cons t' ts)
    show ?case
    proof (cases "t' \<in> fst ` set reg")
      case True
      then have "map_of reg t' \<noteq> None" by (simp add: map_of_eq_None_iff)
      then show ?thesis using True Cons.IH by (auto split: option.splits)
    next
      case False
      then show ?thesis using Cons.IH by (auto simp: map_of_snoc split: option.splits)
    qed
  qed (simp split: option.splits)
  then show ?thesis by (simp add: register_materializer_def)
qed

text \<open>
  C22. Declaring \<^verbatim>\<open>HFTFModelMaterializer\<close> registers it for
  \<^verbatim>\<open>TFPreTrainedModel\<close> when that type has no materializer yet; from then on a model
  whose class derives from \<^verbatim>\<open>TFPreTrainedModel\<close>, with no registered class before it in
  its method resolution order, is handled by this materializer and stored as a model
  artifact.  A type that already had a materializer keeps it.
\<close>

theorem tf_model_dispatch:
  assumes "map_of reg ''TFPreTrainedModel'' = None"
    and "''TFPreTrainedModel'' \<in> set (mro cls)"
    and "\<forall>c \<in> set (takeWhile (\<lambda>c. c \<noteq> ''TFPreTrainedModel'') (mro cls)). map_of reg c = None"
  shows "materializer_for mro (register_materializer hf_tf_materializer reg) cls = Some hf_tf_materializer
       \<and> mc_artifact_type hf_tf_materializer = ModelArtifact
       \<and> (\<forall>t m. map_of reg t = Some m \<longrightarrow> map_of (register_materializer hf_tf_materializer reg) t = Some m)"
proof -
  let ?reg' = "register_materializer hf_tf_materializer reg"
  have dom: "c \<in> fst ` set ?reg' \<longleftrightarrow> map_of ?reg' c \<noteq> None" for c
    by (simp add: map_of_eq_None_iff)
  have hit: "map_of ?reg' ''TFPreTrainedModel'' = Some hf_tf_materializer"
    using assms(1) by (simp add: map_of_register_materializer hf_tf_materializer_def)
  have miss: "map_of ?reg' c = None" if "c \<in> set (takeWhile (\<lambda>c. c \<noteq> ''TFPreTrainedModel'') (mro cls))" for c
  proof -
    have "c \<noteq> ''TFPreTrainedModel''" using set_takeWhileD [OF that] by simp
    then show ?thesis
      using assms(3) that by (simp add: map_of_register_materializer hf_tf_materializer_def)
  qed
  have "find (\<lambda>c. c \<in> fst ` set ?reg') (mro cls) = Some ''TFPreTrainedModel''"
    using find_takeWhile [OF assms(2)] miss hit dom by auto
  then show ?thesis
    using assms(1) by (simp add: materializer_for_def hit hf_tf_materializer_def map_of_register_materializer)
qed

theorem tf_model_dispatch_witness:
  "materializer_for demo_mro (register_materializer hf_tf_materializer demo_materializers) ''TFBertModel''
     = Some hf_tf_materializer
   \<and> mc_artifact_type hf_tf_materializer = ModelArtifact
   \<and> map_of (register_materializer hf_tf_materializer demo_materializers) ''dict'' = map_of demo_materializers ''dict''"
  using tf_model_dispatch [of demo_materializers demo_mro "''TFBertModel''"]
  by (simp add: demo_materializers_def demo_mro_def)

text \<open>
  C21. For an artifact location that is not inside the temporary area \<^verbatim>\<open>/tmp\<close>
  (the side condition of the theorem), \<^verbatim>\<open>save\<close> always returns, whatever the store
  already holds at the artifact location and wherever the store fails: the recursive
  \<^verbatim>\<open>io_utils.copy_dir\<close>
  from the fresh temporary directory into \<^verbatim>\<open>uri/hf_tf_model\<close> terminates, because
  the two directories are disjoint.  Whether it succeeds or fails, the only files it has
  changed are below \<^verbatim>\<open>uri/hf_tf_model\<close>: the temporary directory is gone again.
\<close>

theorem save_terminates:
  assumes nu: "\<not> under tmp_root uri"
  shows "\<exists>r s'. save fails uri m s = Some (r, s')
           \<and> (\<forall>p. \<not> under (uri @ [default_tf_model_dir]) p \<longrightarrow> read_file s' p = read_file s p)"
proof -
  let ?tmp = "temporary_directory s" and ?dst = "uri @ [default_tf_model_dir]"
  let ?s2 = "save_pretrained m ?tmp s"
  obtain r where r: "copy_dir fails ?tmp ?dst ?s2 = Some r"
    and fr: "\<forall>p. \<not> under ?dst p \<longrightarrow> read_file (case_sum snd id r) p = read_file ?s2 p"
    using copy_dir_returns [OF temporary_directory_apart(1,2) [OF nu] temporary_directory_apart(3) [OF nu, symmetric]]
    by blast
  have tmp_empty: "read_file s p = None" if "under ?tmp p" for p
    using temporary_directory_fresh [of _ _ s] that by (auto simp: read_file_def map_of_eq_None_iff)
  have s2: "read_file ?s2 p = read_file s p" if "\<not> under ?tmp p" for p
    using that by (auto simp: save_pretrained_def)
  define s' where "s' = remove_tree ?tmp (case_sum snd id r)"
  have "read_file s' p = read_file s p" if "\<not> under ?dst p" for p
    using fr that tmp_empty s2 by (auto simp: s'_def)
  moreover have "save fails uri m s = Some (case r of Inl (e, _) \<Rightarrow> Inl (StoreError e) | Inr _ \<Rightarrow> Inr (), s')"
    using r by (cases r) (auto simp: save_def Let_def s'_def)
  ultimately show ?thesis by blast
qed

theorem save_terminates_witness:
  "\<exists>r s'. save (\<lambda>k. k = 1) demo_uri demo_model demo_store = Some (r, s')
     \<and> (\<forall>p. \<not> under (demo_uri @ [default_tf_model_dir]) p \<longrightarrow> read_file s' p = read_file demo_store p)"
  using save_terminates [of demo_uri "\<lambda>k. k = 1" demo_model demo_store]
  by (simp add: demo_uri_def under_def tmp_root_def)

end
