(* ===== verification/Trainer.thy ===== *)
theory Trainer
  imports Complex_Main Prelude
begin

text \<open>
  The W\&B tracking example's trainer step,
  \<^verbatim>\<open>src/examples/wandb_tracking/steps/trainer/trainer_step.py\<close>.  Importing the
  module checks that the active stack has a W\&B experiment tracker (lines 22--30)
  and registers the step \<^verbatim>\<open>tf_trainer\<close> with that tracker (line 40).  The step
  builds a Keras \<^verbatim>\<open>Sequential\<close> model (a \<^verbatim>\<open>Flatten\<close> of 28 by 28 images and a
  \<^verbatim>\<open>Dense\<close> layer of 10 logits), compiles it with Adam at the parameters' learning
  rate, and fits it for the parameters' number of epochs with a \<^verbatim>\<open>WandbCallback\<close>
  that evaluates 16 validation steps after every epoch.  Keras itself is not under
  \<^verbatim>\<open>src/\<close>: a layer's size and parameter count follow Keras' \<^verbatim>\<open>Flatten\<close> and
  \<^verbatim>\<open>Dense\<close>, one epoch of training and one evaluation are oracles over the weights
  (the training and validation arrays are inside them), and \<^verbatim>\<open>fit\<close> runs
  \<^verbatim>\<open>range(0, epochs)\<close>, so no epoch for a negative count.
\<close>

section \<open>The module guard\<close>

datatype tracker_flavor = WandbTracker | OtherTracker string

record experiment_tracker =
  et_name :: string
  et_flavor :: tracker_flavor

datatype module_error = RuntimeError string

text \<open>Lines 22--30: \<^verbatim>\<open>Client().active_stack.experiment_tracker\<close> must be a
  \<^verbatim>\<open>WandbExperimentTracker\<close>.\<close>

definition tracker_guard :: "experiment_tracker option \<Rightarrow> module_error + experiment_tracker" where
  "tracker_guard experiment_tracker =
     (case experiment_tracker of
        Some t \<Rightarrow> if et_flavor t = WandbTracker then Inr t
                  else Inl (RuntimeError ''Your active stack needs to contain a WandB experiment tracker for this example to work.'')
      | None \<Rightarrow> Inl (RuntimeError ''Your active stack needs to contain a WandB experiment tracker for this example to work.''))"

record step_registration =
  sr_name :: string
  sr_experiment_tracker :: string

text \<open>Importing the module: the guard, then \<^verbatim>\<open>@step(experiment_tracker=experiment_tracker.name)\<close>.\<close>

definition import_trainer_module :: "experiment_tracker option \<Rightarrow> module_error + step_registration" where
  "import_trainer_module experiment_tracker =
     (case tracker_guard experiment_tracker of
        Inl e \<Rightarrow> Inl e
      | Inr t \<Rightarrow> Inr \<lparr>sr_name = ''tf_trainer'', sr_experiment_tracker = et_name t\<rparr>)"

section \<open>Parameters\<close>

record trainer_parameters =
  epochs :: int
  lr :: rat

definition default_trainer_parameters :: trainer_parameters where
  "default_trainer_parameters = \<lparr>epochs = 1, lr = 1 / 1000\<rparr>"

section \<open>Keras models\<close>

datatype keras_layer = Flatten "nat list" | Dense nat

datatype optimizer = Adam rat

datatype loss = SparseCategoricalCrossentropy bool

record 'w keras_model =
  km_layers :: "keras_layer list"
  km_optimizer :: "optimizer option"
  km_loss :: "loss option"
  km_metrics :: "string list"
  km_weights :: 'w

text \<open>A layer's output size given its input size, and its number of weights
  (\<^verbatim>\<open>Dense\<close>: a kernel and a bias).\<close>

fun layer_output :: "nat \<Rightarrow> keras_layer \<Rightarrow> nat" where
  "layer_output n (Flatten shape) = prod_list shape"
| "layer_output n (Dense units) = units"

fun layer_params :: "nat \<Rightarrow> keras_layer \<Rightarrow> nat" where
  "layer_params n (Flatten shape) = 0"
| "layer_params n (Dense units) = n * units + units"

fun count_params_from :: "nat \<Rightarrow> keras_layer list \<Rightarrow> nat" where
  "count_params_from n [] = 0"
| "count_params_from n (l # ls) = layer_params n l + count_params_from (layer_output n l) ls"

fun output_size_from :: "nat \<Rightarrow> keras_layer list \<Rightarrow> nat" where
  "output_size_from n [] = n"
| "output_size_from n (l # ls) = output_size_from (layer_output n l) ls"

definition count_params :: "'w keras_model \<Rightarrow> nat" where
  "count_params m = count_params_from 0 (km_layers m)"

definition output_size :: "'w keras_model \<Rightarrow> nat" where
  "output_size m = output_size_from 0 (km_layers m)"

definition sequential :: "keras_layer list \<Rightarrow> 'w \<Rightarrow> 'w keras_model" where
  "sequential ls w0 = \<lparr>km_layers = ls, km_optimizer = None, km_loss = None, km_metrics = [], km_weights = w0\<rparr>"

definition compile :: "optimizer \<Rightarrow> loss \<Rightarrow> string list \<Rightarrow> 'w keras_model \<Rightarrow> 'w keras_model" where
  "compile opt l ms m = m\<lparr>km_optimizer := Some opt, km_loss := Some l, km_metrics := ms\<rparr>"

text \<open>\<^verbatim>\<open>model.fit\<close>: \<open>n\<close> epochs from epoch \<open>k\<close>; after each, the callback logs the epoch
  and the evaluation of the new weights on the given number of validation steps.\<close>

fun fit_epochs ::
  "('w \<Rightarrow> 'w) \<Rightarrow> (nat \<Rightarrow> 'w \<Rightarrow> 'v) \<Rightarrow> nat \<Rightarrow> nat \<Rightarrow> nat \<Rightarrow> 'w \<Rightarrow> 'w \<times> (nat \<times> 'v) list" where
  "fit_epochs train evaluate steps k 0 w = (w, [])"
| "fit_epochs train evaluate steps k (Suc n) w =
     (let w' = train w in
      case fit_epochs train evaluate steps (Suc k) n w' of
        (w'', logs) \<Rightarrow> (w'', (k, evaluate steps w') # logs))"

section \<open>The step\<close>

text \<open>\<^verbatim>\<open>tf_trainer\<close> (lines 40--78).\<close>

definition tf_trainer ::
  "trainer_parameters \<Rightarrow> ('w \<Rightarrow> 'w) \<Rightarrow> (nat \<Rightarrow> 'w \<Rightarrow> 'v) \<Rightarrow> 'w \<Rightarrow> 'w keras_model \<times> (nat \<times> 'v) list" where
  "tf_trainer params train evaluate w0 =
     (let model = sequential [Flatten [28, 28], Dense 10] w0;
          model = compile (Adam (lr params)) (SparseCategoricalCrossentropy True) [''accuracy''] model
      in case fit_epochs train evaluate 16 0 (nat (epochs params)) (km_weights model) of
           (w, logs) \<Rightarrow> (model\<lparr>km_weights := w\<rparr>, logs))"

section \<open>Sample data\<close>

text \<open>A stack component of the W\&B flavor.\<close>

definition demo_tracker :: experiment_tracker where
  "demo_tracker = \<lparr>et_name = ''wandb_tracker'', et_flavor = WandbTracker\<rparr>"

section \<open>Lemmas\<close>

lemma fit_epochs_funpow:
  "fit_epochs train evaluate steps k n w =
     ((train ^^ n) w, map (\<lambda>i. (k + i, evaluate steps ((train ^^ Suc i) w))) [0..<n])"
proof (induction n arbitrary: k w)
  case 0
  then show ?case by simp
next
  case (Suc n)
  show ?case
    by (simp add: Suc.IH Let_def upt_conv_Cons map_Suc_upt [symmetric] funpow_Suc_right
        del: funpow.simps upt_Suc)
qed

text \<open>
  C17. A zero or negative epoch count is not rejected: the step returns the
  compiled, untrained model and logs nothing.
\<close>

theorem tf_trainer_nonpositive_epochs:
  assumes "epochs params \<le> 0"
  shows "tf_trainer params train evaluate w0 =
           (compile (Adam (lr params)) (SparseCategoricalCrossentropy True) [''accuracy'']
              (sequential [Flatten [28, 28], Dense 10] w0), [])"
  using assms by (simp add: tf_trainer_def fit_epochs_funpow sequential_def compile_def Let_def)

theorem tf_trainer_nonpositive_epochs_witness:
  "tf_trainer \<lparr>epochs = -3, lr = 1 / 100\<rparr> Suc (\<lambda>_ w. w) (0::nat) =
     (compile (Adam (1 / 100)) (SparseCategoricalCrossentropy True) [''accuracy'']
        (sequential [Flatten [28, 28], Dense 10] 0), [])"
  using tf_trainer_nonpositive_epochs [of "\<lparr>epochs = -3, lr = 1 / 100\<rparr>" Suc "\<lambda>_ w. w" "0::nat"]
  by simp

text \<open>
  C18. Importing the trainer module succeeds exactly when the active stack has a
  W\&B experiment tracker, and then registers the step with that tracker's name;
  otherwise it raises \<^verbatim>\<open>RuntimeError\<close>.
\<close>

theorem trainer_import_guard:
  "(\<forall>r. import_trainer_module t = Inr r \<longrightarrow>
        (\<exists>tr. t = Some tr \<and> et_flavor tr = WandbTracker \<and> sr_experiment_tracker r = et_name tr))
   \<and> (\<forall>tr. t = Some tr \<and> et_flavor tr = WandbTracker \<longrightarrow> (\<exists>r. import_trainer_module t = Inr r))
   \<and> (\<forall>e. import_trainer_module t = Inl e \<longrightarrow> (\<exists>msg. e = RuntimeError msg))"
  by (auto simp: import_trainer_module_def tracker_guard_def split: option.splits if_splits)

theorem trainer_import_guard_witness:
  "\<exists>r. import_trainer_module (Some demo_tracker) = Inr r \<and> sr_experiment_tracker r = ''wandb_tracker''"
  using trainer_import_guard [of "Some demo_tracker"] by (auto simp: demo_tracker_def)

end
