(* ===== verification/Spec2Isabelle.thy ===== *)
theory Spec2Isabelle
  imports Runs Listing Stacks Materializer Trainer
begin

text \<open>
  \<^bold>\<open>A verification model of ZenML's pipeline command line, its Huggingface TensorFlow
  materializer and the W\&B trainer example.\<close>

  \<^emph>\<open>The program.\<close>  \<^verbatim>\<open>src/zenml/cli/pipeline.py\<close> defines the \<^verbatim>\<open>zenml pipeline\<close>
  command group: \<^verbatim>\<open>register\<close>, \<^verbatim>\<open>build\<close>, \<^verbatim>\<open>run\<close>, \<^verbatim>\<open>list\<close>, \<^verbatim>\<open>delete\<close> and the
  subgroups \<^verbatim>\<open>schedule\<close>, \<^verbatim>\<open>runs\<close> and \<^verbatim>\<open>builds\<close> with their \<^verbatim>\<open>list\<close> and
  \<^verbatim>\<open>delete\<close>.  Each handler prints the active configuration, resolves its
  \<^verbatim>\<open>name_or_id\<close> argument through \<^verbatim>\<open>zenml.client.Client\<close>, asks for confirmation
  before deleting unless \<^verbatim>\<open>--yes\<close> is given, calls the client, and reports the
  result or the client's \<^verbatim>\<open>KeyError\<close>.  The client, its store and
  \<^verbatim>\<open>zenml.cli.utils\<close> are not among the repository's files; they are modelled after
  the specification: the identifier resolver (its section 4.1), the entity registry
  (4.2), the cascade of a pipeline deletion (4.3) and the build document (4.4).
  \<^verbatim>\<open>huggingface_tf_model_materializer.py\<close> saves a TensorFlow Huggingface model into
  an artifact location through a temporary directory and \<^verbatim>\<open>io_utils.copy_dir\<close>, loads
  it back, and extracts its size.  \<^verbatim>\<open>examples/wandb_tracking/steps/trainer/trainer_step.py\<close>
  refuses to be imported without a W\&B experiment tracker and trains a small Keras
  classifier.  The three files do not call each other; the commands interact through
  the registry and the files of the world.

  \<^emph>\<open>The theories.\<close>
  \<^item> \<open>Prelude\<close>: the client's errors (\<open>client_error\<close>, with \<open>is_key_error\<close> telling the
    \<^verbatim>\<open>KeyError\<close>s the commands catch), entity identifiers, positional digits, and
    generic lemmas on lists, filters, \<open>find\<close> and \<open>fold max\<close>.
  \<^item> \<open>Ids\<close>: \<^verbatim>\<open>uuid_utils.is_valid_uuid\<close> as \<open>parse_uuid\<close>/\<open>is_valid_uuid\<close>, the printed
    identifier \<open>uuid_str\<close> (the low 128 bits as 32 hex digits in the 36-character
    layout, so identifiers wrap around at \<open>2 ^ 128\<close>), and version literals; the round
    trips \<open>parse_uuid_uuid_str\<close>, \<open>parse_uuid_canonical\<close> and \<open>parse_version_show\<close>.
  \<^item> \<open>Registry\<close>: the records \<open>pipeline\<close>, \<open>build\<close>, \<open>run\<close>, \<open>schedule\<close>, \<open>stack\<close>
    and the store \<open>registry\<close> (lists in insertion order and an identifier counter);
    \<open>create_pipeline\<close> with version assignment \<open>next_version\<close>, \<open>create_build\<close>,
    \<open>create_run\<close>, \<open>create_schedule\<close>, monotonic \<open>set_run_status\<close>, paginated
    \<open>client_list_*\<close>; the invariant \<open>wf_registry\<close> (distinct identifiers below the
    counter, unique \<open>(name, version)\<close>, positive versions, unique active schedule
    names, the references of builds, runs and schedules to existing pipelines and
    stacks, unlisted runs excepted for their pipeline; a run's build reference is not
    covered, since a build is hard-deleted under its runs) and its preservation by
    every operation.
  \<^item> \<open>Resolver\<close>: \<open>resolve\<close> (UUID, then name with explicit or highest version, then
    identifier prefix), \<open>get_pipeline\<close>, \<open>get_stack\<close>; lemmas that a UUID is
    resolved exactly and never ambiguously, that a name alone gives the highest
    version and a name with a version gives that version.
  \<^item> \<open>Cascade\<close>: store mutations, \<open>exec_steps\<close> (step-by-step execution that a fault
    oracle can interrupt), \<open>transact\<close> (all-or-nothing), the deletion plan
    \<open>cascade_plan\<close> and its contract \<open>cascade_abs\<close>; the refinement
    \<open>cascade_refines\<close>, fault atomicity \<open>transact_fault\<close>, invariant preservation of
    the client's four deletions.
  \<^item> \<open>BuildDoc\<close>: the build document written by \<^verbatim>\<open>build -o\<close> and read by
    \<^verbatim>\<open>run -b\<close>, with its round trip.
  \<^item> \<open>Cli\<close>: the world (\<open>world\<close>), the helpers of \<^verbatim>\<open>cli_utils\<close>
    (\<open>print_active_config\<close>, \<open>cli_warning\<close>, \<open>cli_declare\<close>, \<open>cli_error\<close>,
    \<open>confirmation\<close>, \<open>with_stack\<close> for \<^verbatim>\<open>temporary_active_stack\<close>), the pipeline's
    \<open>pipeline_build\<close> and \<open>pipeline_run\<close>, one definition per handler
    (\<open>register_pipeline\<close>, \<open>build_pipeline\<close>, \<open>run_pipeline\<close>, \<open>list_pipelines\<close>,
    \<open>delete_pipeline\<close>, \<open>list_schedules\<close>, \<open>delete_schedule\<close>,
    \<open>list_pipeline_runs\<close>, \<open>delete_pipeline_run\<close>, \<open>list_pipeline_builds\<close>,
    \<open>delete_pipeline_build\<close>), the dispatcher \<open>exec_command\<close> and sessions
    \<open>exec_session\<close>; the properties of single commands (C1, C3--C11, C20).
  \<^item> \<open>Runs\<close>: builds and runs across commands, over the handler-level lemmas
    \<open>run_pipeline_chosen\<close>, \<open>build_pipeline_created\<close>, \<open>pipeline_run_recorded\<close> and
    \<open>run_from_written_doc\<close> (the second half of C23):
    \<^verbatim>\<open>build -o\<close> followed by \<^verbatim>\<open>run -b\<close> on the written file registers a second build
    (C23), an invalid \<^verbatim>\<open>--build\<close> argument (C24), a run on an existing build's
    identifier (C25), \<^verbatim>\<open>build\<close> when no image is needed (C26), and the hard deletion
    of a run (C27).
  \<^item> \<open>Listing\<close>: \<^verbatim>\<open>pipeline list\<close> across pages (\<open>paginate\<close> is the store's
    \<open>Page\<close>): the session that lists pages \<open>1\<close> to \<open>total_pages\<close> succeeds on every
    page, leaves the registry alone and prints, through \<open>model_table\<close>, each matching
    pipeline exactly once and in the store's order (C28); a page past the last is an
    uncaught \<^verbatim>\<open>ValueError\<close> of both \<^verbatim>\<open>pipeline list\<close> and \<^verbatim>\<open>pipeline runs list\<close>
    (C29).
  \<^item> \<open>Stacks\<close>: the \<^verbatim>\<open>--stack\<close> option of \<^verbatim>\<open>build\<close> and \<^verbatim>\<open>run\<close>, followed through
    \<open>with_stack\<close>, \<open>run_build\<close> and \<open>pipeline_run\<close> on every branch: the builds and runs
    a command registers are on the selected stack and the active stack is restored
    afterwards, whatever the outcome (C30).
  \<^item> \<open>FileStore\<close>: the artifact store (files in write order, directories as path
    prefixes, \<open>is_dir\<close>, \<open>listdir\<close>, \<open>remove_tree\<close>), \<^verbatim>\<open>tempfile.TemporaryDirectory\<close>
    as \<open>temporary_directory\<close>, and \<^verbatim>\<open>io_utils.copy_dir\<close> as the recursive
    \<open>copy_tree\<close>; the lemmas that a copy writes only below its destination
    (\<open>copy_tree_frame\<close>, by the partial-correctness induction of the partial function)
    and returns whenever source and destination are disjoint (\<open>copy_tree_terminates\<close>,
    by induction on the depth left below the source).
  \<^item> \<open>Materializer\<close>: the class header (\<open>hf_tf_materializer\<close>) and the registry that
    dispatches on it (\<open>register_materializer\<close>, \<open>materializer_for\<close>), the calls into
    \<^verbatim>\<open>transformers\<close>, and the materializer's \<open>load\<close> (with its steps
    \<open>model_architecture\<close> and \<open>model_class\<close>), \<open>save\<close> and \<open>extract_metadata\<close>; the
    round trip, the non-atomic save, the refusal to overwrite, the marker files \<open>load\<close>
    needs, the metadata bounds (C12--C16), the termination of \<open>save\<close> and its confinement
    to the artifact location (C21), and the dispatch of TensorFlow models (C22).
  \<^item> \<open>Trainer\<close>: the import guard, \<^verbatim>\<open>TrainerParameters\<close>, Keras layers and \<open>fit\<close>,
    and the step \<open>tf_trainer\<close>, with the lemma \<open>fit_epochs_funpow\<close> that gives the
    training loop in closed form; the acceptance of non-positive epoch counts (C17) and
    the import guard (C18).
  \<^item> This theory: properties of sessions of commands (C2, C19).

  \<^emph>\<open>Correspondence.\<close>  A handler's outcome is \<open>Success\<close> when the Python function
  returns, \<open>CliError\<close> when it calls \<^verbatim>\<open>cli_utils.error\<close>, and \<open>Uncaught e\<close> when a
  client exception escapes (a traceback); \<open>exit_code\<close> maps them to 0 and 1.  The
  environment's answers are fields of the world: \<open>has_root\<close> is
  \<^verbatim>\<open>Client().root\<close>, \<open>confirm_answer\<close> the user's answer to \<^verbatim>\<open>click.confirm\<close>,
  \<open>files\<close> the files \<^verbatim>\<open>os.path.exists\<close> sees, \<open>sources\<close> what
  \<^verbatim>\<open>source_utils.load_source_path\<close> returns, \<open>builder\<close> the images a build needs,
  \<open>run_outcome\<close> the executor's final status, \<open>faults\<close> the steps at which the store
  fails.  The materializer's exceptions are the values of \<open>mat_error\<close>, the store's
  those of \<open>fs_error\<close>; store failures come from a fault oracle indexed by the number
  of files copied so far.  The trainer's data
  enter only through the training and evaluation oracles.

  \<^emph>\<open>Bounds and fuel.\<close>  No fuel is used.  Every definition but one is total and
  structurally recursive (the epoch loop on the epoch count, the cascade on its plan).
  The exception is \<^verbatim>\<open>io_utils.copy_dir\<close>, whose recursion the source does not bound:
  a subdirectory is listed when its own call starts, and the guard skips only a
  destination directly below the source.  It is the
  \<^theory_text>\<open>partial_function (option)\<close> \<open>copy_tree\<close>, \<open>None\<close> standing for a copy that does
  not return, and \<open>save\<close> is option-valued with it.  Termination is then a theorem:
  for disjoint directories the depth left below the source decreases at each
  recursive call and the source does not change (\<open>copy_tree_terminates\<close>), and
  \<open>save\<close> always copies between disjoint directories (C21).  The one search,
  \<open>temporary_directory\<close>, looks at \<open>length (st_files s) + 1\<close> candidates, which is
  enough: each file blocks at most one candidate (\<open>temporary_directory_fresh\<close>).

  \<^emph>\<open>Not modelled.\<close>  Printing details of \<^verbatim>\<open>cli_utils\<close> beyond the message
  sequence, the click option parsing (\<^verbatim>\<open>list_options\<close> is reduced to a name filter
  and the page arguments), the execution engine behind a run (only its final status),
  the \<^verbatim>\<open>urn:uuid:\<close> UUID spelling, time stamps (a run's name uses the identifier
  counter where ZenML uses the date), the YAML text of the build document (it is the
  ordered field list), the order of \<^verbatim>\<open>os.listdir\<close> (the model lists in the
  order of the first file written), and the numerics of Keras training (oracles).
  Every function and class of the three source files is a definition of the model;
  what is left of them is imports, the license header and the empty bodies of the
  click groups \<^verbatim>\<open>schedule\<close>, \<^verbatim>\<open>runs\<close> and \<^verbatim>\<open>builds\<close> (whose subcommands are
  constructors of \<open>command\<close>).  The parts marked partly modelled lie outside the
  repository's files: the YAML text is PyYAML's, the table layout is \<^verbatim>\<open>rich\<close>'s, and
  image building and step execution belong to the stack components the specification
  puts out of scope; none of them is observed by the commands beyond what the model
  keeps, so they stay abstract.
\<close>

section \<open>Sample data\<close>

text \<open>A world with an empty registry and one stack, an importable pipeline
  \<^verbatim>\<open>app.digits\<close>, and an image builder that always needs one image.\<close>

definition fresh_world :: world where
  "fresh_world =
     demo_world\<lparr>reg := \<lparr>pipelines = [], builds = [], runs = [], schedules = [],
                          stacks = [\<lparr>sk_id = 0, sk_name = ''default'', sk_is_local = False\<rparr>], next_id = 1\<rparr>,
                builder := (\<lambda>_ _ _. Some [(''orchestrator'', ''img'')])\<rparr>"

section \<open>Properties of sessions\<close>

text \<open>
  C2. Every session of commands preserves the registry's well-formedness: distinct
  identifiers below the counter, unique \<open>(name, version)\<close> pairs with positive versions,
  unique names among active schedules, every build referring to an existing stack and
  (if any) pipeline, every run to an existing stack and, unless it is unlisted, to an
  existing pipeline, and every schedule to an existing pipeline.  A run's reference
  to its build is not part of the invariant: \<^verbatim>\<open>builds delete\<close> is a hard delete
  that leaves the runs which used the build pointing to a removed record.
\<close>

theorem exec_session_wf:
  assumes "wf_registry (reg w)" and "exec_session cs w = (ocs, w')"
  shows "wf_registry (reg w')"
  using assms
proof (induction cs arbitrary: w ocs)
  case Nil
  then show ?case by simp
next
  case (Cons c cs)
  obtain oc w1 where c: "exec_command c w = (oc, w1)" by (metis surj_pair)
  obtain ocs1 w2 where r: "exec_session cs w1 = (ocs1, w2)" by (metis surj_pair)
  have "w2 = w'" using Cons.prems(2) c r by simp
  moreover have "wf_registry (reg w1)" using command_wf [OF Cons.prems(1) c] .
  ultimately show ?case using Cons.IH r by blast
qed

theorem exec_session_wf_witness:
  "wf_registry (reg (snd (exec_session [Register ''app.digits'', DeletePipeline ''digits'' (Some ''1'') True,
      ListRuns \<lparr>la_name = None, la_page = 1, la_size = 20\<rparr>] demo_world)))"
  using exec_session_wf [of demo_world "[Register ''app.digits'', DeletePipeline ''digits'' (Some ''1'') True,
      ListRuns \<lparr>la_name = None, la_page = 1, la_size = 20\<rparr>]"
      "fst (exec_session [Register ''app.digits'', DeletePipeline ''digits'' (Some ''1'') True,
      ListRuns \<lparr>la_name = None, la_page = 1, la_size = 20\<rparr>] demo_world)"
      "snd (exec_session [Register ''app.digits'', DeletePipeline ''digits'' (Some ''1'') True,
      ListRuns \<lparr>la_name = None, la_page = 1, la_size = 20\<rparr>] demo_world)"] demo_world_wf
  by simp

text \<open>
  C19. Registering the same pipeline \<open>k\<close> times in a row succeeds every time and
  assigns the versions \<open>v, v + 1, \<dots>, v + k - 1\<close> from the next version \<open>v\<close> of
  the name: strictly increasing, with no gap and no duplicate (\<open>v = 1\<close> for a new name).
\<close>

theorem register_repeated_versions:
  assumes dot: "CHR ''.'' \<in> set s" and src: "sources w s = Loaded (PipelineObject name spec)"
    and run: "exec_session (replicate k (Register s)) w = (ocs, w')"
  shows "ocs = replicate k Success
    \<and> versions_of (reg w') name
        = versions_of (reg w) name @ [next_version (reg w) name..<next_version (reg w) name + k]"
  using src run
proof (induction k arbitrary: w ocs)
  case 0
  then show ?case by simp
next
  case (Suc k)
  obtain oc w1 where c: "register_pipeline s w = (oc, w1)" by (metis surj_pair)
  obtain ocs1 w2 where r: "exec_session (replicate k (Register s)) w1 = (ocs1, w2)" by (metis surj_pair)
  have eff: "oc = Success \<and> sources w1 = sources w
    \<and> reg w1 = (reg w)\<lparr>pipelines := pipelines (reg w) @
          [\<lparr>pl_id = next_id (reg w), pl_name = name, pl_version = next_version (reg w) name, pl_spec = spec\<rparr>],
        next_id := Suc (next_id (reg w))\<rparr>"
    by (rule register_pipeline_loaded [OF dot Suc.prems(1) c])
  have "w2 = w'" and ocs: "ocs = oc # ocs1" using Suc.prems(2) c r by simp_all
  then have ih: "ocs1 = replicate k Success
      \<and> versions_of (reg w') name = versions_of (reg w1) name @ [next_version (reg w1) name..<next_version (reg w1) name + k]"
    using Suc.IH [of w1 ocs1] eff Suc.prems(1) r by simp
  moreover have "next_version (reg w1) name = Suc (next_version (reg w) name)"
    using eff by (simp add: next_version_append)
  moreover have "versions_of (reg w1) name = versions_of (reg w) name @ [next_version (reg w) name]"
    using eff by (simp add: versions_of_append)
  ultimately show ?case
    using ocs eff by (simp add: upt_conv_Cons del: upt_Suc)
qed

theorem register_repeated_versions_witness:
  "fst (exec_session (replicate 3 (Register ''app.digits'')) fresh_world) = replicate 3 Success
   \<and> versions_of (reg (snd (exec_session (replicate 3 (Register ''app.digits'')) fresh_world))) ''digits'' = [1..<4]"
  using register_repeated_versions [of "''app.digits''" fresh_world "''digits''" "''s3''" 3
      "fst (exec_session (replicate 3 (Register ''app.digits'')) fresh_world)"
      "snd (exec_session (replicate 3 (Register ''app.digits'')) fresh_world)"]
  by (simp add: fresh_world_def demo_world_def versions_of_def next_version_def del: upt_Suc)

end
